theory Spec2Isabelle
  imports Complex_Main
begin

section \<open>Values\<close>

text \<open>
  The C++ \<open>float\<close> and \<open>double\<close> values of \<open>selfdrive/ui/ui.cc\<close> are modelled as
  reals: rounding is left out, and with it the underflow of a small result to zero. The
  projection, whose results may be infinite or NaN, works on \<open>flt\<close>: a finite value, one
  of the two infinities, or a NaN. An operation on finite operands gives the exact result,
  or the infinity of its sign when that exceeds \<open>FLT_MAX\<close>, the largest finite \<open>float\<close>,
  in magnitude; on other operands it follows IEEE 754 (an infinity times zero, the sum of
  the two infinities and the quotient of two infinities are NaN; a finite value divided by
  an infinity is zero; a NaN operand gives NaN). Zero has no sign here and counts as
  positive: a nonzero value divided by zero gives the infinity of the dividend's sign, and
  zero divided by zero gives NaN.
\<close>

datatype flt = Fin real | PInf | NInf | NaN

definition FLT_MAX :: real where
  "FLT_MAX = 340282346638528859811704183484516925440"

definition to_flt :: "real \<Rightarrow> flt" where
  "to_flt r = (if FLT_MAX < r then PInf else if r < - FLT_MAX then NInf else Fin r)"

fun fadd :: "flt \<Rightarrow> flt \<Rightarrow> flt" where
  "fadd (Fin a) (Fin b) = to_flt (a + b)"
| "fadd NaN y = NaN"
| "fadd x NaN = NaN"
| "fadd PInf NInf = NaN"
| "fadd NInf PInf = NaN"
| "fadd PInf y = PInf"
| "fadd x PInf = PInf"
| "fadd NInf y = NInf"
| "fadd x NInf = NInf"

fun fmul :: "flt \<Rightarrow> flt \<Rightarrow> flt" where
  "fmul (Fin a) (Fin b) = to_flt (a * b)"
| "fmul NaN y = NaN"
| "fmul x NaN = NaN"
| "fmul PInf (Fin b) = (if b = 0 then NaN else if 0 < b then PInf else NInf)"
| "fmul NInf (Fin b) = (if b = 0 then NaN else if 0 < b then NInf else PInf)"
| "fmul (Fin a) PInf = (if a = 0 then NaN else if 0 < a then PInf else NInf)"
| "fmul (Fin a) NInf = (if a = 0 then NaN else if 0 < a then NInf else PInf)"
| "fmul PInf PInf = PInf"
| "fmul NInf NInf = PInf"
| "fmul PInf NInf = NInf"
| "fmul NInf PInf = NInf"

fun fdiv :: "flt \<Rightarrow> flt \<Rightarrow> flt" where
  "fdiv (Fin a) (Fin b) =
     (if b = 0 then (if a = 0 then NaN else if 0 < a then PInf else NInf)
      else to_flt (a / b))"
| "fdiv NaN y = NaN"
| "fdiv x NaN = NaN"
| "fdiv (Fin a) PInf = Fin 0"
| "fdiv (Fin a) NInf = Fin 0"
| "fdiv PInf (Fin b) = (if 0 \<le> b then PInf else NInf)"
| "fdiv NInf (Fin b) = (if 0 \<le> b then NInf else PInf)"
| "fdiv PInf y = NaN"
| "fdiv NInf y = NaN"

text \<open>
  \<open>lo <= v && v <= hi\<close> for finite bounds: an infinity fails one of the two
  comparisons and a NaN fails both.
\<close>

fun in_range :: "real \<Rightarrow> flt \<Rightarrow> real \<Rightarrow> bool" where
  "in_range lo (Fin r) hi = (lo \<le> r \<and> r \<le> hi)"
| "in_range lo PInf hi = False"
| "in_range lo NInf hi = False"
| "in_range lo NaN hi = False"

fun is_finite :: "flt \<Rightarrow> bool" where
  "is_finite (Fin r) = True"
| "is_finite PInf = False"
| "is_finite NInf = False"
| "is_finite NaN = False"

text \<open>\<open>std::clamp(v, lo, hi)\<close>.\<close>

definition clamp :: "real \<Rightarrow> real \<Rightarrow> real \<Rightarrow> real" where
  "clamp val lo hi = (if val < lo then lo else if hi < val then hi else val)"

text \<open>Conversion of a float to \<open>int\<close>: truncation toward zero.\<close>

definition trunc :: "real \<Rightarrow> int" where
  "trunc r = (if 0 \<le> r then \<lfloor>r\<rfloor> else \<lceil>r\<rceil>)"

datatype error = IndexOutOfBounds | AssertionFailed | NonFinite

definition bindE :: "error + 'a \<Rightarrow> ('a \<Rightarrow> error + 'b) \<Rightarrow> error + 'b" where
  "bindE m f = (case m of Inl e \<Rightarrow> Inl e | Inr a \<Rightarrow> f a)"

text \<open>Reading element \<open>i\<close> of a message list or of a C array.\<close>

definition idx :: "'a list \<Rightarrow> int \<Rightarrow> error + 'a" where
  "idx xs i = (if 0 \<le> i \<and> i < int (length xs) then Inr (xs ! nat i) else Inl IndexOutOfBounds)"

text \<open>Writing element \<open>i\<close> of a C array.\<close>

definition store :: "'a list \<Rightarrow> int \<Rightarrow> 'a \<Rightarrow> error + 'a list" where
  "store xs i a = (if 0 \<le> i \<and> i < int (length xs) then Inr (xs[nat i := a]) else Inl IndexOutOfBounds)"

section \<open>Data\<close>

text \<open>\<open>vec3\<close> is \<open>float v[3]\<close>, \<open>mat3\<close> is \<open>float v[9]\<close> in row-major order.\<close>

datatype vec3 = vec3 (v0: flt) (v1: flt) (v2: flt)

datatype mat3 = mat3 real real real real real real real real real

text \<open>
  Modelled from the spec: \<open>matvecmul3\<close> and \<open>matmul3\<close> of \<open>selfdrive/common/mat.h\<close>, the
  product of a row-major 3x3 matrix with a vector (4.3: rotate the point with the calibration
  rotation, then apply the camera's intrinsic matrix) and with a matrix. The entries of a
  matrix are finite.
\<close>

fun matvecmul3 :: "mat3 \<Rightarrow> vec3 \<Rightarrow> vec3" where
  "matvecmul3 (mat3 m0 m1 m2 m3 m4 m5 m6 m7 m8) (vec3 a b c) =
     vec3 (fadd (fadd (fmul (Fin m0) a) (fmul (Fin m1) b)) (fmul (Fin m2) c))
          (fadd (fadd (fmul (Fin m3) a) (fmul (Fin m4) b)) (fmul (Fin m5) c))
          (fadd (fadd (fmul (Fin m6) a) (fmul (Fin m7) b)) (fmul (Fin m8) c))"

fun matmul3 :: "mat3 \<Rightarrow> mat3 \<Rightarrow> mat3" where
  "matmul3 (mat3 a0 a1 a2 a3 a4 a5 a6 a7 a8) (mat3 b0 b1 b2 b3 b4 b5 b6 b7 b8) =
     mat3 (a0 * b0 + a1 * b3 + a2 * b6) (a0 * b1 + a1 * b4 + a2 * b7) (a0 * b2 + a1 * b5 + a2 * b8)
          (a3 * b0 + a4 * b3 + a5 * b6) (a3 * b1 + a4 * b4 + a5 * b7) (a3 * b2 + a4 * b5 + a5 * b8)
          (a6 * b0 + a7 * b3 + a8 * b6) (a6 * b1 + a7 * b4 + a8 * b7) (a6 * b2 + a7 * b5 + a8 * b8)"

text \<open>
  \<open>vertex_data\<close> is \<open>struct { float x, y; }\<close>; the fields are named \<open>vx\<close> and \<open>vy\<close>
  here. \<open>line_vertices_data\<close> is a fixed array \<open>v\<close> (here \<open>vs\<close>, its length the
  capacity) and the count \<open>cnt\<close> of vertices in use.
\<close>

record vertex_data =
  vx :: flt
  vy :: flt

record line_vertices_data =
  vs :: "vertex_data list"
  cnt :: int

text \<open>The six floats of a NanoVG transform, \<open>t[0]\<close> to \<open>t[5]\<close>.\<close>

datatype xform = xform (xf0: real) (xf1: real) (xf2: real) (xf3: real) (xf4: real) (xf5: real)

text \<open>
  \<open>nvgTransformPoint\<close> of the NanoVG library:
  \<open>dx = sx*t[0] + sy*t[2] + t[4]; dy = sx*t[1] + sy*t[3] + t[5]\<close>.
\<close>

fun nvgTransformPoint :: "xform \<Rightarrow> flt \<Rightarrow> flt \<Rightarrow> vertex_data" where
  "nvgTransformPoint (xform t0 t1 t2 t3 t4 t5) sx sy =
     \<lparr>vx = fadd (fadd (fmul sx (Fin t0)) (fmul sy (Fin t2))) (Fin t4),
      vy = fadd (fadd (fmul sx (Fin t1)) (fmul sy (Fin t3))) (Fin t5)\<rparr>"

subsection \<open>Messages\<close>

record XYZTData =
  getX :: "real list"
  getY :: "real list"
  getZ :: "real list"

text \<open>A lead of \<open>getLeadsV3\<close>: its \<open>getProb\<close>, \<open>getX\<close> and \<open>getY\<close>.\<close>

record LeadDataV3 =
  getProb :: real
  getLeadX :: "real list"
  getLeadY :: "real list"

record ModelDataV2 =
  getPosition :: XYZTData
  getLaneLines :: "XYZTData list"
  getLaneLineProbs :: "real list"
  getRoadEdges :: "XYZTData list"
  getRoadEdgeStds :: "real list"
  getLeadsV3 :: "LeadDataV3 list"

record LateralPlan =
  getLaneWidth :: real
  getDProb :: real
  getLProb :: real
  getRProb :: real
  getLanelessMode :: int

record CarState =
  getFrictionBrakePercent :: int
  getOnePedalModeActive :: bool
  getCoastOnePedalModeActive :: bool
  getSteeringPressed :: bool
  getSteeringAngleDeg :: real
  getEngineRPM :: real
  getAEgo :: real
  getVEgo :: real
  getSteeringTorqueEps :: real

datatype AlertStatus = NORMAL | USER_PROMPT | CRITICAL

record ControlsState =
  getEngageable :: bool
  getAngleError :: real
  getVCruise :: real
  getAlertStatus :: AlertStatus
  getEnabled :: bool

datatype UIStatus = STATUS_DISENGAGED | STATUS_ENGAGED | STATUS_WARNING | STATUS_ALERT

record PandaState =
  getIgnitionLine :: bool
  getIgnitionCan :: bool

text \<open>
  A sensor event is a union; \<open>update_state\<close> reads the vector \<open>getV\<close> of an
  acceleration and of an uncalibrated gyroscope event.
\<close>

datatype SensorEventData = ACCELERATION "real list" | GYRO_UNCALIBRATED "real list" | OTHER_EVENT

record RoadCameraState =
  getGain :: real
  getIntegLines :: int

text \<open>
  \<open>SubMaster\<close>: \<open>updated sm name\<close> is \<open>sm.updated(name)\<close>, the other fields are the
  last message of each topic that the modelled code reads. \<open>liveCalibration\<close> holds
  \<open>euler2rot(rpy)\<close> of the message's \<open>getRpyCalib\<close>, the rotation \<open>device_from_calib\<close>.
\<close>

record SubMaster =
  frame :: nat
  updated :: "string \<Rightarrow> bool"
  modelV2 :: ModelDataV2
  lateralPlan :: LateralPlan
  carState :: CarState
  controlsState :: ControlsState
  liveCalibration :: mat3
  pandaState :: PandaState
  sensorEvents :: "SensorEventData list"
  roadCameraState :: RoadCameraState
  deviceState_getStarted :: bool
  gpsLocationExternal_getAltitude :: real

text \<open>
  The values of the parameter store that \<open>update_state\<close> and \<open>update_status\<close> read
  (\<open>Params().getBool\<close>, and \<open>std::stoi(Params().get(...))\<close> for the numbers).
\<close>

record Params =
  OnePedalMode :: bool
  DisableDisengageOnGas :: bool
  OnePedalModeEngageOnGas :: bool
  OnePedalPauseBlinkerSteering :: bool
  EndToEndToggle :: bool
  LanelessMode :: int
  FrictionBrakePercent :: int
  MeasureNumSlots :: int
  MeasureSlots :: "int list"
  EnableWideCamera :: bool
  SpeedLimitControl :: bool
  SpeedLimitPercOffset :: bool
  ShowDebugUI :: bool

datatype VisionStream = VISION_STREAM_RGB_BACK | VISION_STREAM_RGB_WIDE

text \<open>
  Modelled from the spec: \<open>FirstOrderFilter\<close> of \<open>selfdrive/common/util.h\<close>, the exponential
  low-pass filter of 4.1. It holds the filtered value and the gain; the constructor takes the
  start value, the time constant and the tick interval, and \<open>update(x)\<close> moves the value
  toward \<open>x\<close> by the gain, \<open>y' = y + (x - y) * k\<close>, where \<open>k\<close> is the discrete
  approximation \<open>(dt / ts) / (1 + dt / ts)\<close> of \<open>1 - exp (- dt / ts)\<close>.
\<close>

record FirstOrderFilter =
  filter_x :: real
  filter_k :: real

text \<open>The members of \<open>Device\<close> that the two updates use.\<close>

record Device =
  brightness_filter :: FirstOrderFilter
  awake :: bool
  awake_timeout :: int
  last_brightness :: int
  accel_prev :: real
  gyro_prev :: real
  accel_samples :: int

subsection \<open>Constants of the missing headers\<close>

text \<open>
  The intrinsic matrices, the draw distances, \<open>TRAJECTORY_SIZE\<close>, \<open>UI_FREQ\<close> and the
  hardware kind (\<open>Hardware::TICI()\<close>, \<open>Hardware::EON()\<close>) are declared in headers that
  are not part of the sources at hand; they are parameters. So is the transform that
  \<open>ui_resize\<close> of \<open>paint.cc\<close> computes from the camera choice and the frame size.
\<close>

record ui_consts =
  fcam_intrinsic_matrix :: mat3
  ecam_intrinsic_matrix :: mat3
  MIN_DRAW_DISTANCE :: real
  MAX_DRAW_DISTANCE :: real
  TRAJECTORY_SIZE :: nat
  UI_FREQ :: nat
  hw_TICI :: bool
  hw_EON :: bool
  resize_transform :: "bool \<Rightarrow> int \<Rightarrow> int \<Rightarrow> xform"

text \<open>
  Modelled from the spec: \<open>percentGradeNumSamples\<close>, a member of \<open>UIScene\<close> declared in
  \<open>ui.h\<close>, is the fixed capacity N = 5 of the rolling average (4.1); the reset loop of
  \<open>update_status\<close> hard-codes the same 5.
\<close>

definition percentGradeNumSamples :: int where
  "percentGradeNumSamples = 5"

subsection \<open>The scene\<close>

record UIScene =
  view_from_calib :: mat3
  world_objects_visible :: bool
  lane_line_probs :: "real list"
  lane_line_vertices :: "line_vertices_data list"
  road_edge_stds :: "real list"
  road_edge_vertices :: "line_vertices_data list"
  track_vertices :: line_vertices_data
  lead_vertices :: "vertex_data list"
  lateral_plan :: LateralPlan
  started :: bool
  ignition :: bool
  light_sensor :: real
  accel_sensor :: real
  gyro_sensor :: real
  altitudeUblox :: real
  lastTime :: real
  onePedalModeActive :: bool
  disableDisengageOnGasEnabled :: bool
  onePedalEngageOnGasEnabled :: bool
  onePedalPauseSteering :: bool
  paramsCheckLast :: real
  paramsCheckFreq :: real
  controls_state :: ControlsState
  car_state :: CarState
  angleSteersDes :: real
  brake_percent :: int
  brake_indicator_alpha :: real
  brake_indicator_last_t :: real
  one_pedal_fade :: real
  one_pedal_fade_last_t :: real
  sessionInitTime :: real
  steerOverride :: bool
  angleSteers :: real
  engineRPM :: int
  aEgo :: real
  jEgo :: real
  lastAEgo :: real
  steeringTorqueEps :: real
  percentGrade :: real
  percentGradeCurDist :: real
  percentGradeLenStep :: real
  percentGradeLastTime :: real
  percentGradeRollingIter :: int
  percentGradeIterRolled :: bool
  percentGradeAltitudes :: "real list"
  percentGradePositions :: "real list"
  percentGrades :: "real list"
  started_frame :: nat
  end_to_end :: bool
  laneless_mode :: int
  measure_cur_num_slots :: int
  measure_max_num_slots :: int
  measure_slots :: "int list"
  speed_limit_control_enabled :: bool
  speed_limit_perc_offset :: bool
  show_debug_ui :: bool

text \<open>
  \<open>vg\<close> is whether the pointer \<open>s->vg\<close> is set. \<open>started_prev\<close> is the static local
  of \<open>update_status\<close>. \<open>vipc_client\<close> says which of the two clients \<open>s->vipc_client\<close>
  points to, and each client has its \<open>connected\<close> flag.
\<close>

record UIState =
  scene :: UIScene
  status :: UIStatus
  wide_camera :: bool
  car_space_transform :: xform
  fb_w :: int
  fb_h :: int
  vg :: bool
  started_prev :: bool
  vipc_client :: VisionStream
  vipc_rear_connected :: bool
  vipc_wide_connected :: bool

section \<open>Projection\<close>

text \<open>
  \<open>calib_frame_to_full_frame\<close> writes \<open>*out\<close> in every call and returns whether the
  point is within the frame and its margin; the model returns both. The coordinates of a
  message are reals, so finite; one beyond \<open>FLT_MAX\<close> in magnitude enters as the infinity
  of its sign.
\<close>

definition calib_frame_to_full_frame ::
    "ui_consts \<Rightarrow> UIState \<Rightarrow> real \<Rightarrow> real \<Rightarrow> real \<Rightarrow> vertex_data \<times> bool" where
  "calib_frame_to_full_frame c s in_x in_y in_z =
     (let margin = 500;
          pt = vec3 (to_flt in_x) (to_flt in_y) (to_flt in_z);
          Ep = matvecmul3 (view_from_calib (scene s)) pt;
          KEp = matvecmul3 (if wide_camera s then ecam_intrinsic_matrix c
                            else fcam_intrinsic_matrix c) Ep;
          x = fdiv (v0 KEp) (v2 KEp);
          y = fdiv (v1 KEp) (v2 KEp);
          out = nvgTransformPoint (car_space_transform s) x y
      in (out, in_range (- margin) (vx out) (real_of_int (fb_w s) + margin)
               \<and> in_range (- margin) (vy out) (real_of_int (fb_h s) + margin)))"

section \<open>Path geometry\<close>

text \<open>
  \<open>get_path_length_idx\<close>: the loop
  \<open>for (i = 0; i < TRAJECTORY_SIZE && line_x[i] < path_height; ++i) max_idx = i\<close>,
  started at \<open>i = 0\<close> and \<open>max_idx = 0\<close>.
\<close>

function path_length_loop :: "ui_consts \<Rightarrow> real list \<Rightarrow> real \<Rightarrow> nat \<Rightarrow> int \<Rightarrow> error + int" where
  "path_length_loop c line_x path_height i max_idx =
     (if i < TRAJECTORY_SIZE c then
        bindE (idx line_x (int i)) (\<lambda>xi.
          if xi < path_height then path_length_loop c line_x path_height (Suc i) (int i)
          else Inr max_idx)
      else Inr max_idx)"
  by pat_completeness auto
termination
  by (relation "measure (\<lambda>(c, line_x, path_height, i, max_idx). TRAJECTORY_SIZE c - i)") auto

declare path_length_loop.simps [simp del]

definition get_path_length_idx :: "ui_consts \<Rightarrow> XYZTData \<Rightarrow> real \<Rightarrow> error + int" where
  "get_path_length_idx c line path_height = path_length_loop c (getX line) path_height 0 0"

text \<open>
  One pass of \<open>update_line_data\<close> over the indices \<open>is\<close>, with the lateral offset \<open>dy\<close>
  added to \<open>line_y[i]\<close>. The pointer \<open>v\<close> of the source is the array with the offset \<open>n\<close>
  of the next slot: every call of the projection writes slot \<open>n\<close>, and \<open>n\<close> advances
  when the point is visible.
\<close>

fun line_pass :: "ui_consts \<Rightarrow> UIState \<Rightarrow> XYZTData \<Rightarrow> real \<Rightarrow> real \<Rightarrow> int list
    \<Rightarrow> vertex_data list \<times> int \<Rightarrow> error + (vertex_data list \<times> int)" where
  "line_pass c s line dy z_off [] (buf, n) = Inr (buf, n)"
| "line_pass c s line dy z_off (i # is) (buf, n) =
     bindE (idx (getX line) i) (\<lambda>lx.
     bindE (idx (getY line) i) (\<lambda>ly.
     bindE (idx (getZ line) i) (\<lambda>lz.
       let (out, visible) = calib_frame_to_full_frame c s lx (ly + dy) (lz + z_off) in
       bindE (store buf n out) (\<lambda>buf'.
         line_pass c s line dy z_off is (buf', if visible then n + 1 else n)))))"

definition update_line_data ::
    "ui_consts \<Rightarrow> UIState \<Rightarrow> XYZTData \<Rightarrow> real \<Rightarrow> real \<Rightarrow> line_vertices_data \<Rightarrow> int
     \<Rightarrow> error + line_vertices_data" where
  "update_line_data c s line y_off z_off pvd max_idx =
     bindE (line_pass c s line (- y_off) z_off [0..max_idx] (vs pvd, 0)) (\<lambda>(buf1, n1).
     bindE (line_pass c s line y_off z_off (rev [0..max_idx]) (buf1, n1)) (\<lambda>(buf2, n2).
       if n2 \<le> int (length buf2) then Inr (pvd\<lparr>vs := buf2, cnt := n2\<rparr>)
       else Inl AssertionFailed))"

text \<open>The loop of \<open>update_leads\<close> over the lead indices \<open>is\<close> (0 and 1 in the source).\<close>

fun update_leads_loop :: "ui_consts \<Rightarrow> ModelDataV2 \<Rightarrow> int list \<Rightarrow> UIState \<Rightarrow> error + UIState" where
  "update_leads_loop c model [] s = Inr s"
| "update_leads_loop c model (i # is) s =
     bindE (idx (getLeadsV3 model) i) (\<lambda>lead.
       if getProb lead > 0.5 then
         bindE (idx (getLeadX lead) 0) (\<lambda>lead_x.
         bindE (get_path_length_idx c (getPosition model) lead_x) (\<lambda>k.
         bindE (idx (getZ (getPosition model)) k) (\<lambda>z.
         bindE (idx (getLeadY lead) 0) (\<lambda>lead_y.
         bindE (store (lead_vertices (scene s)) i
                  (fst (calib_frame_to_full_frame c s lead_x lead_y (z + 1.22)))) (\<lambda>lv.
           update_leads_loop c model is (s\<lparr>scene := (scene s)\<lparr>lead_vertices := lv\<rparr>\<rparr>))))))
       else update_leads_loop c model is s)"

definition update_leads :: "ui_consts \<Rightarrow> UIState \<Rightarrow> ModelDataV2 \<Rightarrow> error + UIState" where
  "update_leads c s model = update_leads_loop c model [0, 1] s"

text \<open>
  The two draw distances of \<open>update_model\<close>: the far end of the trajectory clamped to the
  configured range, and the distance of the path, shortened when the first lead is likely.
\<close>

definition draw_distance :: "ui_consts \<Rightarrow> ModelDataV2 \<Rightarrow> error + real" where
  "draw_distance c model =
     bindE (idx (getX (getPosition model)) (int (TRAJECTORY_SIZE c) - 1)) (\<lambda>far.
       Inr (clamp far (MIN_DRAW_DISTANCE c) (MAX_DRAW_DISTANCE c)))"

definition path_distance :: "ModelDataV2 \<Rightarrow> real \<Rightarrow> error + real" where
  "path_distance model max_distance =
     bindE (idx (getLeadsV3 model) 0) (\<lambda>lead_one.
       if getProb lead_one > 0.5 then
         bindE (idx (getLeadX lead_one) 0) (\<lambda>x0.
           let lead_d = x0 * 2 in
           Inr (clamp (lead_d - min (lead_d * 0.35) 10) 0 max_distance))
       else Inr max_distance)"

fun lane_lines_loop :: "ui_consts \<Rightarrow> ModelDataV2 \<Rightarrow> int \<Rightarrow> int list \<Rightarrow> UIState \<Rightarrow> error + UIState" where
  "lane_lines_loop c model max_idx [] s = Inr s"
| "lane_lines_loop c model max_idx (i # is) s =
     bindE (idx (getLaneLineProbs model) i) (\<lambda>p.
     bindE (store (lane_line_probs (scene s)) i p) (\<lambda>probs.
       let s1 = s\<lparr>scene := (scene s)\<lparr>lane_line_probs := probs\<rparr>\<rparr> in
       bindE (idx (getLaneLines model) i) (\<lambda>line.
       bindE (idx (lane_line_vertices (scene s1)) i) (\<lambda>pvd.
       bindE (update_line_data c s1 line (0.025 * p) 0 pvd max_idx) (\<lambda>pvd'.
       bindE (store (lane_line_vertices (scene s1)) i pvd') (\<lambda>lv.
         lane_lines_loop c model max_idx is
           (s1\<lparr>scene := (scene s1)\<lparr>lane_line_vertices := lv\<rparr>\<rparr>)))))))"

fun road_edges_loop :: "ui_consts \<Rightarrow> ModelDataV2 \<Rightarrow> int \<Rightarrow> int list \<Rightarrow> UIState \<Rightarrow> error + UIState" where
  "road_edges_loop c model max_idx [] s = Inr s"
| "road_edges_loop c model max_idx (i # is) s =
     bindE (idx (getRoadEdgeStds model) i) (\<lambda>sd.
     bindE (store (road_edge_stds (scene s)) i sd) (\<lambda>stds.
       let s1 = s\<lparr>scene := (scene s)\<lparr>road_edge_stds := stds\<rparr>\<rparr> in
       bindE (idx (getRoadEdges model) i) (\<lambda>line.
       bindE (idx (road_edge_vertices (scene s1)) i) (\<lambda>pvd.
       bindE (update_line_data c s1 line 0.025 0 pvd max_idx) (\<lambda>pvd'.
       bindE (store (road_edge_vertices (scene s1)) i pvd') (\<lambda>rv.
         road_edges_loop c model max_idx is
           (s1\<lparr>scene := (scene s1)\<lparr>road_edge_vertices := rv\<rparr>\<rparr>)))))))"

definition update_model :: "ui_consts \<Rightarrow> SubMaster \<Rightarrow> UIState \<Rightarrow> ModelDataV2 \<Rightarrow> error + UIState" where
  "update_model c sm s model =
     bindE (draw_distance c model) (\<lambda>max_distance.
     bindE (idx (getLaneLines model) 0) (\<lambda>line0.
     bindE (get_path_length_idx c line0 max_distance) (\<lambda>max_idx.
     bindE (lane_lines_loop c model max_idx
              [0..int (length (lane_line_vertices (scene s))) - 1] s) (\<lambda>s1.
     bindE (road_edges_loop c model max_idx
              [0..int (length (road_edge_vertices (scene s1))) - 1] s1) (\<lambda>s2.
       let s3 = s2\<lparr>scene := (scene s2)\<lparr>lateral_plan := lateralPlan sm\<rparr>\<rparr> in
       bindE (path_distance model max_distance) (\<lambda>max_distance'.
       bindE (get_path_length_idx c (getPosition model) max_distance') (\<lambda>max_idx'.
       bindE (update_line_data c s3 (getPosition model) 0.5 1.22
                (track_vertices (scene s3)) max_idx') (\<lambda>tv.
         Inr (s3\<lparr>scene := (scene s3)\<lparr>track_vertices := tv\<rparr>\<rparr>)))))))))"

section \<open>The scene update\<close>

definition fade_duration :: real where
  "fade_duration = 0.3"

definition fade_time_step :: real where
  "fade_time_step = 1 / fade_duration"

text \<open>The brake indicator of the \<open>carState\<close> block of \<open>update_state\<close>.\<close>

definition update_brake_indicator :: "real \<Rightarrow> UIScene \<Rightarrow> UIScene" where
  "update_brake_indicator t sc0 =
     (let sc = sc0\<lparr>brake_percent := getFrictionBrakePercent (car_state sc0)\<rparr>;
          sc = (if brake_percent sc > 0 then
                  (let a = brake_indicator_alpha sc
                             + fade_time_step * (t - brake_indicator_last_t sc)
                   in sc\<lparr>brake_indicator_alpha := (if a > 1 then 1 else a)\<rparr>)
                else if brake_indicator_alpha sc > 0 then
                  (let a = brake_indicator_alpha sc
                             - fade_time_step * (t - brake_indicator_last_t sc)
                   in sc\<lparr>brake_indicator_alpha := (if a < 0 then 0 else a)\<rparr>)
                else sc)
      in sc\<lparr>brake_indicator_last_t := t\<rparr>)"

text \<open>The one-pedal fade of the same block; \<open>st\<close> is \<open>s->status\<close>.\<close>

definition update_one_pedal_fade :: "real \<Rightarrow> UIStatus \<Rightarrow> UIScene \<Rightarrow> UIScene" where
  "update_one_pedal_fade t st sc0 =
     (let sc = (if t - sessionInitTime sc0 > 10 then
                  (if (getOnePedalModeActive (car_state sc0)
                         \<or> getCoastOnePedalModeActive (car_state sc0))
                       \<or> (st = STATUS_DISENGAGED \<and> getVCruise (controls_state sc0) < 5
                            \<and> (onePedalModeActive sc0 \<or> disableDisengageOnGasEnabled sc0)) then
                     (let f = one_pedal_fade sc0
                                + fade_time_step * (t - one_pedal_fade_last_t sc0)
                      in sc0\<lparr>one_pedal_fade := (if f > 1 then 1 else f)\<rparr>)
                   else if one_pedal_fade sc0 > - 1 then
                     (let f = one_pedal_fade sc0
                                - fade_time_step * (t - one_pedal_fade_last_t sc0)
                      in sc0\<lparr>one_pedal_fade := (if f < - 1 then - 1 else f)\<rparr>)
                   else sc0)
                else sc0)
      in sc\<lparr>one_pedal_fade_last_t := t\<rparr>)"

text \<open>
  Steering, engine speed, acceleration and jerk of the same block. The conversion of the
  rounded engine speed to \<open>int\<close> and its product with 100 are exact here: an engine speed
  beyond the range of a 32-bit \<open>int\<close> is left out.
\<close>

definition update_car_values :: "real \<Rightarrow> UIScene \<Rightarrow> UIScene" where
  "update_car_values t sc0 =
     (let sc = sc0\<lparr>steerOverride := getSteeringPressed (car_state sc0),
                    angleSteers := getSteeringAngleDeg (car_state sc0),
                    engineRPM := trunc (getEngineRPM (car_state sc0) / 100 + 0.5) * 100,
                    aEgo := getAEgo (car_state sc0)\<rparr>;
          dt = t - lastTime sc;
          sc = (if dt > 0 then sc\<lparr>jEgo := (aEgo sc - lastAEgo sc) / dt\<rparr>
                else sc\<lparr>jEgo := 0\<rparr>)
      in sc\<lparr>lastAEgo := aEgo sc, steeringTorqueEps := getSteeringTorqueEps (car_state sc)\<rparr>)"

subsection \<open>The rolling grade\<close>

text \<open>
  A float division whose result is used as a number: a zero divisor gives an infinity or a
  NaN, which is the error \<open>NonFinite\<close> here.
\<close>

definition checked_div :: "real \<Rightarrow> real \<Rightarrow> error + real" where
  "checked_div a b = (if b = 0 then Inl NonFinite else Inr (a / b))"

text \<open>
  The loop that computes the initial mean, over the indices \<open>is\<close>, with the sum \<open>u\<close>.
\<close>

fun initial_grade_loop :: "int list \<Rightarrow> UIScene \<Rightarrow> real \<Rightarrow> error + (UIScene \<times> real)" where
  "initial_grade_loop [] sc u = Inr (sc, u)"
| "initial_grade_loop (i # is) sc u =
     bindE (idx (percentGradeAltitudes sc) i) (\<lambda>a0.
     bindE (idx (percentGradeAltitudes sc) ((i + 1) mod percentGradeNumSamples)) (\<lambda>a1.
     bindE (idx (percentGradePositions sc) i) (\<lambda>p0.
     bindE (idx (percentGradePositions sc) ((i + 1) mod percentGradeNumSamples)) (\<lambda>p1.
       let rise = a0 - a1; run = p0 - p1 in
       if run \<noteq> 0 then
         bindE (checked_div rise run) (\<lambda>q.
         bindE (store (percentGrades sc) i (q * 100)) (\<lambda>gs.
           initial_grade_loop is (sc\<lparr>percentGrades := gs\<rparr>) (u + q * 100)))
       else initial_grade_loop is sc u))))"

text \<open>The wrap of the iterator, with the initial mean when the buffer fills the first time.\<close>

definition roll_grade_iter :: "UIScene \<Rightarrow> error + UIScene" where
  "roll_grade_iter sc0 =
     (if percentGradeRollingIter sc0 \<ge> percentGradeNumSamples then
        bindE (if \<not> percentGradeIterRolled sc0 then
                 bindE (initial_grade_loop [0..percentGradeNumSamples - 1]
                          (sc0\<lparr>percentGradeIterRolled := True\<rparr>) 0) (\<lambda>(sc, u).
                 bindE (checked_div u (real_of_int percentGradeNumSamples)) (\<lambda>u'.
                   Inr (sc\<lparr>percentGrade := u'\<rparr>)))
               else Inr sc0) (\<lambda>sc.
          Inr (sc\<lparr>percentGradeRollingIter := 0\<rparr>))
      else Inr sc0)"

text \<open>The incremental update of the mean for the slot just written.\<close>

definition update_rolling_average :: "UIScene \<Rightarrow> error + UIScene" where
  "update_rolling_average sc =
     (let it = percentGradeRollingIter sc in
      bindE (idx (percentGradeAltitudes sc) it) (\<lambda>a0.
      bindE (idx (percentGradeAltitudes sc) ((it + 1) mod percentGradeNumSamples)) (\<lambda>a1.
      bindE (idx (percentGradePositions sc) it) (\<lambda>p0.
      bindE (idx (percentGradePositions sc) ((it + 1) mod percentGradeNumSamples)) (\<lambda>p1.
        let rise = a0 - a1; run = p0 - p1 in
        if run \<noteq> 0 then
          bindE (checked_div rise run) (\<lambda>q.
            let newGrade = q * 100 in
            bindE (idx (percentGrades sc) it) (\<lambda>old.
            bindE (checked_div old (real_of_int percentGradeNumSamples)) (\<lambda>oldc.
            bindE (checked_div newGrade (real_of_int percentGradeNumSamples)) (\<lambda>newc.
            bindE (store (percentGrades sc) it newGrade) (\<lambda>gs.
              Inr (sc\<lparr>percentGrade := percentGrade sc - oldc + newc, percentGrades := gs\<rparr>))))))
        else Inr sc)))))"

text \<open>Recording one sample, once the distance step is exceeded.\<close>

definition record_grade_sample :: "UIScene \<Rightarrow> error + UIScene" where
  "record_grade_sample sc0 =
     bindE (idx (percentGradePositions sc0) (percentGradeRollingIter sc0)) (\<lambda>prevDist.
     bindE (roll_grade_iter
              (sc0\<lparr>percentGradeRollingIter := percentGradeRollingIter sc0 + 1\<rparr>)) (\<lambda>sc1.
     bindE (store (percentGradeAltitudes sc1) (percentGradeRollingIter sc1)
              (altitudeUblox sc1)) (\<lambda>alts.
     bindE (store (percentGradePositions sc1) (percentGradeRollingIter sc1)
              (prevDist + percentGradeCurDist sc1)) (\<lambda>poss.
       let sc2 = sc1\<lparr>percentGradeAltitudes := alts, percentGradePositions := poss\<rparr> in
       bindE (if percentGradeIterRolled sc2 then update_rolling_average sc2 else Inr sc2) (\<lambda>sc3.
         Inr (sc3\<lparr>percentGradeCurDist := 0\<rparr>))))))"

definition update_percent_grade :: "real \<Rightarrow> UIScene \<Rightarrow> error + UIScene" where
  "update_percent_grade t sc0 =
     bindE (if getVEgo (car_state sc0) > 0 then
              (let sc = sc0\<lparr>percentGradeCurDist := percentGradeCurDist sc0
                               + getVEgo (car_state sc0) * (t - percentGradeLastTime sc0)\<rparr>
               in if percentGradeCurDist sc > percentGradeLenStep sc then record_grade_sample sc
                  else Inr sc)
            else Inr sc0) (\<lambda>sc.
       Inr (sc\<lparr>percentGradeLastTime := t\<rparr>))"

text \<open>The whole \<open>carState\<close> block.\<close>

definition update_car_state :: "SubMaster \<Rightarrow> real \<Rightarrow> UIStatus \<Rightarrow> UIScene \<Rightarrow> error + UIScene" where
  "update_car_state sm t st sc =
     update_percent_grade t
       (update_car_values t
         (update_one_pedal_fade t st
           (update_brake_indicator t (sc\<lparr>car_state := carState sm\<rparr>))))"

subsection \<open>The other blocks of \<open>update_state\<close>\<close>

text \<open>
  The blocks that only copy a message field into a scene field that no other modelled code
  reads (engageability, radar, car parameters, device temperatures, satellite count, GPS
  accuracy, the plans) are left out.
\<close>

definition update_state_params :: "Params \<Rightarrow> real \<Rightarrow> UIScene \<Rightarrow> UIScene" where
  "update_state_params p t sc =
     (if t - paramsCheckLast sc > paramsCheckFreq sc then
        sc\<lparr>onePedalModeActive := OnePedalMode p,
           disableDisengageOnGasEnabled := DisableDisengageOnGas p,
           onePedalEngageOnGasEnabled := OnePedalModeEngageOnGas p,
           onePedalPauseSteering := OnePedalPauseBlinkerSteering p\<rparr>
      else sc)"

definition update_state_controls :: "SubMaster \<Rightarrow> UIScene \<Rightarrow> UIScene" where
  "update_state_controls sm sc =
     (if started sc \<and> updated sm ''controlsState'' then
        sc\<lparr>controls_state := controlsState sm,
           car_state := carState sm,
           angleSteersDes := getAngleError (controlsState sm) + getSteeringAngleDeg (carState sm)\<rparr>
      else sc)"

definition update_state_model :: "ui_consts \<Rightarrow> SubMaster \<Rightarrow> UIState \<Rightarrow> error + UIState" where
  "update_state_model c sm s =
     (if updated sm ''modelV2'' \<and> vg s then
        bindE (update_model c sm s (modelV2 sm)) (\<lambda>s1. update_leads c s1 (modelV2 sm))
      else Inr s)"

definition view_from_device :: mat3 where
  "view_from_device = mat3 0 1 0
                           0 0 1
                           1 0 0"

definition update_state_calibration :: "SubMaster \<Rightarrow> UIScene \<Rightarrow> UIScene" where
  "update_state_calibration sm sc =
     (if updated sm ''liveCalibration'' then
        sc\<lparr>world_objects_visible := True,
           view_from_calib := matmul3 view_from_device (liveCalibration sm)\<rparr>
      else sc)"

definition update_state_panda :: "SubMaster \<Rightarrow> UIScene \<Rightarrow> UIScene" where
  "update_state_panda sm sc =
     (if updated sm ''pandaState'' then
        sc\<lparr>ignition := (getIgnitionLine (pandaState sm) \<or> getIgnitionCan (pandaState sm))\<rparr>
      else sc)"

fun sensor_events_loop :: "SensorEventData list \<Rightarrow> UIScene \<Rightarrow> error + UIScene" where
  "sensor_events_loop [] sc = Inr sc"
| "sensor_events_loop (ACCELERATION accel # es) sc =
     bindE (if \<not> started sc \<and> accel \<noteq> [] then
              bindE (idx accel 2) (\<lambda>a. Inr (sc\<lparr>accel_sensor := a\<rparr>))
            else Inr sc) (sensor_events_loop es)"
| "sensor_events_loop (GYRO_UNCALIBRATED gyro # es) sc =
     bindE (if \<not> started sc \<and> gyro \<noteq> [] then
              bindE (idx gyro 1) (\<lambda>g. Inr (sc\<lparr>gyro_sensor := g\<rparr>))
            else Inr sc) (sensor_events_loop es)"
| "sensor_events_loop (OTHER_EVENT # es) sc = sensor_events_loop es sc"

definition update_state_sensors :: "SubMaster \<Rightarrow> UIScene \<Rightarrow> error + UIScene" where
  "update_state_sensors sm sc =
     (if updated sm ''sensorEvents'' then sensor_events_loop (sensorEvents sm) sc else Inr sc)"

text \<open>
  The ambient light. The source tests \<open>Hardware::TICI\<close>, the function and not its result,
  so the division by 6 is done on every hardware.
\<close>

definition update_state_camera :: "ui_consts \<Rightarrow> SubMaster \<Rightarrow> UIScene \<Rightarrow> UIScene" where
  "update_state_camera c sm sc =
     (if updated sm ''roadCameraState'' then
        (let max_lines = (if hw_EON c then 5408 else 1904);
             max_gain = (if hw_EON c then 1.0 else 10.0);
             max_ev = max_lines * max_gain / 6;
             ev = getGain (roadCameraState sm) * real_of_int (getIntegLines (roadCameraState sm))
         in sc\<lparr>light_sensor := clamp (1.0 - ev / max_ev) 0.0 1.0\<rparr>)
      else sc)"

definition update_state_gnss :: "SubMaster \<Rightarrow> UIScene \<Rightarrow> UIScene" where
  "update_state_gnss sm sc =
     (if updated sm ''ubloxGnss'' then sc\<lparr>altitudeUblox := gpsLocationExternal_getAltitude sm\<rparr>
      else sc)"

text \<open>\<open>update_state\<close>; \<open>t\<close> is the value of \<open>seconds_since_boot()\<close>.\<close>

definition update_state :: "ui_consts \<Rightarrow> Params \<Rightarrow> SubMaster \<Rightarrow> real \<Rightarrow> UIState \<Rightarrow> error + UIState" where
  "update_state c p sm t s0 =
     (let sc = update_state_controls sm (update_state_params p t (scene s0)) in
      bindE (if updated sm ''carState'' then update_car_state sm t (status s0) sc else Inr sc)
        (\<lambda>sc1.
      bindE (update_state_model c sm (s0\<lparr>scene := sc1\<rparr>)) (\<lambda>s1.
      bindE (update_state_sensors sm
               (update_state_panda sm (update_state_calibration sm (scene s1)))) (\<lambda>sc2.
        let sc3 = update_state_camera c sm sc2;
            sc4 = sc3\<lparr>started := (deviceState_getStarted sm \<and> ignition sc3)\<rparr>;
            sc5 = update_state_gnss sm sc4
        in Inr (s1\<lparr>scene := sc5\<lparr>lastTime := t\<rparr>\<rparr>)))))"

section \<open>The status update\<close>

text \<open>The reset loop of the rolling grade, over the indices \<open>is\<close> (0 to 4 in the source).\<close>

fun reset_grade_loop :: "int list \<Rightarrow> UIScene \<Rightarrow> error + UIScene" where
  "reset_grade_loop [] sc = Inr sc"
| "reset_grade_loop (i # is) sc =
     bindE (store (percentGradeAltitudes sc) i 0) (\<lambda>alts.
     bindE (store (percentGradePositions sc) i 0) (\<lambda>poss.
     bindE (store (percentGrades sc) i 0) (\<lambda>gs.
       reset_grade_loop is
         (sc\<lparr>percentGradeAltitudes := alts, percentGradePositions := poss,
             percentGrades := gs, percentGradeIterRolled := False,
             percentGradeRollingIter := 0\<rparr>))))"

fun measure_slots_loop :: "Params \<Rightarrow> int list \<Rightarrow> UIScene \<Rightarrow> error + UIScene" where
  "measure_slots_loop p [] sc = Inr sc"
| "measure_slots_loop p (i # is) sc =
     bindE (idx (MeasureSlots p) i) (\<lambda>m.
     bindE (store (measure_slots sc) i m) (\<lambda>ms.
       measure_slots_loop p is (sc\<lparr>measure_slots := ms\<rparr>)))"

text \<open>
  The branch of \<open>update_status\<close> taken when the scene has just started; \<open>now\<close> is the value
  of \<open>seconds_since_boot()\<close> there.
\<close>

definition onroad_setup :: "ui_consts \<Rightarrow> Params \<Rightarrow> SubMaster \<Rightarrow> real \<Rightarrow> UIState \<Rightarrow> error + UIState" where
  "onroad_setup c p sm now s0 =
     (let sc = (scene s0)\<lparr>started_frame := frame sm,
                          end_to_end := EndToEndToggle p,
                          laneless_mode := LanelessMode p,
                          brake_percent := FrictionBrakePercent p,
                          sessionInitTime := now,
                          percentGrade := 0\<rparr> in
      bindE (reset_grade_loop [0..4] sc) (\<lambda>sc1.
      bindE (measure_slots_loop p [0..measure_max_num_slots sc1 - 1]
               (sc1\<lparr>measure_cur_num_slots := MeasureNumSlots p\<rparr>)) (\<lambda>sc2.
        let s1 = s0\<lparr>scene := sc2,
                    status := STATUS_DISENGAGED,
                    wide_camera := (if hw_TICI c then EnableWideCamera p else False)\<rparr>;
            s2 = (if vg s1 then
                    s1\<lparr>car_space_transform := resize_transform c (wide_camera s1) (fb_w s1) (fb_h s1)\<rparr>
                  else s1);
            s3 = s2\<lparr>vipc_client := (if wide_camera s2 then VISION_STREAM_RGB_WIDE
                                     else VISION_STREAM_RGB_BACK)\<rparr>
        in Inr (s3\<lparr>scene := (scene s3)\<lparr>speed_limit_control_enabled := SpeedLimitControl p,
                                       speed_limit_perc_offset := SpeedLimitPercOffset p,
                                       show_debug_ui := ShowDebugUI p\<rparr>\<rparr>))))"

definition update_status :: "ui_consts \<Rightarrow> Params \<Rightarrow> SubMaster \<Rightarrow> real \<Rightarrow> UIState \<Rightarrow> error + UIState" where
  "update_status c p sm now s0 =
     (let s = (if started (scene s0) \<and> updated sm ''controlsState'' then
                 s0\<lparr>status := (if getAlertStatus (controlsState sm) = USER_PROMPT then STATUS_WARNING
                               else if getAlertStatus (controlsState sm) = CRITICAL then STATUS_ALERT
                               else if getEnabled (controlsState sm) then STATUS_ENGAGED
                               else STATUS_DISENGAGED),
                    scene := (scene s0)\<lparr>speed_limit_control_enabled := SpeedLimitControl p\<rparr>\<rparr>
               else s0) in
      bindE (if started (scene s) \<noteq> started_prev s then
               (if started (scene s) then onroad_setup c p sm now s
                else Inr (if vipc_client s = VISION_STREAM_RGB_WIDE
                          then s\<lparr>vipc_wide_connected := False\<rparr>
                          else s\<lparr>vipc_rear_connected := False\<rparr>))
             else Inr s) (\<lambda>s1.
        Inr (s1\<lparr>started_prev := started (scene s1)\<rparr>)))"

section \<open>The vision client\<close>

text \<open>
  \<open>ui_init_vision\<close>, as far as the state goes: the world objects are invisible until the
  next calibration message. The textures are not modelled; \<open>gl_ok\<close> is whether
  \<open>glGetError()\<close> returns \<open>GL_NO_ERROR\<close> at the assertion.
\<close>

definition ui_init_vision :: "bool \<Rightarrow> UIState \<Rightarrow> error + UIState" where
  "ui_init_vision gl_ok s =
     (if gl_ok then Inr (s\<lparr>scene := (scene s)\<lparr>world_objects_visible := False\<rparr>\<rparr>)
      else Inl AssertionFailed)"

text \<open>
  \<open>update_vision\<close>. \<open>connects\<close> is the result of \<open>vipc_client->connect(false)\<close>, which
  sets the flag \<open>connected\<close> of the client when it succeeds. The received frame and the
  sleep are not modelled.
\<close>

definition client_connected :: "UIState \<Rightarrow> bool" where
  "client_connected s =
     (if vipc_client s = VISION_STREAM_RGB_WIDE then vipc_wide_connected s
      else vipc_rear_connected s)"

definition update_vision :: "bool \<Rightarrow> bool \<Rightarrow> UIState \<Rightarrow> error + UIState" where
  "update_vision connects gl_ok s =
     (if \<not> client_connected s \<and> started (scene s) then
        (if connects then
           ui_init_vision gl_ok
             (if vipc_client s = VISION_STREAM_RGB_WIDE then s\<lparr>vipc_wide_connected := True\<rparr>
              else s\<lparr>vipc_rear_connected := True\<rparr>)
         else Inr s)
      else Inr s)"

section \<open>The device\<close>

definition BACKLIGHT_DT :: real where
  "BACKLIGHT_DT = 0.05"

definition BACKLIGHT_TS :: real where
  "BACKLIGHT_TS = 10.00"

definition BACKLIGHT_OFFROAD :: real where
  "BACKLIGHT_OFFROAD = 75"

definition FirstOrderFilter_init :: "real \<Rightarrow> real \<Rightarrow> real \<Rightarrow> FirstOrderFilter" where
  "FirstOrderFilter_init x0 ts dt = \<lparr>filter_x = x0, filter_k = (dt / ts) / (1 + dt / ts)\<rparr>"

definition filter_update :: "FirstOrderFilter \<Rightarrow> real \<Rightarrow> FirstOrderFilter" where
  "filter_update f x = f\<lparr>filter_x := filter_x f + (x - filter_x f) * filter_k f\<rparr>"

text \<open>The response curve of \<open>updateBrightness\<close> (CIE 1931), on the scale 0 to 100.\<close>

definition lightness_curve :: "real \<Rightarrow> real" where
  "lightness_curve b = (if b \<le> 8 then b / 903.3 else ((b + 16.0) / 116.0) ^ 3)"

text \<open>
  The brightness that \<open>updateBrightness\<close> asks the filter for: the response curve of the
  light estimate while onroad, the offroad value otherwise.
\<close>

definition clipped_brightness :: "UIState \<Rightarrow> real" where
  "clipped_brightness s =
     (let b0 = 100.0 * light_sensor (scene s);
          b1 = lightness_curve b0;
          b2 = clamp (100.0 * b1) 10.0 100.0
      in if \<not> started (scene s) then BACKLIGHT_OFFROAD else b2)"

text \<open>
  \<open>Device::updateBrightness\<close>. The second component is the argument of the call of
  \<open>Hardware::set_brightness\<close>, made when the brightness differs from the last one.
\<close>

definition updateBrightness :: "Device \<Rightarrow> UIState \<Rightarrow> Device \<times> int option" where
  "updateBrightness d s =
     (let f = filter_update (brightness_filter d) (clipped_brightness s);
          brightness = (if \<not> awake d then 0 else trunc (filter_x f))
      in (d\<lparr>brightness_filter := f, last_brightness := brightness\<rparr>,
          if brightness \<noteq> last_brightness d then Some brightness else None))"

text \<open>\<open>Device::setAwake\<close>; the display power follows \<open>awake\<close>.\<close>

definition setAwake :: "ui_consts \<Rightarrow> Device \<Rightarrow> bool \<Rightarrow> bool \<Rightarrow> Device" where
  "setAwake c d on reset =
     (let d1 = (if on \<noteq> awake d then d\<lparr>awake := on\<rparr> else d)
      in if reset then d1\<lparr>awake_timeout := 30 * int (UI_FREQ c)\<rparr> else d1)"

text \<open>
  \<open>Device::updateWakefulness\<close>, with the value of \<open>should_wake\<close> that it passes on. The
  division by \<open>accel_samples\<close> is a float division.
\<close>

definition should_wake :: "Device \<Rightarrow> UIState \<Rightarrow> bool" where
  "should_wake d s =
     (if started (scene s) \<or> ignition (scene s) then True
      else (let accel_trigger = \<bar>accel_sensor (scene s) - accel_prev d\<bar> > 0.2;
                gyro_trigger = \<bar>gyro_sensor (scene s) - gyro_prev d\<bar> > 0.15
            in accel_trigger \<and> gyro_trigger))"

definition updateWakefulness :: "ui_consts \<Rightarrow> Device \<Rightarrow> UIState \<Rightarrow> error + Device" where
  "updateWakefulness c d0 s =
     (let d = d0\<lparr>awake_timeout := max (awake_timeout d0 - 1) 0\<rparr> in
      bindE (if \<not> (started (scene s) \<or> ignition (scene s)) then
               bindE (checked_div (accel_prev d * real_of_int (accel_samples d - 1)
                                     + accel_sensor (scene s))
                                  (real_of_int (accel_samples d))) (\<lambda>a.
                 Inr (d\<lparr>gyro_prev := gyro_sensor (scene s), accel_prev := a\<rparr>))
             else Inr d) (\<lambda>d1.
        Inr (setAwake c d1 (awake_timeout d1 \<noteq> 0) (should_wake d s))))"

text \<open>\<open>Device::update\<close>.\<close>

definition Device_update :: "ui_consts \<Rightarrow> Device \<Rightarrow> UIState \<Rightarrow> error + Device" where
  "Device_update c d s = updateWakefulness c (fst (updateBrightness d s)) s"

section \<open>Ticks and runs\<close>

text \<open>
  One tick of \<open>QUIState::update\<close>: \<open>update_state\<close>, \<open>update_status\<close>, then
  \<open>update_vision\<close>. An input holds the parameter store, the \<open>SubMaster\<close> after
  \<open>update_sockets\<close>, the two values of \<open>seconds_since_boot()\<close>, and what the vision client
  and the graphics library answer. (\<open>update_params\<close> reads the unit system, which is not
  part of the modelled state.)
\<close>

record tick_input =
  tick_params :: Params
  tick_sm :: SubMaster
  tick_t :: real
  tick_now :: real
  tick_connects :: bool
  tick_gl_ok :: bool

definition ui_update :: "ui_consts \<Rightarrow> tick_input \<Rightarrow> UIState \<Rightarrow> error + UIState" where
  "ui_update c inp s =
     bindE (update_state c (tick_params inp) (tick_sm inp) (tick_t inp) s) (\<lambda>s1.
     bindE (update_status c (tick_params inp) (tick_sm inp) (tick_now inp) s1)
       (update_vision (tick_connects inp) (tick_gl_ok inp)))"

fun ui_run :: "ui_consts \<Rightarrow> tick_input list \<Rightarrow> UIState \<Rightarrow> error + UIState" where
  "ui_run c [] s = Inr s"
| "ui_run c (inp # inps) s = bindE (ui_update c inp s) (ui_run c inps)"

text \<open>The times \<open>ts\<close> never go back, starting from \<open>t\<close>.\<close>

fun times_from :: "real \<Rightarrow> real list \<Rightarrow> bool" where
  "times_from t [] = True"
| "times_from t (t' # ts) = (t \<le> t' \<and> times_from t' ts)"

text \<open>A run of \<open>Device::update\<close> over the scenes of successive ticks.\<close>

fun device_ticks :: "ui_consts \<Rightarrow> Device \<Rightarrow> UIState list \<Rightarrow> error + Device" where
  "device_ticks c d [] = Inr d"
| "device_ticks c d (s # ss) = bindE (Device_update c d s) (\<lambda>d'. device_ticks c d' ss)"

text \<open>
  Feeding the rolling grade: each sample is a time, a speed and an altitude of the
  \<open>carState\<close> and GPS messages.
\<close>

fun grade_feed :: "(real \<times> real \<times> real) list \<Rightarrow> UIScene \<Rightarrow> error + UIScene" where
  "grade_feed [] sc = Inr sc"
| "grade_feed ((t, v, alt) # xs) sc =
     bindE (update_percent_grade t
              (sc\<lparr>car_state := (car_state sc)\<lparr>getVEgo := v\<rparr>, altitudeUblox := alt\<rparr>))
       (grade_feed xs)"

section \<open>What the statements speak of\<close>

text \<open>
  The point after the calibration rotation and the intrinsic matrix, as
  \<open>calib_frame_to_full_frame\<close> computes it before it divides, and its third component, the
  depth.
\<close>

definition projected :: "ui_consts \<Rightarrow> UIState \<Rightarrow> real \<Rightarrow> real \<Rightarrow> real \<Rightarrow> vec3" where
  "projected c s in_x in_y in_z =
     matvecmul3 (if wide_camera s then ecam_intrinsic_matrix c else fcam_intrinsic_matrix c)
       (matvecmul3 (view_from_calib (scene s))
          (vec3 (to_flt in_x) (to_flt in_y) (to_flt in_z)))"

definition transformed_depth :: "ui_consts \<Rightarrow> UIState \<Rightarrow> real \<Rightarrow> real \<Rightarrow> real \<Rightarrow> flt" where
  "transformed_depth c s in_x in_y in_z = v2 (projected c s in_x in_y in_z)"

text \<open>
  A real that a \<open>float\<close> operation returns as it is; the exact result of
  \<open>nvgTransformPoint\<close>; and the condition that none of its products and sums overflows.
\<close>

definition representable :: "real \<Rightarrow> bool" where
  "representable r = (- FLT_MAX \<le> r \<and> r \<le> FLT_MAX)"

fun transform_exact :: "xform \<Rightarrow> real \<Rightarrow> real \<Rightarrow> real \<times> real" where
  "transform_exact (xform t0 t1 t2 t3 t4 t5) sx sy =
     (sx * t0 + sy * t2 + t4, sx * t1 + sy * t3 + t5)"

fun transform_representable :: "xform \<Rightarrow> real \<Rightarrow> real \<Rightarrow> bool" where
  "transform_representable (xform t0 t1 t2 t3 t4 t5) sx sy =
     (representable (sx * t0) \<and> representable (sy * t2)
      \<and> representable (sx * t0 + sy * t2) \<and> representable (sx * t0 + sy * t2 + t4)
      \<and> representable (sx * t1) \<and> representable (sy * t3)
      \<and> representable (sx * t1 + sy * t3) \<and> representable (sx * t1 + sy * t3 + t5))"

text \<open>A value that is zero or NaN: what a product with the zero matrix gives.\<close>

definition zero_or_nan :: "flt \<Rightarrow> bool" where
  "zero_or_nan e = (e = Fin 0 \<or> e = NaN)"

text \<open>
  What the rebuild of the vertex buffers reads and writes: the calibration, the lane line
  probabilities and road edge deviations, the buffers, and the camera flag, the transform and
  the frame size of the state.
\<close>

definition scene_geometry :: "UIScene \<Rightarrow> mat3 \<times> real list \<times> line_vertices_data list
    \<times> real list \<times> line_vertices_data list \<times> line_vertices_data \<times> vertex_data list" where
  "scene_geometry sc =
     (view_from_calib sc, lane_line_probs sc, lane_line_vertices sc, road_edge_stds sc,
      road_edge_vertices sc, track_vertices sc, lead_vertices sc)"

definition geometry :: "UIState \<Rightarrow> (mat3 \<times> real list \<times> line_vertices_data list
    \<times> real list \<times> line_vertices_data list \<times> line_vertices_data \<times> vertex_data list)
    \<times> bool \<times> xform \<times> int \<times> int" where
  "geometry s = (scene_geometry (scene s), wide_camera s, car_space_transform s, fb_w s, fb_h s)"

text \<open>The vertex buffers of the scene.\<close>

definition vertex_buffers ::
    "UIScene \<Rightarrow> line_vertices_data list \<times> line_vertices_data list \<times> line_vertices_data \<times> vertex_data list" where
  "vertex_buffers sc =
     (lane_line_vertices sc, road_edge_vertices sc, track_vertices sc, lead_vertices sc)"

text \<open>The state of the rolling grade.\<close>

definition grade_state :: "UIScene \<Rightarrow> real \<times> real list \<times> real list \<times> real list \<times> bool \<times> int" where
  "grade_state sc =
     (percentGrade sc, percentGradeAltitudes sc, percentGradePositions sc, percentGrades sc,
      percentGradeIterRolled sc, percentGradeRollingIter sc)"

text \<open>The three arrays of the rolling grade have five slots, and the iterator is one of them.\<close>

definition grade_len :: "UIScene \<Rightarrow> bool" where
  "grade_len sc =
     (length (percentGradeAltitudes sc) = 5 \<and> length (percentGradePositions sc) = 5
      \<and> length (percentGrades sc) = 5)"

definition grade_wf :: "UIScene \<Rightarrow> bool" where
  "grade_wf sc =
     (grade_len sc \<and> 0 \<le> percentGradeRollingIter sc \<and> percentGradeRollingIter sc < 5)"

text \<open>
  The mean of the specification: the five rise/run ratios of the buffer, each slot paired
  with its successor, wrapping.
\<close>

definition pair_grade :: "UIScene \<Rightarrow> nat \<Rightarrow> real" where
  "pair_grade sc i =
     (percentGradeAltitudes sc ! i - percentGradeAltitudes sc ! ((i + 1) mod 5))
       / (percentGradePositions sc ! i - percentGradePositions sc ! ((i + 1) mod 5)) * 100"

definition true_mean_grade :: "UIScene \<Rightarrow> real" where
  "true_mean_grade sc = (\<Sum>i\<leftarrow>[0..<5]. pair_grade sc i) / 5"

definition grade_and_true_mean :: "error + UIScene \<Rightarrow> error + real \<times> real" where
  "grade_and_true_mean r = bindE r (\<lambda>sc. Inr (percentGrade sc, true_mean_grade sc))"

text \<open>
  The scene without the state of the rolling grade, and the state without the geometry of
  the model: two scenes with the same rest differ in these fields at most.
\<close>

definition erase_grade :: "UIScene \<Rightarrow> UIScene" where
  "erase_grade sc =
     sc\<lparr>percentGrade := 0, percentGradeCurDist := 0, percentGradeLastTime := 0,
        percentGradeRollingIter := 0, percentGradeIterRolled := False,
        percentGradeAltitudes := [], percentGradePositions := [], percentGrades := []\<rparr>"

definition erase_geometry_scene :: "UIScene \<Rightarrow> UIScene" where
  "erase_geometry_scene sc =
     sc\<lparr>lane_line_probs := [], lane_line_vertices := [], road_edge_stds := [],
        road_edge_vertices := [], track_vertices := \<lparr>vs = [], cnt = 0\<rparr>,
        lead_vertices := [],
        lateral_plan := \<lparr>getLaneWidth = 0, getDProb = 0, getLProb = 0, getRProb = 0,
                          getLanelessMode = 0\<rparr>\<rparr>"

definition erase_geometry :: "UIState \<Rightarrow> UIState" where
  "erase_geometry s = s\<lparr>scene := erase_geometry_scene (scene s)\<rparr>"

text \<open>The two fades are within their bounds and were last updated no later than \<open>T\<close>.\<close>

definition fade_inv :: "real \<Rightarrow> UIScene \<Rightarrow> bool" where
  "fade_inv T sc =
     (0 \<le> brake_indicator_alpha sc \<and> brake_indicator_alpha sc \<le> 1
      \<and> - 1 \<le> one_pedal_fade sc \<and> one_pedal_fade sc \<le> 1
      \<and> brake_indicator_last_t sc \<le> T \<and> one_pedal_fade_last_t sc \<le> T)"

text \<open>A result that is not the error of a non-finite value.\<close>

definition finite_result :: "error + 'a \<Rightarrow> bool" where
  "finite_result r = (r \<noteq> Inl NonFinite)"

text \<open>The tap of \<open>updateWakefulness\<close>: both deltas exceed their thresholds.\<close>

definition tap :: "Device \<Rightarrow> UIState \<Rightarrow> bool" where
  "tap d s = (\<bar>accel_sensor (scene s) - accel_prev d\<bar> > 0.2
              \<and> \<bar>gyro_sensor (scene s) - gyro_prev d\<bar> > 0.15)"

section \<open>Example inputs\<close>

text \<open>
  The constants as upstream openpilot declares them, the scene as static storage
  initialises it (all zero, with the capacities of the arrays), and some messages.
\<close>

definition c0 :: ui_consts where
  "c0 = \<lparr>fcam_intrinsic_matrix = mat3 910 0 582 0 910 437 0 0 1,
         ecam_intrinsic_matrix = mat3 620 0 964 0 620 604 0 0 1,
         MIN_DRAW_DISTANCE = 10, MAX_DRAW_DISTANCE = 100, TRAJECTORY_SIZE = 33, UI_FREQ = 20,
         hw_TICI = False, hw_EON = False,
         resize_transform = (\<lambda>wide w h. xform 1 0 0 1 0 0)\<rparr>"

definition zero_vertex :: vertex_data where
  "zero_vertex = \<lparr>vx = Fin 0, vy = Fin 0\<rparr>"

definition empty_line :: line_vertices_data where
  "empty_line = \<lparr>vs = replicate 66 zero_vertex, cnt = 0\<rparr>"

definition car0 :: CarState where
  "car0 = \<lparr>getFrictionBrakePercent = 0, getOnePedalModeActive = False,
           getCoastOnePedalModeActive = False, getSteeringPressed = False,
           getSteeringAngleDeg = 0, getEngineRPM = 0, getAEgo = 0, getVEgo = 0,
           getSteeringTorqueEps = 0\<rparr>"

definition ctl0 :: ControlsState where
  "ctl0 = \<lparr>getEngageable = False, getAngleError = 0, getVCruise = 0, getAlertStatus = NORMAL,
           getEnabled = False\<rparr>"

definition plan0 :: LateralPlan where
  "plan0 = \<lparr>getLaneWidth = 0, getDProb = 0, getLProb = 0, getRProb = 0, getLanelessMode = 0\<rparr>"

definition scene0 :: UIScene where
  "scene0 =
     \<lparr>view_from_calib = mat3 0 0 0 0 0 0 0 0 0, world_objects_visible = False,
      lane_line_probs = replicate 4 0, lane_line_vertices = replicate 4 empty_line,
      road_edge_stds = replicate 2 0, road_edge_vertices = replicate 2 empty_line,
      track_vertices = empty_line, lead_vertices = replicate 2 zero_vertex,
      lateral_plan = plan0, started = False, ignition = False, light_sensor = 0,
      accel_sensor = 0, gyro_sensor = 0, altitudeUblox = 0, lastTime = 0,
      onePedalModeActive = False, disableDisengageOnGasEnabled = False,
      onePedalEngageOnGasEnabled = False, onePedalPauseSteering = False,
      paramsCheckLast = 0, paramsCheckFreq = 0, controls_state = ctl0, car_state = car0,
      angleSteersDes = 0, brake_percent = 0, brake_indicator_alpha = 0,
      brake_indicator_last_t = 0, one_pedal_fade = 0, one_pedal_fade_last_t = 0,
      sessionInitTime = 0, steerOverride = False, angleSteers = 0, engineRPM = 0, aEgo = 0,
      jEgo = 0, lastAEgo = 0, steeringTorqueEps = 0, percentGrade = 0,
      percentGradeCurDist = 0, percentGradeLenStep = 5, percentGradeLastTime = 0,
      percentGradeRollingIter = 0, percentGradeIterRolled = False,
      percentGradeAltitudes = replicate 5 0, percentGradePositions = replicate 5 0,
      percentGrades = replicate 5 0, started_frame = 0, end_to_end = False, laneless_mode = 0,
      measure_cur_num_slots = 0, measure_max_num_slots = 0, measure_slots = [],
      speed_limit_control_enabled = False, speed_limit_perc_offset = False,
      show_debug_ui = False\<rparr>"

definition s0 :: UIState where
  "s0 = \<lparr>scene = scene0, status = STATUS_DISENGAGED, wide_camera = False,
         car_space_transform = xform 1 0 0 1 0 0, fb_w = 1164, fb_h = 874, vg = False,
         started_prev = False, vipc_client = VISION_STREAM_RGB_BACK,
         vipc_rear_connected = False, vipc_wide_connected = False\<rparr>"

definition params0 :: Params where
  "params0 = \<lparr>OnePedalMode = False, DisableDisengageOnGas = False,
              OnePedalModeEngageOnGas = False, OnePedalPauseBlinkerSteering = False,
              EndToEndToggle = False, LanelessMode = 0, FrictionBrakePercent = 0,
              MeasureNumSlots = 0, MeasureSlots = [], EnableWideCamera = False,
              SpeedLimitControl = False, SpeedLimitPercOffset = False, ShowDebugUI = False\<rparr>"

text \<open>A straight trajectory of 33 points, 3.125 apart, up to the distance 100.\<close>

definition traj0 :: XYZTData where
  "traj0 = \<lparr>getX = map (\<lambda>i. real i * 3.125) [0..<33], getY = replicate 33 0,
            getZ = replicate 33 0\<rparr>"

definition model0 :: ModelDataV2 where
  "model0 = \<lparr>getPosition = traj0, getLaneLines = replicate 4 traj0,
             getLaneLineProbs = replicate 4 0.5, getRoadEdges = replicate 2 traj0,
             getRoadEdgeStds = replicate 2 0.5,
             getLeadsV3 = [\<lparr>getProb = 0.6, getLeadX = [20], getLeadY = [0]\<rparr>,
                           \<lparr>getProb = 0, getLeadX = [0], getLeadY = [0]\<rparr>]\<rparr>"

definition sm0 :: SubMaster where
  "sm0 = \<lparr>frame = 1, updated = (\<lambda>name. False), modelV2 = model0, lateralPlan = plan0,
          carState = car0, controlsState = ctl0, liveCalibration = mat3 1 0 0 0 1 0 0 0 1,
          pandaState = \<lparr>getIgnitionLine = False, getIgnitionCan = False\<rparr>,
          sensorEvents = [], roadCameraState = \<lparr>getGain = 0, getIntegLines = 0\<rparr>,
          deviceState_getStarted = False, gpsLocationExternal_getAltitude = 0\<rparr>"

text \<open>The device after its constructor, with five acceleration samples in the average.\<close>

definition device0 :: Device where
  "device0 = \<lparr>brightness_filter = FirstOrderFilter_init BACKLIGHT_OFFROAD BACKLIGHT_TS BACKLIGHT_DT,
              awake = False, awake_timeout = 0, last_brightness = 0, accel_prev = 0,
              gyro_prev = 0, accel_samples = 5\<rparr>"

text \<open>The scene once the identity calibration has arrived and the drawing context exists.\<close>

definition s_cal :: UIState where
  "s_cal = s0\<lparr>scene := scene0\<lparr>world_objects_visible := True,
                   view_from_calib := matmul3 view_from_device (mat3 1 0 0 0 1 0 0 0 1)\<rparr>,
              vg := True\<rparr>"

text \<open>A model message whose first lead is at the distance 0.\<close>

definition model_near :: ModelDataV2 where
  "model_near = model0\<lparr>getLeadsV3 := [\<lparr>getProb = 0.6, getLeadX = [0], getLeadY = [0]\<rparr>,
                                        \<lparr>getProb = 0, getLeadX = [0], getLeadY = [0]\<rparr>]\<rparr>"

text \<open>
  A model message whose lane lines and road edges lie at the distance 100, where the draw
  distance ends: of each of them only the first point is projected.
\<close>

definition traj_far :: XYZTData where
  "traj_far = \<lparr>getX = replicate 33 100, getY = replicate 33 0, getZ = replicate 33 0\<rparr>"

definition model_far :: ModelDataV2 where
  "model_far = model0\<lparr>getLaneLines := replicate 4 traj_far,
                       getRoadEdges := replicate 2 traj_far\<rparr>"

definition line_cnt :: "error + line_vertices_data \<Rightarrow> error + int" where
  "line_cnt r = bindE r (\<lambda>pvd. Inr (cnt pvd))"

text \<open>Two ticks with a \<open>carState\<close> message: braking after a long pause, then one-pedal mode.\<close>

definition tick_brake :: tick_input where
  "tick_brake = \<lparr>tick_params = params0,
      tick_sm = sm0\<lparr>updated := (\<lambda>name. name = ''carState''),
                    carState := car0\<lparr>getFrictionBrakePercent := 50\<rparr>\<rparr>,
      tick_t = 100, tick_now = 100, tick_connects = True, tick_gl_ok = True\<rparr>"

definition tick_release :: tick_input where
  "tick_release = \<lparr>tick_params = params0,
      tick_sm = sm0\<lparr>updated := (\<lambda>name. name = ''carState''),
                    carState := car0\<lparr>getOnePedalModeActive := True\<rparr>\<rparr>,
      tick_t = 100.1, tick_now = 100.1, tick_connects = True, tick_gl_ok = True\<rparr>"

definition fades_of :: "error + UIState \<Rightarrow> error + real \<times> real" where
  "fades_of r = bindE r (\<lambda>s. Inr (brake_indicator_alpha (scene s), one_pedal_fade (scene s)))"

text \<open>
  A scene with a filled grade buffer, and three states around it: in the middle of a
  session, at its start, and at its end.
\<close>

definition scene_grade :: UIScene where
  "scene_grade = scene0\<lparr>percentGrade := 10, percentGradeRollingIter := 2,
                         percentGradeIterRolled := True,
                         percentGradeAltitudes := [1, 2, 3, 4, 5],
                         percentGradePositions := [8, 16, 24, 32, 40],
                         percentGrades := [10, 10, 10, 10, 10]\<rparr>"

definition s_mid :: UIState where
  "s_mid = s0\<lparr>scene := scene_grade\<lparr>started := True, ignition := True\<rparr>, started_prev := True\<rparr>"

definition s_rise :: UIState where
  "s_rise = s0\<lparr>scene := scene_grade\<lparr>started := True, ignition := True\<rparr>, started_prev := False\<rparr>"

definition s_fall :: UIState where
  "s_fall = s0\<lparr>scene := scene_grade\<lparr>started := False, ignition := False\<rparr>, started_prev := True\<rparr>"

definition grade_state_of ::
    "error + UIState \<Rightarrow> error + real \<times> real list \<times> real list \<times> real list \<times> bool \<times> int" where
  "grade_state_of r = bindE r (\<lambda>s. Inr (grade_state (scene s)))"

text \<open>
  The state before any calibration message, with the drawing context, and a \<open>SubMaster\<close>
  whose only update is a model message.
\<close>

definition s_vg :: UIState where
  "s_vg = s0\<lparr>vg := True\<rparr>"

definition sm_model :: SubMaster where
  "sm_model = sm0\<lparr>updated := (\<lambda>name. name = ''modelV2'')\<rparr>"

definition sm_far :: SubMaster where
  "sm_far = sm_model\<lparr>modelV2 := model_far\<rparr>"

definition track_of :: "error + UIState \<Rightarrow> error + line_vertices_data" where
  "track_of r = bindE r (\<lambda>s. Inr (track_vertices (scene s)))"

text \<open>The state after a calibration message, without the drawing context.\<close>

definition s_novg :: UIState where
  "s_novg = s_cal\<lparr>vg := False\<rparr>"

definition buffers_of ::
    "error + UIState \<Rightarrow> error + line_vertices_data list \<times> line_vertices_data list
       \<times> line_vertices_data \<times> vertex_data list" where
  "buffers_of r = bindE r (\<lambda>s. Inr (vertex_buffers (scene s)))"

text \<open>Driving in the dark, and the same scene once the car is off.\<close>

definition s_onroad :: UIState where
  "s_onroad = s0\<lparr>scene := scene0\<lparr>started := True, ignition := True, light_sensor := 0\<rparr>\<rparr>"

definition s_offroad :: UIState where
  "s_offroad = s0\<lparr>scene := scene0\<lparr>started := False, ignition := False, light_sensor := 0\<rparr>\<rparr>"

definition brightness_of :: "error + Device \<Rightarrow> error + bool \<times> int" where
  "brightness_of r = bindE r (\<lambda>d. Inr (awake d, last_brightness d))"

text \<open>
  Two scenes that differ in the light estimate only, the second one no darker; and two
  devices that differ in the filtered value and the last brightness only, the second one no
  lower in both.
\<close>

definition light_le :: "UIState \<Rightarrow> UIState \<Rightarrow> bool" where
  "light_le s1 s2 =
     (light_sensor (scene s1) \<le> light_sensor (scene s2)
      \<and> s2 = s1\<lparr>scene := (scene s1)\<lparr>light_sensor := light_sensor (scene s2)\<rparr>\<rparr>)"

definition device_le :: "Device \<Rightarrow> Device \<Rightarrow> bool" where
  "device_le d1 d2 =
     (filter_x (brightness_filter d1) \<le> filter_x (brightness_filter d2)
      \<and> last_brightness d1 \<le> last_brightness d2
      \<and> d2 = d1\<lparr>brightness_filter :=
                   (brightness_filter d1)\<lparr>filter_x := filter_x (brightness_filter d2)\<rparr>,
                 last_brightness := last_brightness d2\<rparr>)"

text \<open>The same drive in full light, and the device once the display is on.\<close>

definition s_bright :: UIState where
  "s_bright = s_onroad\<lparr>scene := (scene s_onroad)\<lparr>light_sensor := 1\<rparr>\<rparr>"

definition device_awake :: Device where
  "device_awake = device0\<lparr>awake := True, awake_timeout := 100\<rparr>"

text \<open>The device with the display on and a low filtered value; the filtered value of a run.\<close>

definition device_dim :: Device where
  "device_dim = device_awake\<lparr>brightness_filter :=
                   (brightness_filter device_awake)\<lparr>filter_x := 10\<rparr>\<rparr>"

definition filter_of :: "error + Device \<Rightarrow> error + real" where
  "filter_of r = bindE r (\<lambda>d. Inr (filter_x (brightness_filter d)))"

text \<open>The car is off and the device is moved: both sensors jump.\<close>

definition s_tap :: UIState where
  "s_tap = s0\<lparr>scene := scene0\<lparr>accel_sensor := 1, gyro_sensor := 1\<rparr>\<rparr>"

definition wake_state_of :: "error + Device \<Rightarrow> error + bool \<times> int \<times> real \<times> real" where
  "wake_state_of r = bindE r (\<lambda>d. Inr (awake d, awake_timeout d, gyro_prev d, accel_prev d))"

text \<open>The buffer of the rolling grade: altitudes, positions and stored ratios.\<close>

definition grade_buffer_of :: "error + UIScene \<Rightarrow> error + real list \<times> real list \<times> real list" where
  "grade_buffer_of r =
     bindE r (\<lambda>sc. Inr (percentGradeAltitudes sc, percentGradePositions sc, percentGrades sc))"

section \<open>Basic facts\<close>

lemma bindE_Inr [simp]: "bindE (Inr a) f = f a"
  by (simp add: bindE_def)

lemma bindE_Inl [simp]: "bindE (Inl e) f = Inl e"
  by (simp add: bindE_def)

lemma bindE_eq_Inr: "bindE m f = Inr b \<longleftrightarrow> (\<exists>a. m = Inr a \<and> f a = Inr b)"
  by (cases m) simp_all

lemma bindE_InrE:
  assumes "bindE m f = Inr b"
  obtains a where "m = Inr a" and "f a = Inr b"
  using assms by (cases m) simp_all

text \<open>Evaluation goes into the function of a bind only once its argument is known.\<close>

lemma bindE_weak_cong: "m = m' \<Longrightarrow> bindE m f = bindE m' f"
  by simp

lemma idx_eq_Inr: "idx xs i = Inr a \<longleftrightarrow> 0 \<le> i \<and> i < int (length xs) \<and> a = xs ! nat i"
  by (auto simp: idx_def)

lemma store_eq_Inr:
  "store xs i a = Inr ys \<longleftrightarrow> 0 \<le> i \<and> i < int (length xs) \<and> ys = xs[nat i := a]"
  by (auto simp: store_def)

lemma scene0_sel:
  "view_from_calib scene0 = mat3 0 0 0 0 0 0 0 0 0"
  "world_objects_visible scene0 = False"
  "lane_line_probs scene0 = replicate 4 0"
  "lane_line_vertices scene0 = replicate 4 empty_line"
  "road_edge_stds scene0 = replicate 2 0"
  "road_edge_vertices scene0 = replicate 2 empty_line"
  "track_vertices scene0 = empty_line"
  "lead_vertices scene0 = replicate 2 zero_vertex"
  "started scene0 = False"
  "ignition scene0 = False"
  by (simp_all add: scene0_def)

section \<open>Projection: the perspective division\<close>

lemma to_flt_representable: "representable r \<Longrightarrow> to_flt r = Fin r"
  by (auto simp: representable_def to_flt_def)

lemma to_flt_0 [simp]: "to_flt 0 = Fin 0"
  by (simp add: to_flt_def FLT_MAX_def)

lemma fadd_NaN_right [simp]: "fadd x NaN = NaN"
  by (cases x) auto

lemma fmul_NaN_right [simp]: "fmul x NaN = NaN"
  by (cases x) auto

lemma fmul_nonfinite: "\<not> is_finite x \<Longrightarrow> \<not> is_finite (fmul x (Fin t))"
  by (cases x) auto

lemma fmul_nonfinite_zero: "\<not> is_finite x \<Longrightarrow> fmul x (Fin 0) = NaN"
  by (cases x) auto

lemma fadd_nonfinite: "\<not> is_finite x \<Longrightarrow> \<not> is_finite y \<Longrightarrow> \<not> is_finite (fadd x y)"
  by (cases x; cases y) auto

lemma fadd_nonfinite_Fin: "\<not> is_finite x \<Longrightarrow> \<not> is_finite (fadd x (Fin t))"
  by (cases x) auto

lemma fdiv_zero_nonfinite: "\<not> is_finite (fdiv a (Fin 0))"
  by (cases a) auto

lemma fdiv_NaN_nonfinite: "\<not> is_finite (fdiv a NaN)"
  by (cases a) auto

lemma transform_nonfinite:
  assumes "\<not> is_finite x" and "\<not> is_finite y"
  shows "\<not> is_finite (vx (nvgTransformPoint T x y))
       \<and> \<not> is_finite (vy (nvgTransformPoint T x y))"
  using assms by (cases T) (simp add: fmul_nonfinite fadd_nonfinite fadd_nonfinite_Fin)

lemma transform_NaN: "nvgTransformPoint T NaN NaN = \<lparr>vx = NaN, vy = NaN\<rparr>"
  by (cases T) simp

lemma in_range_finite: "in_range lo x hi \<Longrightarrow> is_finite x"
  by (cases x) auto

lemma calib_unfold:
  "calib_frame_to_full_frame c s px py pz =
     (let KEp = projected c s px py pz;
          out = nvgTransformPoint (car_space_transform s)
                  (fdiv (v0 KEp) (v2 KEp)) (fdiv (v1 KEp) (v2 KEp))
      in (out, in_range (- 500) (vx out) (real_of_int (fb_w s) + 500)
               \<and> in_range (- 500) (vy out) (real_of_int (fb_h s) + 500)))"
  by (simp add: calib_frame_to_full_frame_def projected_def Let_def)

lemma calib_zero_depth:
  assumes "transformed_depth c s px py pz = Fin 0 \<or> transformed_depth c s px py pz = NaN"
  shows "\<not> is_finite (vx (fst (calib_frame_to_full_frame c s px py pz)))
       \<and> \<not> is_finite (vy (fst (calib_frame_to_full_frame c s px py pz)))
       \<and> \<not> snd (calib_frame_to_full_frame c s px py pz)"
proof -
  let ?K = "projected c s px py pz"
  from assms have "\<not> is_finite (fdiv (v0 ?K) (v2 ?K))" "\<not> is_finite (fdiv (v1 ?K) (v2 ?K))"
    by (auto simp: transformed_depth_def fdiv_zero_nonfinite fdiv_NaN_nonfinite)
  from transform_nonfinite[OF this, of "car_space_transform s"] show ?thesis
    by (auto simp: calib_unfold Let_def dest: in_range_finite)
qed

lemma calib_flag_finite:
  assumes "snd (calib_frame_to_full_frame c s px py pz)"
  shows "is_finite (vx (fst (calib_frame_to_full_frame c s px py pz)))
       \<and> is_finite (vy (fst (calib_frame_to_full_frame c s px py pz)))"
  using assms by (auto simp: calib_unfold Let_def dest: in_range_finite)

lemma calib_no_overflow:
  assumes "projected c s px py pz = vec3 (Fin a) (Fin b) (Fin d)" and "d \<noteq> 0"
    and "representable (a / d)" and "representable (b / d)"
    and "transform_representable (car_space_transform s) (a / d) (b / d)"
    and "transform_exact (car_space_transform s) (a / d) (b / d) = (ox, oy)"
  shows "calib_frame_to_full_frame c s px py pz =
           (\<lparr>vx = Fin ox, vy = Fin oy\<rparr>,
            - 500 \<le> ox \<and> ox \<le> real_of_int (fb_w s) + 500
              \<and> - 500 \<le> oy \<and> oy \<le> real_of_int (fb_h s) + 500)"
proof -
  obtain t0 t1 t2 t3 t4 t5 where tr: "car_space_transform s = xform t0 t1 t2 t3 t4 t5"
    by (cases "car_space_transform s") auto
  from assms show ?thesis
    by (auto simp add: calib_unfold Let_def tr to_flt_representable)
qed

lemma update_leads_unchecked:
  assumes "idx (getLeadsV3 model) i = Inr lead" and "getProb lead > 0.5"
    and "idx (getLeadX lead) 0 = Inr lx" and "idx (getLeadY lead) 0 = Inr ly"
    and "get_path_length_idx c (getPosition model) lx = Inr k"
    and "idx (getZ (getPosition model)) k = Inr z"
    and "0 \<le> i" and "i < int (length (lead_vertices (scene s)))"
  shows "update_leads_loop c model [i] s =
           Inr (s\<lparr>scene := (scene s)\<lparr>lead_vertices :=
                  (lead_vertices (scene s))[nat i :=
                     fst (calib_frame_to_full_frame c s lx ly (z + 1.22))]\<rparr>\<rparr>)"
  using assms by (simp add: store_def)

text \<open>The projection under the identity calibration, for the evaluation of examples.\<close>

lemma s_cal_frame:
  "car_space_transform s_cal = xform 1 0 0 1 0 0" "fb_w s_cal = 1164" "fb_h s_cal = 874"
  "wide_camera s_cal = False"
  by (simp_all add: s_cal_def s0_def)

lemma s_cal_view: "view_from_calib (scene s_cal) = mat3 0 1 0 0 0 1 1 0 0"
  by (simp add: s_cal_def scene0_def view_from_device_def)

lemma projected_identity:
  assumes "view_from_calib (scene s) = mat3 0 1 0 0 0 1 1 0 0" and "\<not> wide_camera s"
    and "representable px" "representable py" "representable pz"
    "representable (910 * py)" "representable (582 * px)"
    "representable (910 * py + 582 * px)"
    "representable (910 * pz)" "representable (437 * px)"
    "representable (910 * pz + 437 * px)"
  shows "projected c0 s px py pz =
           vec3 (Fin (910 * py + 582 * px)) (Fin (910 * pz + 437 * px)) (Fin px)"
  using assms
  by (simp add: projected_def c0_def to_flt_representable)

lemma calib_identity:
  assumes "view_from_calib (scene s) = mat3 0 1 0 0 0 1 1 0 0" and "\<not> wide_camera s"
    and "car_space_transform s = xform 1 0 0 1 0 0" and "fb_w s = 1164" and "fb_h s = 874"
    and "px = 0 \<or> 1 \<le> px" and "px \<le> 1000" and "\<bar>py\<bar> \<le> 1000" and "\<bar>pz\<bar> \<le> 1000"
  shows "calib_frame_to_full_frame c0 s px py pz =
     (if px = 0 then (\<lparr>vx = NaN, vy = NaN\<rparr>, False)
      else (\<lparr>vx = Fin (910 * py / px + 582), vy = Fin (910 * pz / px + 437)\<rparr>,
            - 500 \<le> 910 * py / px + 582 \<and> 910 * py / px + 582 \<le> 1664
              \<and> - 500 \<le> 910 * pz / px + 437 \<and> 910 * pz / px + 437 \<le> 1374))"
proof -
  have p: "projected c0 s px py pz
      = vec3 (Fin (910 * py + 582 * px)) (Fin (910 * pz + 437 * px)) (Fin px)"
    using assms by (intro projected_identity) (auto simp: representable_def FLT_MAX_def)
  show ?thesis
  proof (cases "px = 0")
    case True
    have "\<not> is_finite (fdiv (Fin (910 * py + 582 * px)) (Fin px))"
      "\<not> is_finite (fdiv (Fin (910 * pz + 437 * px)) (Fin px))"
      using True by auto
    then show ?thesis
      unfolding calib_unfold p Let_def
      by (simp add: assms(3-5) fmul_nonfinite_zero True del: fdiv.simps)
  next
    case False
    with assms have px: "1 \<le> px" by simp
    have b1: "\<bar>910 * py / px\<bar> \<le> 910000"
    proof -
      have "\<bar>910 * py / px\<bar> = 910 * \<bar>py\<bar> / px" using px by simp
      also have "\<dots> \<le> 910 * \<bar>py\<bar> / 1" using px by (intro divide_left_mono) auto
      also have "\<dots> \<le> 910000" using assms by simp
      finally show ?thesis .
    qed
    have b2: "\<bar>910 * pz / px\<bar> \<le> 910000"
    proof -
      have "\<bar>910 * pz / px\<bar> = 910 * \<bar>pz\<bar> / px" using px by simp
      also have "\<dots> \<le> 910 * \<bar>pz\<bar> / 1" using px by (intro divide_left_mono) auto
      also have "\<dots> \<le> 910000" using assms by simp
      finally show ?thesis .
    qed
    have e1: "(910 * py + 582 * px) / px = 910 * py / px + 582"
      and e2: "(910 * pz + 437 * px) / px = 910 * pz / px + 437"
      using px by (simp_all add: add_divide_distrib)
    have rep: "representable (q + k)" if "\<bar>q\<bar> \<le> 910000" and "\<bar>k\<bar> \<le> 1000" for q k :: real
      using that unfolding representable_def FLT_MAX_def by linarith
    from b1 b2 have r: "representable (910 * py / px + 582)"
      "representable (910 * pz / px + 437)"
      by (auto intro!: rep)
    show ?thesis
      unfolding calib_unfold p Let_def
      using False r by (simp add: assms(3-5) e1 e2 to_flt_representable)
  qed
qed

lemma projected_s_cal:
  assumes "representable px" "representable py" "representable pz"
    "representable (910 * py)" "representable (582 * px)"
    "representable (910 * py + 582 * px)"
    "representable (910 * pz)" "representable (437 * px)"
    "representable (910 * pz + 437 * px)"
  shows "projected c0 s_cal px py pz =
           vec3 (Fin (910 * py + 582 * px)) (Fin (910 * pz + 437 * px)) (Fin px)"
  using assms by (intro projected_identity) (simp_all add: s_cal_view s_cal_frame)

lemma calib_s_cal:
  assumes "px = 0 \<or> 1 \<le> px" and "px \<le> 1000" and "\<bar>py\<bar> \<le> 1000" and "\<bar>pz\<bar> \<le> 1000"
  shows "calib_frame_to_full_frame c0 s_cal px py pz =
     (if px = 0 then (\<lparr>vx = NaN, vy = NaN\<rparr>, False)
      else (\<lparr>vx = Fin (910 * py / px + 582), vy = Fin (910 * pz / px + 437)\<rparr>,
            - 500 \<le> 910 * py / px + 582 \<and> 910 * py / px + 582 \<le> 1664
              \<and> - 500 \<le> 910 * pz / px + 437 \<and> 910 * pz / px + 437 \<le> 1374))"
  using assms by (intro calib_identity) (simp_all add: s_cal_view s_cal_frame)

text \<open>The projection before any calibration: every point becomes a pair of NaN.\<close>

lemma zn_mul0: "zero_or_nan (fmul (Fin 0) (to_flt r))"
  by (simp add: zero_or_nan_def to_flt_def)

lemma zn_add: "zero_or_nan a \<Longrightarrow> zero_or_nan b \<Longrightarrow> zero_or_nan (fadd a b)"
  by (auto simp: zero_or_nan_def)

lemma zn_mul: "zero_or_nan e \<Longrightarrow> zero_or_nan (fmul (Fin k) e)"
  by (auto simp: zero_or_nan_def)

lemma zn_div: "zero_or_nan a \<Longrightarrow> zero_or_nan d \<Longrightarrow> fdiv a d = NaN"
  by (auto simp: zero_or_nan_def)

lemma matvecmul3_zn:
  assumes "zero_or_nan a" "zero_or_nan b" "zero_or_nan d"
  shows "zero_or_nan (v0 (matvecmul3 M (vec3 a b d)))
       \<and> zero_or_nan (v1 (matvecmul3 M (vec3 a b d)))
       \<and> zero_or_nan (v2 (matvecmul3 M (vec3 a b d)))"
  using assms by (cases M) (simp add: zn_add zn_mul)

lemma calib_uncalibrated:
  assumes "view_from_calib (scene s) = mat3 0 0 0 0 0 0 0 0 0"
  shows "calib_frame_to_full_frame c s px py pz = (\<lparr>vx = NaN, vy = NaN\<rparr>, False)"
proof -
  let ?E = "matvecmul3 (view_from_calib (scene s)) (vec3 (to_flt px) (to_flt py) (to_flt pz))"
  have E: "zero_or_nan (v0 ?E)" "zero_or_nan (v1 ?E)" "zero_or_nan (v2 ?E)"
    by (simp_all add: assms zn_add zn_mul0 del: fmul.simps fadd.simps)
  obtain a b d where Ev: "?E = vec3 a b d" by (cases ?E) auto
  with E have abd: "zero_or_nan a" "zero_or_nan b" "zero_or_nan d" by simp_all
  let ?K = "projected c s px py pz"
  have K: "zero_or_nan (v0 ?K)" "zero_or_nan (v1 ?K)" "zero_or_nan (v2 ?K)"
    using matvecmul3_zn[OF abd] by (simp_all add: projected_def Ev)
  then have "fdiv (v0 ?K) (v2 ?K) = NaN" "fdiv (v1 ?K) (v2 ?K) = NaN"
    by (simp_all add: zn_div)
  then show ?thesis
    by (simp add: calib_unfold Let_def transform_NaN)
qed

lemma fadd_nonfinite_left: "\<not> is_finite x \<Longrightarrow> \<not> is_finite (fadd x y)"
  by (cases x; cases y) auto

lemma fadd_nonfinite_right: "\<not> is_finite y \<Longrightarrow> \<not> is_finite (fadd x y)"
  by (cases x; cases y) auto

lemma transform_nonfinite_either:
  assumes "\<not> is_finite x \<or> \<not> is_finite y"
  shows "\<not> is_finite (vx (nvgTransformPoint T x y))
       \<and> \<not> is_finite (vy (nvgTransformPoint T x y))"
  using assms
  by (cases T)
    (auto simp: fmul_nonfinite fadd_nonfinite_left fadd_nonfinite_right)

lemma to_flt_overflow: "\<not> representable r \<Longrightarrow> \<not> is_finite (to_flt r)"
  by (auto simp: representable_def to_flt_def)

lemma calib_overflow:
  assumes "projected c s px py pz = vec3 (Fin a) (Fin b) (Fin d)" and "d \<noteq> 0"
    and "\<not> representable (a / d) \<or> \<not> representable (b / d)"
  shows "\<not> is_finite (vx (fst (calib_frame_to_full_frame c s px py pz)))
       \<and> \<not> is_finite (vy (fst (calib_frame_to_full_frame c s px py pz)))
       \<and> \<not> snd (calib_frame_to_full_frame c s px py pz)"
proof -
  let ?K = "projected c s px py pz"
  from assms have "\<not> is_finite (fdiv (v0 ?K) (v2 ?K)) \<or> \<not> is_finite (fdiv (v1 ?K) (v2 ?K))"
    by (auto simp: to_flt_overflow)
  from transform_nonfinite_either[OF this, of "car_space_transform s"] show ?thesis
    by (auto simp: calib_unfold Let_def dest: in_range_finite)
qed

text \<open>
  C10, amended: \<open>calib_frame_to_full_frame\<close> divides by the third component of the
  transformed point, the depth, without a guard. A depth that is not zero is necessary for
  finite output coordinates, and not sufficient.

  \<^item> Where the depth is zero, neither output coordinate is finite and the flag is false.
  \<^item> Where an output coordinate is finite, the depth is neither zero nor NaN.
  \<^item> Where the flag is true, both output coordinates are finite.
  \<^item> Where the three components of the transformed point are finite, the depth is not zero,
    and neither the two quotients nor a product or sum of \<open>nvgTransformPoint\<close> exceeds
    \<open>FLT_MAX\<close> in magnitude, the output coordinates are the exact values of the transform
    at the quotients, and the flag is the test of these values against the frame and its
    margin of 500.
  \<^item> Where the three components are finite, the depth is not zero, and one of the two
    quotients exceeds \<open>FLT_MAX\<close> in magnitude, neither output coordinate is finite and the
    flag is false.
  \<^item> The caller \<open>update_leads\<close> does not look at the depth: for a lead of probability above
    0.5 it stores whatever the projection wrote.
\<close>

theorem calib_frame_to_full_frame_depth:
  "(transformed_depth c s px py pz = Fin 0 \<longrightarrow>
      \<not> is_finite (vx (fst (calib_frame_to_full_frame c s px py pz)))
      \<and> \<not> is_finite (vy (fst (calib_frame_to_full_frame c s px py pz)))
      \<and> \<not> snd (calib_frame_to_full_frame c s px py pz))
   \<and> (is_finite (vx (fst (calib_frame_to_full_frame c s px py pz)))
        \<or> is_finite (vy (fst (calib_frame_to_full_frame c s px py pz))) \<longrightarrow>
      transformed_depth c s px py pz \<noteq> Fin 0 \<and> transformed_depth c s px py pz \<noteq> NaN)
   \<and> (snd (calib_frame_to_full_frame c s px py pz) \<longrightarrow>
        is_finite (vx (fst (calib_frame_to_full_frame c s px py pz)))
        \<and> is_finite (vy (fst (calib_frame_to_full_frame c s px py pz))))
   \<and> (projected c s px py pz = vec3 (Fin a) (Fin b) (Fin d) \<and> d \<noteq> 0
        \<and> representable (a / d) \<and> representable (b / d)
        \<and> transform_representable (car_space_transform s) (a / d) (b / d)
        \<and> transform_exact (car_space_transform s) (a / d) (b / d) = (ox, oy) \<longrightarrow>
      calib_frame_to_full_frame c s px py pz =
        (\<lparr>vx = Fin ox, vy = Fin oy\<rparr>,
         - 500 \<le> ox \<and> ox \<le> real_of_int (fb_w s) + 500
           \<and> - 500 \<le> oy \<and> oy \<le> real_of_int (fb_h s) + 500))
   \<and> (projected c s px py pz = vec3 (Fin a) (Fin b) (Fin d) \<and> d \<noteq> 0
        \<and> (\<not> representable (a / d) \<or> \<not> representable (b / d)) \<longrightarrow>
      \<not> is_finite (vx (fst (calib_frame_to_full_frame c s px py pz)))
      \<and> \<not> is_finite (vy (fst (calib_frame_to_full_frame c s px py pz)))
      \<and> \<not> snd (calib_frame_to_full_frame c s px py pz))
   \<and> (idx (getLeadsV3 model) i = Inr lead \<and> getProb lead > 0.5
        \<and> idx (getLeadX lead) 0 = Inr lx \<and> idx (getLeadY lead) 0 = Inr ly
        \<and> get_path_length_idx c (getPosition model) lx = Inr k
        \<and> idx (getZ (getPosition model)) k = Inr z
        \<and> 0 \<le> i \<and> i < int (length (lead_vertices (scene s))) \<longrightarrow>
        update_leads_loop c model [i] s =
          Inr (s\<lparr>scene := (scene s)\<lparr>lead_vertices :=
                 (lead_vertices (scene s))[nat i :=
                    fst (calib_frame_to_full_frame c s lx ly (z + 1.22))]\<rparr>\<rparr>))"
proof (intro conjI impI)
  assume "transformed_depth c s px py pz = Fin 0"
  then have z: "transformed_depth c s px py pz = Fin 0 \<or> transformed_depth c s px py pz = NaN"
    by simp
  from calib_zero_depth[OF z]
  show "\<not> is_finite (vx (fst (calib_frame_to_full_frame c s px py pz)))"
    and "\<not> is_finite (vy (fst (calib_frame_to_full_frame c s px py pz)))"
    and "\<not> snd (calib_frame_to_full_frame c s px py pz)"
    by simp_all
next
  assume f: "is_finite (vx (fst (calib_frame_to_full_frame c s px py pz)))
      \<or> is_finite (vy (fst (calib_frame_to_full_frame c s px py pz)))"
  with calib_zero_depth[of c s px py pz]
  show "transformed_depth c s px py pz \<noteq> Fin 0" and "transformed_depth c s px py pz \<noteq> NaN"
    by blast+
next
  assume "snd (calib_frame_to_full_frame c s px py pz)"
  from calib_flag_finite[OF this]
  show "is_finite (vx (fst (calib_frame_to_full_frame c s px py pz)))"
    and "is_finite (vy (fst (calib_frame_to_full_frame c s px py pz)))"
    by simp_all
next
  assume "projected c s px py pz = vec3 (Fin a) (Fin b) (Fin d) \<and> d \<noteq> 0
        \<and> representable (a / d) \<and> representable (b / d)
        \<and> transform_representable (car_space_transform s) (a / d) (b / d)
        \<and> transform_exact (car_space_transform s) (a / d) (b / d) = (ox, oy)"
  then show "calib_frame_to_full_frame c s px py pz =
        (\<lparr>vx = Fin ox, vy = Fin oy\<rparr>,
         - 500 \<le> ox \<and> ox \<le> real_of_int (fb_w s) + 500
           \<and> - 500 \<le> oy \<and> oy \<le> real_of_int (fb_h s) + 500)"
    using calib_no_overflow by blast
next
  assume "projected c s px py pz = vec3 (Fin a) (Fin b) (Fin d) \<and> d \<noteq> 0
        \<and> (\<not> representable (a / d) \<or> \<not> representable (b / d))"
  then have "\<not> is_finite (vx (fst (calib_frame_to_full_frame c s px py pz)))
      \<and> \<not> is_finite (vy (fst (calib_frame_to_full_frame c s px py pz)))
      \<and> \<not> snd (calib_frame_to_full_frame c s px py pz)"
    using calib_overflow by blast
  then show "\<not> is_finite (vx (fst (calib_frame_to_full_frame c s px py pz)))"
    and "\<not> is_finite (vy (fst (calib_frame_to_full_frame c s px py pz)))"
    and "\<not> snd (calib_frame_to_full_frame c s px py pz)"
    by simp_all
next
  assume "idx (getLeadsV3 model) i = Inr lead \<and> getProb lead > 0.5
        \<and> idx (getLeadX lead) 0 = Inr lx \<and> idx (getLeadY lead) 0 = Inr ly
        \<and> get_path_length_idx c (getPosition model) lx = Inr k
        \<and> idx (getZ (getPosition model)) k = Inr z
        \<and> 0 \<le> i \<and> i < int (length (lead_vertices (scene s)))"
  then show "update_leads_loop c model [i] s =
          Inr (s\<lparr>scene := (scene s)\<lparr>lead_vertices :=
                 (lead_vertices (scene s))[nat i :=
                    fst (calib_frame_to_full_frame c s lx ly (z + 1.22))]\<rparr>\<rparr>)"
    using update_leads_unchecked by blast
qed

theorem calib_frame_to_full_frame_depth_witness:
  "transformed_depth c0 s_cal 0 1 1 = Fin 0
   \<and> \<not> is_finite (vx (fst (calib_frame_to_full_frame c0 s_cal 0 1 1)))
   \<and> \<not> is_finite (vy (fst (calib_frame_to_full_frame c0 s_cal 0 1 1)))
   \<and> \<not> snd (calib_frame_to_full_frame c0 s_cal 0 1 1)
   \<and> projected c0 s_cal 20 0 1.22 = vec3 (Fin 11640) (Fin 9850.2) (Fin 20)
   \<and> (20::real) \<noteq> 0 \<and> representable (11640 / 20) \<and> representable (9850.2 / 20)
   \<and> transform_representable (car_space_transform s_cal) (11640 / 20) (9850.2 / 20)
   \<and> transform_exact (car_space_transform s_cal) (11640 / 20) (9850.2 / 20) = (582, 492.51)
   \<and> calib_frame_to_full_frame c0 s_cal 20 0 1.22 = (\<lparr>vx = Fin 582, vy = Fin 492.51\<rparr>, True)
   \<and> snd (calib_frame_to_full_frame c0 s_cal 20 0 1.22)
   \<and> is_finite (vx (fst (calib_frame_to_full_frame c0 s_cal 20 0 1.22)))
   \<and> is_finite (vy (fst (calib_frame_to_full_frame c0 s_cal 20 0 1.22)))
   \<and> transformed_depth c0 s_cal 20 0 1.22 \<noteq> Fin 0
   \<and> transformed_depth c0 s_cal 20 0 1.22 \<noteq> NaN
   \<and> projected c0 s_cal (1 / 2 ^ 125) 1 1 =
       vec3 (Fin (910 + 582 / 2 ^ 125)) (Fin (910 + 437 / 2 ^ 125)) (Fin (1 / 2 ^ 125))
   \<and> (1 / 2 ^ 125 :: real) \<noteq> 0
   \<and> \<not> representable ((910 + 582 / 2 ^ 125) / (1 / 2 ^ 125))
   \<and> \<not> is_finite (vx (fst (calib_frame_to_full_frame c0 s_cal (1 / 2 ^ 125) 1 1)))
   \<and> \<not> is_finite (vy (fst (calib_frame_to_full_frame c0 s_cal (1 / 2 ^ 125) 1 1)))
   \<and> \<not> snd (calib_frame_to_full_frame c0 s_cal (1 / 2 ^ 125) 1 1)
   \<and> getProb (getLeadsV3 model_near ! 0) > 0.5
   \<and> update_leads_loop c0 model_near [0] s_cal =
       Inr (s_cal\<lparr>scene := (scene s_cal)\<lparr>lead_vertices :=
              [\<lparr>vx = NaN, vy = NaN\<rparr>, zero_vertex]\<rparr>\<rparr>)"
proof -
  let ?lead = "\<lparr>getProb = 0.6, getLeadX = [0], getLeadY = [0]\<rparr>"
  have p0: "projected c0 s_cal 0 1 1 = vec3 (Fin (910 * 1 + 582 * 0)) (Fin (910 * 1 + 437 * 0)) (Fin 0)"
    by (rule projected_s_cal) (simp_all add: representable_def FLT_MAX_def)
  have d0: "transformed_depth c0 s_cal 0 1 1 = Fin 0"
    by (simp add: transformed_depth_def p0)
  from calib_frame_to_full_frame_depth[of c0 s_cal 0 1 1 0 0 0 0 0 model_near 0 ?lead 0 0 0 0] d0
  have zero: "\<not> is_finite (vx (fst (calib_frame_to_full_frame c0 s_cal 0 1 1)))
      \<and> \<not> is_finite (vy (fst (calib_frame_to_full_frame c0 s_cal 0 1 1)))
      \<and> \<not> snd (calib_frame_to_full_frame c0 s_cal 0 1 1)"
    by blast
  have p1': "projected c0 s_cal 20 0 1.22
      = vec3 (Fin (910 * 0 + 582 * 20)) (Fin (910 * 1.22 + 437 * 20)) (Fin 20)"
    by (rule projected_s_cal) (simp_all add: representable_def FLT_MAX_def)
  then have p1: "projected c0 s_cal 20 0 1.22 = vec3 (Fin 11640) (Fin 9850.2) (Fin 20)"
    by simp
  have h1: "(20::real) \<noteq> 0 \<and> representable (11640 / 20) \<and> representable (9850.2 / 20)
      \<and> transform_representable (car_space_transform s_cal) (11640 / 20) (9850.2 / 20)
      \<and> transform_exact (car_space_transform s_cal) (11640 / 20) (9850.2 / 20) = (582, 492.51)"
    by (simp add: s_cal_frame representable_def FLT_MAX_def)
  from calib_frame_to_full_frame_depth[of c0 s_cal 20 0 "1.22" 11640 "9850.2" 20 582 "492.51" model_near 0 ?lead 0 0 0 0]
    p1 h1
  have "calib_frame_to_full_frame c0 s_cal 20 0 1.22 =
      (\<lparr>vx = Fin 582, vy = Fin 492.51\<rparr>,
       - 500 \<le> (582::real) \<and> (582::real) \<le> real_of_int (fb_w s_cal) + 500
         \<and> - 500 \<le> (492.51::real) \<and> (492.51::real) \<le> real_of_int (fb_h s_cal) + 500)"
    by blast
  then have fin: "calib_frame_to_full_frame c0 s_cal 20 0 1.22
      = (\<lparr>vx = Fin 582, vy = Fin 492.51\<rparr>, True)"
    by (simp add: s_cal_frame)
  then have flag: "snd (calib_frame_to_full_frame c0 s_cal 20 0 1.22)"
    by simp
  from calib_frame_to_full_frame_depth[of c0 s_cal 20 0 "1.22" 0 0 0 0 0 model_near 0 ?lead 0 0 0 0] flag
  have isfin: "is_finite (vx (fst (calib_frame_to_full_frame c0 s_cal 20 0 1.22)))
      \<and> is_finite (vy (fst (calib_frame_to_full_frame c0 s_cal 20 0 1.22)))"
    by blast
  from calib_frame_to_full_frame_depth[of c0 s_cal 20 0 "1.22" 0 0 0 0 0 model_near 0 ?lead 0 0 0 0] isfin
  have dep: "transformed_depth c0 s_cal 20 0 1.22 \<noteq> Fin 0
      \<and> transformed_depth c0 s_cal 20 0 1.22 \<noteq> NaN"
    by blast
  have p2': "projected c0 s_cal (1 / 2 ^ 125) 1 1
      = vec3 (Fin (910 * 1 + 582 * (1 / 2 ^ 125))) (Fin (910 * 1 + 437 * (1 / 2 ^ 125)))
          (Fin (1 / 2 ^ 125))"
    by (rule projected_s_cal) (simp_all add: representable_def FLT_MAX_def)
  then have p2: "projected c0 s_cal (1 / 2 ^ 125) 1 1 =
       vec3 (Fin (910 + 582 / 2 ^ 125)) (Fin (910 + 437 / 2 ^ 125)) (Fin (1 / 2 ^ 125))"
    by simp
  have h2: "(1 / 2 ^ 125 :: real) \<noteq> 0"
    "\<not> representable ((910 + 582 / 2 ^ 125) / (1 / 2 ^ 125))"
    by (simp_all add: representable_def FLT_MAX_def)
  from calib_frame_to_full_frame_depth[of c0 s_cal "1 / 2 ^ 125" 1 1 "910 + 582 / 2 ^ 125"
      "910 + 437 / 2 ^ 125" "1 / 2 ^ 125" 0 0 model_near 0 ?lead 0 0 0 0] p2 h2
  have over: "\<not> is_finite (vx (fst (calib_frame_to_full_frame c0 s_cal (1 / 2 ^ 125) 1 1)))
      \<and> \<not> is_finite (vy (fst (calib_frame_to_full_frame c0 s_cal (1 / 2 ^ 125) 1 1)))
      \<and> \<not> snd (calib_frame_to_full_frame c0 s_cal (1 / 2 ^ 125) 1 1)"
    by blast
  have lead: "idx (getLeadsV3 model_near) 0 = Inr ?lead \<and> getProb ?lead > 0.5
      \<and> idx (getLeadX ?lead) 0 = Inr 0 \<and> idx (getLeadY ?lead) 0 = Inr 0
      \<and> get_path_length_idx c0 (getPosition model_near) 0 = Inr 0
      \<and> idx (getZ (getPosition model_near)) 0 = Inr 0
      \<and> (0::int) \<le> 0 \<and> 0 < int (length (lead_vertices (scene s_cal)))"
    by (simp add: model_near_def model0_def traj0_def idx_def get_path_length_idx_def
        path_length_loop.simps c0_def s_cal_def scene0_def upt_conv_Cons)
  have lv: "lead_vertices (scene s_cal) = [zero_vertex, zero_vertex]"
    by (simp add: s_cal_def scene0_def numeral_2_eq_2)
  have zero': "calib_frame_to_full_frame c0 s_cal 0 0 (0 + 1.22)
      = (\<lparr>vx = NaN, vy = NaN\<rparr>, False)"
    by (simp add: calib_s_cal)
  from calib_frame_to_full_frame_depth[of c0 s_cal 0 0 0 0 0 0 0 0 model_near 0 ?lead 0 0 0 0] lead
  have "update_leads_loop c0 model_near [0] s_cal =
      Inr (s_cal\<lparr>scene := (scene s_cal)\<lparr>lead_vertices :=
             (lead_vertices (scene s_cal))[nat 0 :=
                fst (calib_frame_to_full_frame c0 s_cal 0 0 (0 + 1.22))]\<rparr>\<rparr>)"
    by blast
  with zero' lv have leads: "update_leads_loop c0 model_near [0] s_cal =
      Inr (s_cal\<lparr>scene := (scene s_cal)\<lparr>lead_vertices :=
             [\<lparr>vx = NaN, vy = NaN\<rparr>, zero_vertex]\<rparr>\<rparr>)"
    by simp
  have prob: "getProb (getLeadsV3 model_near ! 0) > 0.5"
    by (simp add: model_near_def)
  from d0 zero p1 h1 fin flag isfin dep p2 h2 over prob leads show ?thesis
    by blast
qed

text \<open>
  At the point \<open>(2^-120, 1, 0)\<close> under the identity calibration the depth is \<open>2^-120\<close>, not
  zero, and the first quotient, about \<open>910 * 2^120\<close>, exceeds \<open>FLT_MAX\<close>: the output
  coordinates are an infinity and a NaN (the product of the infinity with the 0 of the
  transform).
\<close>

theorem calib_frame_to_full_frame_counterexample:
  "transformed_depth c0 s_cal (1 / 2 ^ 120) 1 0 = Fin (1 / 2 ^ 120)
   \<and> Fin (1 / 2 ^ 120) \<noteq> Fin 0
   \<and> calib_frame_to_full_frame c0 s_cal (1 / 2 ^ 120) 1 0 = (\<lparr>vx = PInf, vy = NaN\<rparr>, False)"
proof -
  have p: "projected c0 s_cal (1 / 2 ^ 120) 1 0
      = vec3 (Fin (910 * 1 + 582 * (1 / 2 ^ 120))) (Fin (910 * 0 + 437 * (1 / 2 ^ 120)))
          (Fin (1 / 2 ^ 120))"
    by (rule projected_s_cal) (simp_all add: representable_def FLT_MAX_def)
  show ?thesis
    unfolding calib_unfold transformed_depth_def p Let_def
    by (simp add: s_cal_frame to_flt_def FLT_MAX_def)
qed

section \<open>Path geometry: the vertex count\<close>

lemma line_pass_Cons:
  "line_pass c s line dy z_off (i # js) (buf, n) =
     bindE (idx (getX line) i) (\<lambda>lx.
     bindE (idx (getY line) i) (\<lambda>ly.
     bindE (idx (getZ line) i) (\<lambda>lz.
     bindE (store buf n (fst (calib_frame_to_full_frame c s lx (ly + dy) (lz + z_off)))) (\<lambda>buf'.
       line_pass c s line dy z_off js
         (buf', if snd (calib_frame_to_full_frame c s lx (ly + dy) (lz + z_off))
                then n + 1 else n)))))"
  by (simp add: split_beta)

text \<open>A pass adds at most one vertex per index and keeps the capacity.\<close>

lemma line_pass_bounds:
  "line_pass c s line dy z_off js (buf, n) = Inr (buf', n') \<Longrightarrow>
     n \<le> n' \<and> n' \<le> n + int (length js) \<and> length buf' = length buf"
proof (induction js arbitrary: buf n)
  case Nil
  then show ?case by simp
next
  case (Cons j js)
  from Cons.prems obtain lx ly lz bufa where
    st: "store buf n (fst (calib_frame_to_full_frame c s lx (ly + dy) (lz + z_off))) = Inr bufa"
    and rest: "line_pass c s line dy z_off js
        (bufa, if snd (calib_frame_to_full_frame c s lx (ly + dy) (lz + z_off)) then n + 1 else n)
        = Inr (buf', n')"
    by (auto simp: line_pass_Cons bindE_eq_Inr simp del: line_pass.simps(2))
  from st have len: "length bufa = length buf"
    by (auto simp: store_eq_Inr)
  from Cons.IH[OF rest] len show ?case
    by (auto split: if_splits)
qed

text \<open>A pass over indices of the curve succeeds when the buffer has room for all of them.\<close>

lemma line_pass_total:
  assumes "\<forall>j\<in>set js. 0 \<le> j \<and> j < int (length (getX line)) \<and> j < int (length (getY line))
             \<and> j < int (length (getZ line))"
    and "0 \<le> n" and "n + int (length js) \<le> int (length buf)"
  shows "\<exists>buf' n'. line_pass c s line dy z_off js (buf, n) = Inr (buf', n')"
  using assms
proof (induction js arbitrary: buf n)
  case Nil
  then show ?case by simp
next
  case (Cons j js)
  let ?r = "calib_frame_to_full_frame c s (getX line ! nat j) (getY line ! nat j + dy)
              (getZ line ! nat j + z_off)"
  let ?buf = "buf[nat n := fst ?r]"
  let ?n = "if snd ?r then n + 1 else n"
  have rng: "0 \<le> j" "j < int (length (getX line))" "j < int (length (getY line))"
    "j < int (length (getZ line))"
    using Cons.prems(1) by auto
  have "\<exists>buf' n'. line_pass c s line dy z_off js (?buf, ?n) = Inr (buf', n')"
    using Cons.prems by (intro Cons.IH) auto
  then show ?case
    using rng Cons.prems(2,3)
    by (simp add: line_pass_Cons idx_def store_def del: line_pass.simps(2))
qed

text \<open>
  C5: for a truncation index \<open>max_idx\<close> (an index, so not negative), a buffer that
  \<open>update_line_data\<close> returns has \<open>cnt \<le> 2 * max_idx + 2\<close>; and when the index is within
  the curve and the capacity is at least \<open>2 * max_idx + 2\<close>, the function does return, with
  the assertion \<open>cnt \<le> size(v)\<close> true.
\<close>

theorem update_line_data_cnt:
  assumes "0 \<le> max_idx"
  shows "(\<forall>pvd'. update_line_data c s line y_off z_off pvd max_idx = Inr pvd' \<longrightarrow>
            cnt pvd' \<le> 2 * max_idx + 2)
       \<and> (max_idx < int (length (getX line)) \<and> max_idx < int (length (getY line))
            \<and> max_idx < int (length (getZ line)) \<and> 2 * max_idx + 2 \<le> int (length (vs pvd)) \<longrightarrow>
          (\<exists>pvd'. update_line_data c s line y_off z_off pvd max_idx = Inr pvd'
             \<and> cnt pvd' \<le> 2 * max_idx + 2 \<and> cnt pvd' \<le> int (length (vs pvd'))))"
proof -
  have len: "int (length [0..max_idx]) = max_idx + 1"
    using assms by simp
  have bound: "cnt pvd' \<le> 2 * max_idx + 2 \<and> length (vs pvd') = length (vs pvd)"
    if "update_line_data c s line y_off z_off pvd max_idx = Inr pvd'" for pvd'
  proof -
    from that obtain buf1 n1 buf2 n2 where
      p1: "line_pass c s line (- y_off) z_off [0..max_idx] (vs pvd, 0) = Inr (buf1, n1)"
      and p2: "line_pass c s line y_off z_off (rev [0..max_idx]) (buf1, n1) = Inr (buf2, n2)"
      and res: "pvd' = pvd\<lparr>vs := buf2, cnt := n2\<rparr>"
      by (auto simp: update_line_data_def bindE_eq_Inr split: if_splits)
    from line_pass_bounds[OF p1] line_pass_bounds[OF p2] len res show ?thesis
      by simp
  qed
  have total: "\<exists>pvd'. update_line_data c s line y_off z_off pvd max_idx = Inr pvd'"
    if rng: "max_idx < int (length (getX line))" "max_idx < int (length (getY line))"
      "max_idx < int (length (getZ line))" and cap: "2 * max_idx + 2 \<le> int (length (vs pvd))"
  proof -
    have all: "\<forall>j\<in>set [0..max_idx]. 0 \<le> j \<and> j < int (length (getX line))
        \<and> j < int (length (getY line)) \<and> j < int (length (getZ line))"
      using rng by auto
    from line_pass_total[OF all, of 0 "vs pvd" c s "- y_off" z_off] len cap
    obtain buf1 n1 where
      p1: "line_pass c s line (- y_off) z_off [0..max_idx] (vs pvd, 0) = Inr (buf1, n1)"
      by auto
    from line_pass_bounds[OF p1] len have b1: "0 \<le> n1" "n1 \<le> max_idx + 1"
      "length buf1 = length (vs pvd)"
      by auto
    have all': "\<forall>j\<in>set (rev [0..max_idx]). 0 \<le> j \<and> j < int (length (getX line))
        \<and> j < int (length (getY line)) \<and> j < int (length (getZ line))"
      using rng by auto
    from line_pass_total[OF all', of n1 buf1 c s y_off z_off] len cap b1
    obtain buf2 n2 where
      p2: "line_pass c s line y_off z_off (rev [0..max_idx]) (buf1, n1) = Inr (buf2, n2)"
      by auto
    from line_pass_bounds[OF p2] len b1 cap have "n2 \<le> int (length buf2)"
      by auto
    with p1 p2 show ?thesis
      by (simp add: update_line_data_def)
  qed
  show ?thesis
  proof (intro conjI allI impI)
    fix pvd'
    assume "update_line_data c s line y_off z_off pvd max_idx = Inr pvd'"
    from bound[OF this] show "cnt pvd' \<le> 2 * max_idx + 2" by simp
  next
    assume h: "max_idx < int (length (getX line)) \<and> max_idx < int (length (getY line))
            \<and> max_idx < int (length (getZ line)) \<and> 2 * max_idx + 2 \<le> int (length (vs pvd))"
    then obtain pvd' where r: "update_line_data c s line y_off z_off pvd max_idx = Inr pvd'"
      using total by blast
    from bound[OF r] h r show "\<exists>pvd'. update_line_data c s line y_off z_off pvd max_idx = Inr pvd'
             \<and> cnt pvd' \<le> 2 * max_idx + 2 \<and> cnt pvd' \<le> int (length (vs pvd'))"
      by auto
  qed
qed

theorem update_line_data_cnt_witness:
  "(0::int) \<le> 9 \<and> 9 < int (length (getX traj0)) \<and> 9 < int (length (getY traj0))
   \<and> 9 < int (length (getZ traj0)) \<and> 2 * 9 + 2 \<le> int (length (vs empty_line))
   \<and> line_cnt (update_line_data c0 s_cal traj0 0.5 1.22 empty_line 9) = Inr 18
   \<and> (18::int) \<le> 2 * 9 + 2"
proof -
  have hyp: "9 < int (length (getX traj0)) \<and> 9 < int (length (getY traj0))
      \<and> 9 < int (length (getZ traj0)) \<and> 2 * 9 + 2 \<le> int (length (vs empty_line))"
    by (simp add: traj0_def empty_line_def)
  have ev: "line_cnt (update_line_data c0 s_cal traj0 0.5 1.22 empty_line 9) = Inr 18"
    by (simp add: line_cnt_def update_line_data_def traj0_def empty_line_def idx_def store_def
        calib_s_cal upto_rec1 cong: bindE_weak_cong prod.case_cong_weak)
  from update_line_data_cnt[of 9 c0 s_cal traj0 "0.5" "1.22" empty_line] hyp
  obtain pvd' where "update_line_data c0 s_cal traj0 0.5 1.22 empty_line 9 = Inr pvd'"
    and "cnt pvd' \<le> 2 * 9 + 2"
    by auto
  with ev have "(18::int) \<le> 2 * 9 + 2"
    by (simp add: line_cnt_def)
  with hyp ev show ?thesis
    by simp
qed

section \<open>The fades and the frame of the rolling grade\<close>

lemma fade_step_pos: "0 \<le> fade_time_step"
  by (simp add: fade_time_step_def fade_duration_def)

lemma update_brake_indicator_inv:
  assumes "fade_inv T sc" and "T \<le> t"
  shows "fade_inv t (update_brake_indicator t sc)"
proof -
  from assms have dt: "0 \<le> fade_time_step * (t - brake_indicator_last_t sc)"
    using fade_step_pos by (simp add: fade_inv_def)
  with assms show ?thesis
    by (simp add: update_brake_indicator_def fade_inv_def Let_def)
qed

lemma update_one_pedal_fade_inv:
  assumes "fade_inv T sc" and "T \<le> t"
  shows "fade_inv t (update_one_pedal_fade t st sc)"
proof -
  from assms have dt: "0 \<le> fade_time_step * (t - one_pedal_fade_last_t sc)"
    using fade_step_pos by (simp add: fade_inv_def)
  with assms show ?thesis
    by (simp add: update_one_pedal_fade_def fade_inv_def Let_def)
qed

lemma update_car_values_inv: "fade_inv T (update_car_values t sc) = fade_inv T sc"
  by (simp add: update_car_values_def fade_inv_def Let_def)

lemma fade_inv_erase_grade: "fade_inv T (erase_grade sc) = fade_inv T sc"
  by (simp add: fade_inv_def erase_grade_def)

lemma erase_grade_upd [simp]:
  "erase_grade (sc\<lparr>percentGrade := a\<rparr>) = erase_grade sc"
  "erase_grade (sc\<lparr>percentGradeCurDist := b\<rparr>) = erase_grade sc"
  "erase_grade (sc\<lparr>percentGradeLastTime := d\<rparr>) = erase_grade sc"
  "erase_grade (sc\<lparr>percentGradeRollingIter := e\<rparr>) = erase_grade sc"
  "erase_grade (sc\<lparr>percentGradeIterRolled := f\<rparr>) = erase_grade sc"
  "erase_grade (sc\<lparr>percentGradeAltitudes := g\<rparr>) = erase_grade sc"
  "erase_grade (sc\<lparr>percentGradePositions := h\<rparr>) = erase_grade sc"
  "erase_grade (sc\<lparr>percentGrades := k\<rparr>) = erase_grade sc"
  by (simp_all add: erase_grade_def)

lemma initial_grade_loop_frame:
  "initial_grade_loop js sc u = Inr (sc', u') \<Longrightarrow> erase_grade sc' = erase_grade sc"
proof (induction js arbitrary: sc u)
  case Nil
  then show ?case by simp
next
  case (Cons j js)
  from Cons.prems show ?case
    apply (simp only: initial_grade_loop.simps Let_def)
    apply (elim bindE_InrE)
    apply (simp split: if_splits)
     apply (elim bindE_InrE)
     apply (drule Cons.IH)
     apply simp
    apply (erule Cons.IH)
    done
qed

lemma roll_grade_iter_frame:
  "roll_grade_iter sc = Inr sc' \<Longrightarrow> erase_grade sc' = erase_grade sc"
  by (auto simp: roll_grade_iter_def elim!: bindE_InrE split: if_splits prod.splits
      dest!: initial_grade_loop_frame)

lemma update_rolling_average_frame:
  "update_rolling_average sc = Inr sc' \<Longrightarrow> erase_grade sc' = erase_grade sc"
  by (auto simp: update_rolling_average_def Let_def elim!: bindE_InrE split: if_splits)

lemma record_grade_sample_frame:
  "record_grade_sample sc = Inr sc' \<Longrightarrow> erase_grade sc' = erase_grade sc"
  by (auto simp: record_grade_sample_def Let_def elim!: bindE_InrE split: if_splits
      dest!: roll_grade_iter_frame update_rolling_average_frame)

lemma update_percent_grade_frame:
  "update_percent_grade t sc = Inr sc' \<Longrightarrow> erase_grade sc' = erase_grade sc"
  by (auto simp: update_percent_grade_def Let_def elim!: bindE_InrE split: if_splits
      dest!: record_grade_sample_frame)

lemma fade_inv_mono: "fade_inv T sc \<Longrightarrow> T \<le> t \<Longrightarrow> fade_inv t sc"
  by (simp add: fade_inv_def)

lemma fade_inv_car_state [simp]: "fade_inv T (sc\<lparr>car_state := cs\<rparr>) = fade_inv T sc"
  by (simp add: fade_inv_def)

lemma update_car_state_inv:
  assumes "update_car_state sm t st sc = Inr sc'" and "fade_inv T sc" and "T \<le> t"
  shows "fade_inv t sc'"
proof -
  let ?sc = "update_car_values t (update_one_pedal_fade t st
               (update_brake_indicator t (sc\<lparr>car_state := carState sm\<rparr>)))"
  have "fade_inv t ?sc"
    using assms(2,3)
    by (simp add: update_car_values_inv update_one_pedal_fade_inv[of t]
        update_brake_indicator_inv[of T])
  moreover from assms(1) have "erase_grade sc' = erase_grade ?sc"
    by (simp add: update_car_state_def update_percent_grade_frame)
  ultimately show ?thesis
    by (metis fade_inv_erase_grade)
qed

section \<open>Frames of the model and status updates, and the bounds of the fades\<close>

lemma erase_geometry_scene_upd [simp]:
  "erase_geometry_scene (sc\<lparr>lane_line_probs := a\<rparr>) = erase_geometry_scene sc"
  "erase_geometry_scene (sc\<lparr>lane_line_vertices := b\<rparr>) = erase_geometry_scene sc"
  "erase_geometry_scene (sc\<lparr>road_edge_stds := d\<rparr>) = erase_geometry_scene sc"
  "erase_geometry_scene (sc\<lparr>road_edge_vertices := e\<rparr>) = erase_geometry_scene sc"
  "erase_geometry_scene (sc\<lparr>track_vertices := f\<rparr>) = erase_geometry_scene sc"
  "erase_geometry_scene (sc\<lparr>lead_vertices := g\<rparr>) = erase_geometry_scene sc"
  "erase_geometry_scene (sc\<lparr>lateral_plan := h\<rparr>) = erase_geometry_scene sc"
  by (simp_all add: erase_geometry_scene_def)

lemma erase_geometry_upd [simp]:
  "erase_geometry_scene sc = erase_geometry_scene (scene s) \<Longrightarrow>
     erase_geometry (s\<lparr>scene := sc\<rparr>) = erase_geometry s"
  by (simp add: erase_geometry_def)

lemma lane_lines_loop_frame:
  "lane_lines_loop c model max_idx js s = Inr s' \<Longrightarrow> erase_geometry s' = erase_geometry s"
proof (induction js arbitrary: s)
  case Nil
  then show ?case by simp
next
  case (Cons j js)
  from Cons.prems show ?case
    by (auto simp: Let_def elim!: bindE_InrE dest!: Cons.IH)
qed

lemma road_edges_loop_frame:
  "road_edges_loop c model max_idx js s = Inr s' \<Longrightarrow> erase_geometry s' = erase_geometry s"
proof (induction js arbitrary: s)
  case Nil
  then show ?case by simp
next
  case (Cons j js)
  from Cons.prems show ?case
    by (auto simp: Let_def elim!: bindE_InrE dest!: Cons.IH)
qed

lemma update_leads_loop_frame:
  "update_leads_loop c model js s = Inr s' \<Longrightarrow> erase_geometry s' = erase_geometry s"
proof (induction js arbitrary: s)
  case Nil
  then show ?case by simp
next
  case (Cons j js)
  from Cons.prems show ?case
    by (auto elim!: bindE_InrE split: if_splits dest!: Cons.IH)
qed

lemma update_model_frame:
  "update_model c sm s model = Inr s' \<Longrightarrow> erase_geometry s' = erase_geometry s"
  by (auto simp: update_model_def Let_def elim!: bindE_InrE
      dest!: lane_lines_loop_frame road_edges_loop_frame)

lemma update_state_model_frame:
  "update_state_model c sm s = Inr s' \<Longrightarrow> erase_geometry s' = erase_geometry s"
  by (auto simp: update_state_model_def update_leads_def elim!: bindE_InrE split: if_splits
      dest!: update_model_frame update_leads_loop_frame)

lemma sensor_events_loop_shape:
  "sensor_events_loop es sc = Inr sc' \<Longrightarrow> \<exists>a g. sc' = sc\<lparr>accel_sensor := a, gyro_sensor := g\<rparr>"
proof (induction es sc rule: sensor_events_loop.induct)
  case (1 sc)
  then have "sc' = sc\<lparr>accel_sensor := accel_sensor sc, gyro_sensor := gyro_sensor sc\<rparr>"
    by simp
  then show ?case by blast
next
  case (2 accel es sc)
  from "2.prems" obtain sc1 where
    st: "sc1 = sc \<or> (\<exists>a. sc1 = sc\<lparr>accel_sensor := a\<rparr>)"
    and rest: "sensor_events_loop es sc1 = Inr sc'"
    by (auto elim!: bindE_InrE split: if_splits)
  from "2.IH"[OF rest] obtain a g where "sc' = sc1\<lparr>accel_sensor := a, gyro_sensor := g\<rparr>"
    by blast
  with st have "sc' = sc\<lparr>accel_sensor := a, gyro_sensor := g\<rparr>"
    by auto
  then show ?case by blast
next
  case (3 gyro es sc)
  from "3.prems" obtain sc1 where
    st: "sc1 = sc \<or> (\<exists>a. sc1 = sc\<lparr>gyro_sensor := a\<rparr>)"
    and rest: "sensor_events_loop es sc1 = Inr sc'"
    by (auto elim!: bindE_InrE split: if_splits)
  from "3.IH"[OF rest] obtain a g where "sc' = sc1\<lparr>accel_sensor := a, gyro_sensor := g\<rparr>"
    by blast
  with st have "sc' = sc\<lparr>accel_sensor := a, gyro_sensor := g\<rparr>"
    by auto
  then show ?case by blast
next
  case (4 es sc)
  then show ?case by simp
qed

lemma reset_grade_loop_frame:
  "reset_grade_loop js sc = Inr sc' \<Longrightarrow> erase_grade sc' = erase_grade sc"
proof (induction js arbitrary: sc)
  case Nil
  then show ?case by simp
next
  case (Cons j js)
  from Cons.prems show ?case
    by (auto elim!: bindE_InrE dest!: Cons.IH)
qed

lemma measure_slots_loop_shape:
  "measure_slots_loop p js sc = Inr sc' \<Longrightarrow> \<exists>ms. sc' = sc\<lparr>measure_slots := ms\<rparr>"
proof (induction js arbitrary: sc)
  case Nil
  then have "sc' = sc\<lparr>measure_slots := measure_slots sc\<rparr>"
    by simp
  then show ?case by blast
next
  case (Cons j js)
  from Cons.prems obtain ms1 where
    rest: "measure_slots_loop p js (sc\<lparr>measure_slots := ms1\<rparr>) = Inr sc'"
    by (auto elim!: bindE_InrE)
  from Cons.IH[OF rest] obtain ms where "sc' = sc\<lparr>measure_slots := ms1\<rparr>\<lparr>measure_slots := ms\<rparr>"
    by blast
  then have "sc' = sc\<lparr>measure_slots := ms\<rparr>"
    by simp
  then show ?case by blast
qed

lemma update_state_InrE:
  assumes "update_state c p sm t s = Inr s'"
  obtains sc1 s1 sc2 where
    "(if updated sm ''carState''
      then update_car_state sm t (status s)
             (update_state_controls sm (update_state_params p t (scene s)))
      else Inr (update_state_controls sm (update_state_params p t (scene s)))) = Inr sc1"
    and "update_state_model c sm (s\<lparr>scene := sc1\<rparr>) = Inr s1"
    and "update_state_sensors sm
           (update_state_panda sm (update_state_calibration sm (scene s1))) = Inr sc2"
    and "s' = s1\<lparr>scene := (update_state_gnss sm
                 ((update_state_camera c sm sc2)
                    \<lparr>started := (deviceState_getStarted sm
                                 \<and> ignition (update_state_camera c sm sc2))\<rparr>))
               \<lparr>lastTime := t\<rparr>\<rparr>"
  using assms by (auto simp: update_state_def Let_def elim!: bindE_InrE)

lemma fade_inv_blocks [simp]:
  "fade_inv T (update_state_params p t sc) = fade_inv T sc"
  "fade_inv T (update_state_controls sm sc) = fade_inv T sc"
  "fade_inv T (update_state_calibration sm sc) = fade_inv T sc"
  "fade_inv T (update_state_panda sm sc) = fade_inv T sc"
  "fade_inv T (update_state_camera c sm sc) = fade_inv T sc"
  "fade_inv T (update_state_gnss sm sc) = fade_inv T sc"
  "fade_inv T (sc\<lparr>started := b\<rparr>) = fade_inv T sc"
  "fade_inv T (sc\<lparr>lastTime := t\<rparr>) = fade_inv T sc"
  by (simp_all add: fade_inv_def update_state_params_def update_state_controls_def
      update_state_calibration_def update_state_panda_def update_state_camera_def
      update_state_gnss_def Let_def)

lemma fade_inv_sensors:
  "update_state_sensors sm sc = Inr sc' \<Longrightarrow> fade_inv T sc' = fade_inv T sc"
  by (auto simp: update_state_sensors_def fade_inv_def split: if_splits
      dest!: sensor_events_loop_shape)

lemma fade_inv_erase_geometry: "fade_inv T (scene (erase_geometry s)) = fade_inv T (scene s)"
  by (simp add: fade_inv_def erase_geometry_def erase_geometry_scene_def)

lemma update_state_fade_inv:
  assumes "update_state c p sm t s = Inr s'" and "fade_inv T (scene s)" and "T \<le> t"
  shows "fade_inv t (scene s')"
proof -
  from assms(1) obtain sc1 s1 sc2 where
    car: "(if updated sm ''carState''
      then update_car_state sm t (status s)
             (update_state_controls sm (update_state_params p t (scene s)))
      else Inr (update_state_controls sm (update_state_params p t (scene s)))) = Inr sc1"
    and model: "update_state_model c sm (s\<lparr>scene := sc1\<rparr>) = Inr s1"
    and sens: "update_state_sensors sm
           (update_state_panda sm (update_state_calibration sm (scene s1))) = Inr sc2"
    and res: "s' = s1\<lparr>scene := (update_state_gnss sm
                 ((update_state_camera c sm sc2)
                    \<lparr>started := (deviceState_getStarted sm
                                 \<and> ignition (update_state_camera c sm sc2))\<rparr>))
               \<lparr>lastTime := t\<rparr>\<rparr>"
    by (rule update_state_InrE)
  have "fade_inv t sc1"
  proof (cases "updated sm ''carState''")
    case True
    with car assms(2,3) show ?thesis
      by (auto intro: update_car_state_inv[where T = T])
  next
    case False
    with car assms(2,3) show ?thesis
      by (auto intro: fade_inv_mono)
  qed
  moreover from update_state_model_frame[OF model]
  have "fade_inv t (scene s1) = fade_inv t sc1"
    by (metis fade_inv_erase_geometry UIState.select_convs(1) UIState.surjective UIState.update_convs(1))
  ultimately have "fade_inv t (scene s1)"
    by simp
  with fade_inv_sensors[OF sens, of t] res show ?thesis
    by simp
qed

lemma onroad_setup_fade_inv:
  assumes "onroad_setup c p sm now s = Inr s'"
  shows "fade_inv T (scene s') = fade_inv T (scene s)"
proof -
  let ?sc = "(scene s)\<lparr>started_frame := frame sm, end_to_end := EndToEndToggle p,
               laneless_mode := LanelessMode p, brake_percent := FrictionBrakePercent p,
               sessionInitTime := now, percentGrade := 0\<rparr>"
  from assms obtain sc1 sc2 where
    r: "reset_grade_loop [0..4] ?sc = Inr sc1"
    and m: "measure_slots_loop p [0..measure_max_num_slots sc1 - 1]
              (sc1\<lparr>measure_cur_num_slots := MeasureNumSlots p\<rparr>) = Inr sc2"
    and res: "fade_inv T (scene s') = fade_inv T sc2"
    by (auto simp: onroad_setup_def Let_def fade_inv_def elim!: bindE_InrE)
  from measure_slots_loop_shape[OF m] have "fade_inv T sc2 = fade_inv T sc1"
    by (auto simp: fade_inv_def)
  moreover from reset_grade_loop_frame[OF r] have "fade_inv T sc1 = fade_inv T ?sc"
    by (metis fade_inv_erase_grade)
  moreover have "fade_inv T ?sc = fade_inv T (scene s)"
    by (simp add: fade_inv_def)
  ultimately show ?thesis
    using res by simp
qed

lemma update_status_fade_inv:
  assumes "update_status c p sm now s = Inr s'"
  shows "fade_inv T (scene s') = fade_inv T (scene s)"
  using assms
  by (auto simp: update_status_def Let_def elim!: bindE_InrE split: if_splits
      dest!: onroad_setup_fade_inv[where T = T]) (simp_all add: fade_inv_def)

lemma update_vision_fade_inv:
  assumes "update_vision connects gl_ok s = Inr s'"
  shows "fade_inv T (scene s') = fade_inv T (scene s)"
  using assms
  by (auto simp: update_vision_def ui_init_vision_def fade_inv_def split: if_splits)

lemma ui_update_fade_inv:
  assumes "ui_update c inp s = Inr s'" and "fade_inv T (scene s)" and "T \<le> tick_t inp"
  shows "fade_inv (tick_t inp) (scene s')"
proof -
  from assms(1) obtain s1 s2 where
    st: "update_state c (tick_params inp) (tick_sm inp) (tick_t inp) s = Inr s1"
    and ss: "update_status c (tick_params inp) (tick_sm inp) (tick_now inp) s1 = Inr s2"
    and sv: "update_vision (tick_connects inp) (tick_gl_ok inp) s2 = Inr s'"
    by (auto simp: ui_update_def elim!: bindE_InrE)
  from update_state_fade_inv[OF st assms(2,3)] update_status_fade_inv[OF ss]
    update_vision_fade_inv[OF sv]
  show ?thesis
    by simp
qed

lemma ui_run_fade_inv:
  assumes "ui_run c inps s = Inr s'" and "fade_inv T (scene s)"
    and "times_from T (map tick_t inps)"
  shows "\<exists>T'. fade_inv T' (scene s')"
  using assms
proof (induction inps arbitrary: s T)
  case Nil
  then show ?case by auto
next
  case (Cons inp inps)
  from Cons.prems(1) obtain s1 where
    u: "ui_update c inp s = Inr s1" and r: "ui_run c inps s1 = Inr s'"
    by (auto elim!: bindE_InrE)
  from Cons.prems(3) have le: "T \<le> tick_t inp" and rest: "times_from (tick_t inp) (map tick_t inps)"
    by simp_all
  from ui_update_fade_inv[OF u Cons.prems(2) le] Cons.IH[OF r _ rest] show ?case
    by blast
qed

text \<open>
  C3: over every run of ticks whose times never go back (so every elapsed time is
  non-negative, however large), with any messages, the brake indicator's fade stays within
  [0, 1] and the one-pedal fade within [-1, 1], when they start there.
\<close>

theorem fade_bounds:
  assumes "ui_run c inps s = Inr s'"
    and "0 \<le> brake_indicator_alpha (scene s)" and "brake_indicator_alpha (scene s) \<le> 1"
    and "- 1 \<le> one_pedal_fade (scene s)" and "one_pedal_fade (scene s) \<le> 1"
    and "times_from (max (brake_indicator_last_t (scene s)) (one_pedal_fade_last_t (scene s)))
           (map tick_t inps)"
  shows "0 \<le> brake_indicator_alpha (scene s') \<and> brake_indicator_alpha (scene s') \<le> 1
       \<and> - 1 \<le> one_pedal_fade (scene s') \<and> one_pedal_fade (scene s') \<le> 1"
proof -
  have "fade_inv (max (brake_indicator_last_t (scene s)) (one_pedal_fade_last_t (scene s)))
          (scene s)"
    using assms(2-5) by (simp add: fade_inv_def)
  from ui_run_fade_inv[OF assms(1) this assms(6)] show ?thesis
    by (auto simp: fade_inv_def)
qed

theorem fade_bounds_witness:
  "0 \<le> brake_indicator_alpha (scene s0) \<and> brake_indicator_alpha (scene s0) \<le> 1
   \<and> - 1 \<le> one_pedal_fade (scene s0) \<and> one_pedal_fade (scene s0) \<le> 1
   \<and> times_from (max (brake_indicator_last_t (scene s0)) (one_pedal_fade_last_t (scene s0)))
         (map tick_t [tick_brake, tick_release])
   \<and> fades_of (ui_run c0 [tick_brake, tick_release] s0) = Inr (2 / 3, - 2 / 3)
   \<and> (0::real) \<le> 2 / 3 \<and> (2 / 3::real) \<le> 1 \<and> (- 1::real) \<le> - 2 / 3 \<and> (- 2 / 3::real) \<le> 1"
proof -
  have h: "0 \<le> brake_indicator_alpha (scene s0)" "brake_indicator_alpha (scene s0) \<le> 1"
    "- 1 \<le> one_pedal_fade (scene s0)" "one_pedal_fade (scene s0) \<le> 1"
    "times_from (max (brake_indicator_last_t (scene s0)) (one_pedal_fade_last_t (scene s0)))
       (map tick_t [tick_brake, tick_release])"
    by (simp_all add: s0_def scene0_def tick_brake_def tick_release_def)
  have ev: "fades_of (ui_run c0 [tick_brake, tick_release] s0) = Inr (2 / 3, - 2 / 3)"
    by code_simp
  then obtain s' where r: "ui_run c0 [tick_brake, tick_release] s0 = Inr s'"
    and a: "brake_indicator_alpha (scene s') = 2 / 3" and f: "one_pedal_fade (scene s') = - 2 / 3"
    by (auto simp: fades_of_def elim!: bindE_InrE)
  from fade_bounds[OF r h] a f
  have "(0::real) \<le> 2 / 3 \<and> (2 / 3::real) \<le> 1 \<and> (- 1::real) \<le> - 2 / 3 \<and> (- 2 / 3::real) \<le> 1"
    by simp
  with h ev show ?thesis
    by simp
qed

section \<open>Path geometry: the draw distance of the path\<close>

text \<open>
  The projection reads the calibration, the camera flag, the transform and the frame size
  only, which the loops over the lane lines and road edges leave as they are; and these
  loops do not write the path buffer.
\<close>

lemma calib_erase_geometry:
  "calib_frame_to_full_frame c (erase_geometry s) = calib_frame_to_full_frame c s"
  by (intro ext) (simp add: calib_frame_to_full_frame_def erase_geometry_def erase_geometry_scene_def)

lemma calib_frame:
  assumes "erase_geometry s' = erase_geometry s"
  shows "calib_frame_to_full_frame c s' = calib_frame_to_full_frame c s"
  using calib_erase_geometry[of c s'] calib_erase_geometry[of c s] assms by simp

lemma line_pass_frame:
  assumes "erase_geometry s' = erase_geometry s"
  shows "line_pass c s' line dy z_off js acc = line_pass c s line dy z_off js acc"
proof (induction js arbitrary: acc)
  case Nil
  show ?case by (cases acc) simp
next
  case (Cons j js)
  show ?case
    by (cases acc) (simp add: calib_frame[OF assms] Cons.IH)
qed

lemma update_line_data_frame:
  assumes "erase_geometry s' = erase_geometry s"
  shows "update_line_data c s' line y_off z_off pvd k = update_line_data c s line y_off z_off pvd k"
  by (simp add: update_line_data_def line_pass_frame[OF assms])

lemma lane_lines_loop_track:
  "lane_lines_loop c model max_idx js s = Inr s' \<Longrightarrow>
     track_vertices (scene s') = track_vertices (scene s)"
proof (induction js arbitrary: s)
  case Nil
  then show ?case by simp
next
  case (Cons j js)
  from Cons.prems show ?case
    by (auto simp: Let_def elim!: bindE_InrE dest!: Cons.IH)
qed

lemma road_edges_loop_track:
  "road_edges_loop c model max_idx js s = Inr s' \<Longrightarrow>
     track_vertices (scene s') = track_vertices (scene s)"
proof (induction js arbitrary: s)
  case Nil
  then show ?case by simp
next
  case (Cons j js)
  from Cons.prems show ?case
    by (auto simp: Let_def elim!: bindE_InrE dest!: Cons.IH)
qed

lemma update_model_track:
  assumes "update_model c sm s model = Inr s'"
  shows "\<exists>md h k. draw_distance c model = Inr md \<and> path_distance model md = Inr h
      \<and> get_path_length_idx c (getPosition model) h = Inr k
      \<and> update_line_data c s (getPosition model) 0.5 1.22 (track_vertices (scene s)) k
          = Inr (track_vertices (scene s'))"
proof -
  from assms obtain md mi s1 s2 h k tv where
    dd: "draw_distance c model = Inr md"
    and l1: "lane_lines_loop c model mi [0..int (length (lane_line_vertices (scene s))) - 1] s = Inr s1"
    and l2: "road_edges_loop c model mi [0..int (length (road_edge_vertices (scene s1))) - 1] s1 = Inr s2"
    and pd: "path_distance model md = Inr h"
    and gp: "get_path_length_idx c (getPosition model) h = Inr k"
    and ul: "update_line_data c (s2\<lparr>scene := (scene s2)\<lparr>lateral_plan := lateralPlan sm\<rparr>\<rparr>)
               (getPosition model) 0.5 1.22
               (track_vertices (scene (s2\<lparr>scene := (scene s2)\<lparr>lateral_plan := lateralPlan sm\<rparr>\<rparr>))) k = Inr tv"
    and s': "s' = (s2\<lparr>scene := (scene s2)\<lparr>lateral_plan := lateralPlan sm\<rparr>\<rparr>)\<lparr>scene :=
               (scene (s2\<lparr>scene := (scene s2)\<lparr>lateral_plan := lateralPlan sm\<rparr>\<rparr>))\<lparr>track_vertices := tv\<rparr>\<rparr>"
    unfolding update_model_def Let_def by (elim bindE_InrE) auto
  let ?s3 = "s2\<lparr>scene := (scene s2)\<lparr>lateral_plan := lateralPlan sm\<rparr>\<rparr>"
  have e3: "erase_geometry ?s3 = erase_geometry s"
    using lane_lines_loop_frame[OF l1] road_edges_loop_frame[OF l2] by simp
  have t3: "track_vertices (scene ?s3) = track_vertices (scene s)"
    using lane_lines_loop_track[OF l1] road_edges_loop_track[OF l2] by simp
  from ul have "update_line_data c s (getPosition model) 0.5 1.22 (track_vertices (scene s)) k = Inr tv"
    by (simp only: update_line_data_frame[OF e3] t3)
  moreover have "track_vertices (scene s') = tv" by (simp add: s')
  ultimately show ?thesis using dd pd gp by blast
qed


text \<open>
  C2: when the first lead has a probability above 0.5 and the forward position \<open>x0\<close>, the
  draw distance of the path in \<open>update_model\<close> is
  \<open>clamp (x0 * 2 - min (x0 * 2 * 0.35) 10) 0 maxDistance\<close>, where \<open>maxDistance\<close> is the far end
  of the trajectory clamped to the configured range; for \<open>x0 = 20\<close> the inner value is 30.
  This distance is the one \<open>update_model\<close> builds the path with: the path buffer of the
  state it returns is the result of \<open>update_line_data\<close> on the path buffer it was given,
  truncated at the index that \<open>get_path_length_idx\<close> gives for this distance.
\<close>

theorem update_model_path_distance:
  assumes "idx (getX (getPosition model)) (int (TRAJECTORY_SIZE c) - 1) = Inr far"
    and "idx (getLeadsV3 model) 0 = Inr lead_one"
    and "getProb lead_one > 0.5"
    and "idx (getLeadX lead_one) 0 = Inr x0"
  shows "bindE (draw_distance c model) (path_distance model) =
           Inr (clamp (x0 * 2 - min (x0 * 2 * 0.35) 10) 0
                  (clamp far (MIN_DRAW_DISTANCE c) (MAX_DRAW_DISTANCE c)))
       \<and> (x0 = 20 \<longrightarrow>
            bindE (draw_distance c model) (path_distance model) =
              Inr (clamp 30 0 (clamp far (MIN_DRAW_DISTANCE c) (MAX_DRAW_DISTANCE c))))
       \<and> (\<forall>s'. update_model c sm s model = Inr s' \<longrightarrow>
            (\<exists>k. get_path_length_idx c (getPosition model)
                    (clamp (x0 * 2 - min (x0 * 2 * 0.35) 10) 0
                       (clamp far (MIN_DRAW_DISTANCE c) (MAX_DRAW_DISTANCE c))) = Inr k
               \<and> update_line_data c s (getPosition model) 0.5 1.22
                    (track_vertices (scene s)) k = Inr (track_vertices (scene s'))))"
proof (intro conjI allI impI)
  from assms show d: "bindE (draw_distance c model) (path_distance model) =
           Inr (clamp (x0 * 2 - min (x0 * 2 * 0.35) 10) 0
                  (clamp far (MIN_DRAW_DISTANCE c) (MAX_DRAW_DISTANCE c)))"
    by (simp add: draw_distance_def path_distance_def Let_def)
  {
    assume "x0 = 20"
    with d show "bindE (draw_distance c model) (path_distance model) =
              Inr (clamp 30 0 (clamp far (MIN_DRAW_DISTANCE c) (MAX_DRAW_DISTANCE c)))"
      by simp
  }
  fix s'
  assume "update_model c sm s model = Inr s'"
  from update_model_track[OF this] obtain md h k where
    dd: "draw_distance c model = Inr md" and pd: "path_distance model md = Inr h"
    and gp: "get_path_length_idx c (getPosition model) h = Inr k"
    and ul: "update_line_data c s (getPosition model) 0.5 1.22 (track_vertices (scene s)) k
          = Inr (track_vertices (scene s'))"
    by blast
  from dd pd d have "h = clamp (x0 * 2 - min (x0 * 2 * 0.35) 10) 0
                  (clamp far (MIN_DRAW_DISTANCE c) (MAX_DRAW_DISTANCE c))"
    by simp
  with gp ul show "\<exists>k. get_path_length_idx c (getPosition model)
                    (clamp (x0 * 2 - min (x0 * 2 * 0.35) 10) 0
                       (clamp far (MIN_DRAW_DISTANCE c) (MAX_DRAW_DISTANCE c))) = Inr k
               \<and> update_line_data c s (getPosition model) 0.5 1.22
                    (track_vertices (scene s)) k = Inr (track_vertices (scene s'))"
    by blast
qed

text \<open>The model update on the calibrated scene, with a lead at the distance 20.\<close>

lemma ev_model: "line_cnt (track_of (update_model c0 sm0 s_cal model_far)) = Inr 18"
  by (simp add: line_cnt_def track_of_def update_model_def
      s_cal_def s0_def sm0_def model_far_def model0_def traj0_def traj_far_def view_from_device_def
      draw_distance_def path_distance_def get_path_length_idx_def
      path_length_loop.simps update_line_data_def c0_def clamp_def
      scene0_sel empty_line_def idx_def store_def calib_identity[unfolded c0_def] upto_rec1 Let_def
      cong: bindE_weak_cong prod.case_cong_weak)

lemma gp_model: "get_path_length_idx c0 traj0 30 = Inr 9"
  by (simp add: get_path_length_idx_def path_length_loop.simps traj0_def c0_def idx_def)

theorem update_model_path_distance_witness:
  "idx (getX (getPosition model_far)) (int (TRAJECTORY_SIZE c0) - 1) = Inr 100
   \<and> idx (getLeadsV3 model_far) 0 = Inr \<lparr>getProb = 0.6, getLeadX = [20], getLeadY = [0]\<rparr>
   \<and> getProb \<lparr>getProb = 0.6, getLeadX = [20], getLeadY = [0]\<rparr> > 0.5
   \<and> idx (getLeadX \<lparr>getProb = 0.6, getLeadX = [20], getLeadY = [0]\<rparr>) 0 = Inr 20
   \<and> bindE (draw_distance c0 model_far) (path_distance model_far) = Inr 30
   \<and> get_path_length_idx c0 (getPosition model_far) 30 = Inr 9
   \<and> track_of (update_model c0 sm0 s_cal model_far) =
       update_line_data c0 s_cal (getPosition model_far) 0.5 1.22 (track_vertices (scene s_cal)) 9
   \<and> line_cnt (track_of (update_model c0 sm0 s_cal model_far)) = Inr 18
   \<and> cnt (track_vertices (scene s_cal)) = 0"
proof -
  let ?lead = "\<lparr>getProb = 0.6, getLeadX = [20], getLeadY = [0]\<rparr>"
  have h1: "idx (getX (getPosition model_far)) (int (TRAJECTORY_SIZE c0) - 1) = Inr 100"
    by (simp add: model_far_def model0_def traj0_def c0_def idx_def)
  have h2: "idx (getLeadsV3 model_far) 0 = Inr ?lead"
    by (simp add: model_far_def model0_def idx_def)
  have h3: "getProb ?lead > 0.5"
    by simp
  have h4: "idx (getLeadX ?lead) 0 = Inr 20"
    by (simp add: idx_def)
  have cl: "clamp (20 * 2 - min (20 * 2 * 0.35) 10) 0
      (clamp 100 (MIN_DRAW_DISTANCE c0) (MAX_DRAW_DISTANCE c0)) = (30::real)"
    by (simp add: clamp_def c0_def)
  have pos: "getPosition model_far = traj0"
    by (simp add: model_far_def model0_def)
  have ev: "line_cnt (track_of (update_model c0 sm0 s_cal model_far)) = Inr 18"
    by (rule ev_model)
  then obtain s' where ret: "update_model c0 sm0 s_cal model_far = Inr s'"
    by (cases "update_model c0 sm0 s_cal model_far") (simp_all add: line_cnt_def track_of_def)
  note main = update_model_path_distance[OF h1 h2 h3 h4, of sm0 s_cal, unfolded cl]
  from main have dist: "bindE (draw_distance c0 model_far) (path_distance model_far) = Inr 30"
    by blast
  from main ret obtain k where
    gp: "get_path_length_idx c0 (getPosition model_far) 30 = Inr k"
    and ul: "update_line_data c0 s_cal (getPosition model_far) 0.5 1.22
        (track_vertices (scene s_cal)) k = Inr (track_vertices (scene s'))"
    by blast
  have gp9: "get_path_length_idx c0 (getPosition model_far) 30 = Inr 9"
    by (simp add: pos gp_model)
  with gp have k: "k = 9" by simp
  from ul ret have tr: "track_of (update_model c0 sm0 s_cal model_far) =
       update_line_data c0 s_cal (getPosition model_far) 0.5 1.22 (track_vertices (scene s_cal)) 9"
    by (simp add: track_of_def k)
  have c0': "cnt (track_vertices (scene s_cal)) = 0"
    by (simp add: s_cal_def scene0_sel empty_line_def)
  from h1 h2 h3 h4 dist gp9 tr ev c0' show ?thesis
    by blast
qed

section \<open>The rolling grade: no division by a zero run\<close>

lemma finite_bindE:
  "finite_result m \<Longrightarrow> (\<And>a. finite_result (f a)) \<Longrightarrow> finite_result (bindE m f)"
  by (cases m) (auto simp: finite_result_def)

lemma finite_if:
  "(b \<Longrightarrow> finite_result l) \<Longrightarrow> (\<not> b \<Longrightarrow> finite_result r) \<Longrightarrow> finite_result (if b then l else r)"
  by simp

lemma finite_Inr: "finite_result (Inr a)"
  by (simp add: finite_result_def)

lemma finite_idx: "finite_result (idx xs i)"
  by (simp add: idx_def finite_result_def)

lemma finite_store: "finite_result (store xs i a)"
  by (simp add: store_def finite_result_def)

lemma finite_checked_div: "b \<noteq> 0 \<Longrightarrow> finite_result (checked_div a b)"
  by (simp add: checked_div_def finite_result_def)

lemma finite_checked_div_samples:
  "finite_result (checked_div a (real_of_int percentGradeNumSamples))"
  by (simp add: checked_div_def percentGradeNumSamples_def finite_result_def)

lemmas finite_intros = finite_bindE finite_if finite_Inr finite_idx finite_store
  finite_checked_div_samples

lemma initial_grade_loop_finite: "finite_result (initial_grade_loop js sc u)"
proof (induction js arbitrary: sc u)
  case Nil
  show ?case by (simp add: finite_Inr)
next
  case (Cons j js)
  show ?case
    unfolding initial_grade_loop.simps Let_def
    by (intro finite_intros finite_checked_div Cons.IH) simp
qed

lemma roll_grade_iter_finite: "finite_result (roll_grade_iter sc)"
  unfolding roll_grade_iter_def split_beta
  by (intro finite_intros initial_grade_loop_finite)

lemma update_rolling_average_finite: "finite_result (update_rolling_average sc)"
  unfolding update_rolling_average_def Let_def
  by (intro finite_intros finite_checked_div) simp

lemma record_grade_sample_finite: "finite_result (record_grade_sample sc)"
  unfolding record_grade_sample_def Let_def
  by (intro finite_intros roll_grade_iter_finite update_rolling_average_finite)

lemma update_percent_grade_finite: "finite_result (update_percent_grade t sc)"
  unfolding update_percent_grade_def Let_def
  by (intro finite_intros record_grade_sample_finite)

lemma idx_in_range: "0 \<le> i \<Longrightarrow> i < int (length xs) \<Longrightarrow> idx xs i = Inr (xs ! nat i)"
  by (simp add: idx_def)

lemma store_in_range: "0 \<le> i \<Longrightarrow> i < int (length xs) \<Longrightarrow> store xs i a = Inr (xs[nat i := a])"
  by (simp add: store_def)

lemma succ_mod_samples: "0 \<le> (i + 1) mod percentGradeNumSamples \<and> (i + 1) mod percentGradeNumSamples < 5"
  by (simp add: percentGradeNumSamples_def)

lemma initial_grade_loop_total:
  assumes "grade_len sc" and "\<forall>j\<in>set js. 0 \<le> j \<and> j < 5"
  shows "\<exists>sc' u'. initial_grade_loop js sc u = Inr (sc', u') \<and> grade_len sc'
           \<and> percentGradeRollingIter sc' = percentGradeRollingIter sc"
  using assms
proof (induction js arbitrary: sc u)
  case Nil
  then show ?case by simp
next
  case (Cons j js)
  from Cons.prems have len: "length (percentGradeAltitudes sc) = 5"
    "length (percentGradePositions sc) = 5" "length (percentGrades sc) = 5"
    by (simp_all add: grade_len_def)
  from Cons.prems have j: "0 \<le> j" "j < 5"
    by simp_all
  let ?k = "(j + 1) mod percentGradeNumSamples"
  have k: "0 \<le> ?k" "?k < 5"
    using succ_mod_samples by simp_all
  let ?run = "percentGradePositions sc ! nat j - percentGradePositions sc ! nat ?k"
  let ?q = "(percentGradeAltitudes sc ! nat j - percentGradeAltitudes sc ! nat ?k) / ?run"
  let ?sc = "sc\<lparr>percentGrades := (percentGrades sc)[nat j := ?q * 100]\<rparr>"
  have step: "initial_grade_loop (j # js) sc u =
      (if ?run \<noteq> 0 then initial_grade_loop js ?sc (u + ?q * 100)
       else initial_grade_loop js sc u)"
    using len j k by (simp add: idx_in_range store_in_range checked_div_def Let_def)
  have len': "grade_len ?sc"
    using Cons.prems(1) by (simp add: grade_len_def)
  from Cons.prems(2) have rest: "\<forall>j\<in>set js. 0 \<le> j \<and> j < 5"
    by simp
  show ?case
  proof (cases "?run = 0")
    case True
    with step Cons.IH[OF Cons.prems(1) rest, of u] show ?thesis
      by simp
  next
    case False
    with step Cons.IH[OF len' rest, of "u + ?q * 100"] show ?thesis
      by simp
  qed
qed

lemma roll_grade_iter_total:
  assumes "grade_len sc" and "0 \<le> percentGradeRollingIter sc" and "percentGradeRollingIter sc \<le> 5"
  shows "\<exists>sc'. roll_grade_iter sc = Inr sc' \<and> grade_wf sc'"
proof (cases "percentGradeRollingIter sc \<ge> percentGradeNumSamples")
  case False
  with assms show ?thesis
    by (simp add: roll_grade_iter_def grade_wf_def percentGradeNumSamples_def)
next
  case wrap: True
  show ?thesis
  proof (cases "percentGradeIterRolled sc")
    case True
    with wrap assms show ?thesis
      by (simp add: roll_grade_iter_def grade_wf_def grade_len_def)
  next
    case False
    have len: "grade_len (sc\<lparr>percentGradeIterRolled := True\<rparr>)"
      using assms(1) by (simp add: grade_len_def)
    have rng: "\<forall>j\<in>set [0..percentGradeNumSamples - 1]. 0 \<le> j \<and> j < 5"
      by (simp add: percentGradeNumSamples_def)
    from initial_grade_loop_total[OF len rng, of 0] obtain sc' u' where
      "initial_grade_loop [0..percentGradeNumSamples - 1] (sc\<lparr>percentGradeIterRolled := True\<rparr>) 0
         = Inr (sc', u')" and "grade_len sc'"
      by blast
    with wrap False show ?thesis
      by (simp add: roll_grade_iter_def grade_wf_def grade_len_def checked_div_def
          percentGradeNumSamples_def)
  qed
qed

lemma update_rolling_average_total:
  assumes "grade_wf sc"
  shows "\<exists>sc'. update_rolling_average sc = Inr sc' \<and> grade_wf sc'"
proof -
  from assms have len: "length (percentGradeAltitudes sc) = 5"
    "length (percentGradePositions sc) = 5" "length (percentGrades sc) = 5"
    and it: "0 \<le> percentGradeRollingIter sc" "percentGradeRollingIter sc < 5"
    by (simp_all add: grade_wf_def grade_len_def)
  let ?k = "(percentGradeRollingIter sc + 1) mod percentGradeNumSamples"
  have k: "0 \<le> ?k" "?k < 5"
    using succ_mod_samples by simp_all
  from len it k assms show ?thesis
    by (simp add: update_rolling_average_def Let_def idx_in_range store_in_range checked_div_def
        percentGradeNumSamples_def grade_wf_def grade_len_def)
qed

lemma record_grade_sample_total:
  assumes "grade_wf sc"
  shows "\<exists>sc'. record_grade_sample sc = Inr sc' \<and> grade_wf sc'"
proof -
  from assms have len: "grade_len sc"
    and it: "0 \<le> percentGradeRollingIter sc" "percentGradeRollingIter sc < 5"
    by (simp_all add: grade_wf_def)
  let ?sc = "sc\<lparr>percentGradeRollingIter := percentGradeRollingIter sc + 1\<rparr>"
  have "grade_len ?sc" "0 \<le> percentGradeRollingIter ?sc" "percentGradeRollingIter ?sc \<le> 5"
    using len it by (simp_all add: grade_len_def)
  from roll_grade_iter_total[OF this] obtain sc1 where
    r: "roll_grade_iter ?sc = Inr sc1" and wf1: "grade_wf sc1"
    by blast
  let ?sc2 = "sc1\<lparr>percentGradeAltitudes := (percentGradeAltitudes sc1)
                    [nat (percentGradeRollingIter sc1) := altitudeUblox sc1],
                 percentGradePositions := (percentGradePositions sc1)
                    [nat (percentGradeRollingIter sc1) :=
                       percentGradePositions sc ! nat (percentGradeRollingIter sc)
                         + percentGradeCurDist sc1]\<rparr>"
  have wf2: "grade_wf ?sc2"
    using wf1 by (simp add: grade_wf_def grade_len_def)
  from update_rolling_average_total[OF wf2] obtain sc3 where
    u: "update_rolling_average ?sc2 = Inr sc3" and wf3: "grade_wf sc3"
    by blast
  have pos: "idx (percentGradePositions sc) (percentGradeRollingIter sc)
      = Inr (percentGradePositions sc ! nat (percentGradeRollingIter sc))"
    using len it by (simp add: idx_in_range grade_len_def)
  have st: "store (percentGradeAltitudes sc1) (percentGradeRollingIter sc1) a
      = Inr ((percentGradeAltitudes sc1)[nat (percentGradeRollingIter sc1) := a])"
    "store (percentGradePositions sc1) (percentGradeRollingIter sc1) b
      = Inr ((percentGradePositions sc1)[nat (percentGradeRollingIter sc1) := b])" for a b
    using wf1 by (simp_all add: store_in_range grade_wf_def grade_len_def)
  show ?thesis
  proof (cases "percentGradeIterRolled sc1")
    case True
    with pos r st u wf3 show ?thesis
      by (simp add: record_grade_sample_def Let_def grade_wf_def grade_len_def)
  next
    case False
    with pos r st wf2 show ?thesis
      by (simp add: record_grade_sample_def Let_def grade_wf_def grade_len_def)
  qed
qed

lemma update_percent_grade_total:
  assumes "grade_wf sc"
  shows "\<exists>sc'. update_percent_grade t sc = Inr sc' \<and> grade_wf sc'"
proof -
  let ?sc = "sc\<lparr>percentGradeCurDist := percentGradeCurDist sc
               + getVEgo (car_state sc) * (t - percentGradeLastTime sc)\<rparr>"
  have wf: "grade_wf ?sc"
    using assms by (simp add: grade_wf_def grade_len_def)
  from record_grade_sample_total[OF wf] obtain sc1 where
    "record_grade_sample ?sc = Inr sc1" and "grade_wf sc1"
    by blast
  with assms show ?thesis
    by (simp add: update_percent_grade_def Let_def grade_wf_def grade_len_def)
qed

lemma update_rolling_average_zero_run:
  assumes "grade_wf sc"
    and "percentGradePositions sc ! nat (percentGradeRollingIter sc)
         = percentGradePositions sc ! nat ((percentGradeRollingIter sc + 1) mod 5)"
  shows "update_rolling_average sc = Inr sc"
proof -
  from assms(1) have len: "length (percentGradeAltitudes sc) = 5"
    "length (percentGradePositions sc) = 5"
    and it: "0 \<le> percentGradeRollingIter sc" "percentGradeRollingIter sc < 5"
    by (simp_all add: grade_wf_def grade_len_def)
  let ?k = "(percentGradeRollingIter sc + 1) mod percentGradeNumSamples"
  have k: "0 \<le> ?k" "?k < 5" "?k = (percentGradeRollingIter sc + 1) mod 5"
    using succ_mod_samples by (simp_all add: percentGradeNumSamples_def)
  from len it k assms(2) show ?thesis
    by (simp add: update_rolling_average_def Let_def idx_in_range)
qed

lemma initial_grade_loop_zero_run:
  assumes "grade_len sc" and "0 \<le> i" and "i < 5"
    and "percentGradePositions sc ! nat i = percentGradePositions sc ! nat ((i + 1) mod 5)"
  shows "initial_grade_loop (i # js) sc u = initial_grade_loop js sc u"
proof -
  from assms(1) have len: "length (percentGradeAltitudes sc) = 5"
    "length (percentGradePositions sc) = 5"
    by (simp_all add: grade_len_def)
  let ?k = "(i + 1) mod percentGradeNumSamples"
  have k: "0 \<le> ?k" "?k < 5" "?k = (i + 1) mod 5"
    using succ_mod_samples by (simp_all add: percentGradeNumSamples_def)
  from len assms(2-4) k show ?thesis
    by (simp add: Let_def idx_in_range)
qed

text \<open>
  C6: in the grade computation a pair whose run is exactly zero is skipped, in the loop of
  the initial mean and in the incremental update alike, so no division by a zero run is
  done: the update never yields a non-finite value, whatever the scene, and on a scene with
  its five-slot arrays it returns a scene.
\<close>

theorem grade_zero_run_guard:
  "finite_result (update_percent_grade t sc)
   \<and> (grade_wf sc \<longrightarrow> (\<exists>sc'. update_percent_grade t sc = Inr sc' \<and> grade_wf sc'))
   \<and> (grade_wf sc
        \<and> percentGradePositions sc ! nat (percentGradeRollingIter sc)
            = percentGradePositions sc ! nat ((percentGradeRollingIter sc + 1) mod 5) \<longrightarrow>
        update_rolling_average sc = Inr sc)
   \<and> (grade_len sc \<and> 0 \<le> i \<and> i < 5
        \<and> percentGradePositions sc ! nat i = percentGradePositions sc ! nat ((i + 1) mod 5) \<longrightarrow>
        initial_grade_loop (i # js) sc u = initial_grade_loop js sc u)"
  using update_percent_grade_finite update_percent_grade_total update_rolling_average_zero_run
    initial_grade_loop_zero_run
  by blast

theorem grade_zero_run_guard_witness:
  "finite_result (update_percent_grade 1 scene0)
   \<and> grade_wf scene0
   \<and> finite_result (update_percent_grade 1 (scene0\<lparr>car_state := car0\<lparr>getVEgo := 8\<rparr>\<rparr>))
   \<and> percentGradePositions scene0 ! nat (percentGradeRollingIter scene0)
       = percentGradePositions scene0 ! nat ((percentGradeRollingIter scene0 + 1) mod 5)
   \<and> update_rolling_average scene0 = Inr scene0
   \<and> grade_len scene0 \<and> (0::int) \<le> 0 \<and> (0::int) < 5
   \<and> percentGradePositions scene0 ! nat 0 = percentGradePositions scene0 ! nat ((0 + 1) mod 5)
   \<and> initial_grade_loop [0] scene0 0 = Inr (scene0, 0)"
proof -
  note th = grade_zero_run_guard
  have len: "grade_len scene0"
    by (simp add: grade_len_def scene0_def)
  have wf: "grade_wf scene0"
    by (simp add: grade_wf_def grade_len_def scene0_def)
  have z1: "percentGradePositions scene0 ! nat (percentGradeRollingIter scene0)
       = percentGradePositions scene0 ! nat ((percentGradeRollingIter scene0 + 1) mod 5)"
    by (simp add: scene0_def)
  have z2: "percentGradePositions scene0 ! nat 0 = percentGradePositions scene0 ! nat ((0 + 1) mod 5)"
    by (simp add: scene0_def)
  from th[of 1 scene0 0 "[]" 0] have f1: "finite_result (update_percent_grade 1 scene0)"
    by blast
  from th[of 1 "scene0\<lparr>car_state := car0\<lparr>getVEgo := 8\<rparr>\<rparr>" 0 "[]" 0]
  have f2: "finite_result (update_percent_grade 1 (scene0\<lparr>car_state := car0\<lparr>getVEgo := 8\<rparr>\<rparr>))"
    by blast
  from th[of 1 scene0 0 "[]" 0] wf z1 have r: "update_rolling_average scene0 = Inr scene0"
    by blast
  from th[of 1 scene0 0 "[]" 0] len z2
  have "initial_grade_loop [0] scene0 0 = initial_grade_loop [] scene0 0"
    by simp
  then have l: "initial_grade_loop [0] scene0 0 = Inr (scene0, 0)"
    by simp
  from f1 wf f2 z1 r len z2 l show ?thesis
    by simp
qed

section \<open>The reset of the rolling grade\<close>

lemma list_update_all5:
  assumes "length xs = 5"
  shows "xs[0 := a, Suc 0 := a, 2 := a, 3 := a, 4 := a] = replicate 5 a"
proof (rule nth_equalityI)
  show "length (xs[0 := a, Suc 0 := a, 2 := a, 3 := a, 4 := a]) = length (replicate 5 a)"
    using assms by simp
next
  fix i
  assume "i < length (xs[0 := a, Suc 0 := a, 2 := a, 3 := a, 4 := a])"
  with assms have "i < 5" by simp
  then have "i = 0 \<or> i = 1 \<or> i = 2 \<or> i = 3 \<or> i = 4" by arith
  with assms show "xs[0 := a, Suc 0 := a, 2 := a, 3 := a, 4 := a] ! i = replicate 5 a ! i"
    by auto
qed

lemma reset_grade_loop_result:
  assumes "grade_len sc"
  shows "reset_grade_loop [0..4] sc =
           Inr (sc\<lparr>percentGradeAltitudes := replicate 5 0, percentGradePositions := replicate 5 0,
                   percentGrades := replicate 5 0, percentGradeIterRolled := False,
                   percentGradeRollingIter := 0\<rparr>)"
proof -
  have up: "[0..4::int] = [0, 1, 2, 3, 4]"
    by (simp add: upto_rec1)
  from assms have len: "length (percentGradeAltitudes sc) = 5"
    "length (percentGradePositions sc) = 5" "length (percentGrades sc) = 5"
    by (simp_all add: grade_len_def)
  show ?thesis
    unfolding up using len
    by (simp add: store_def list_update_all5 cong: bindE_weak_cong)
qed

lemma grade_state_erase_other [simp]:
  "grade_state (sc\<lparr>measure_slots := ms\<rparr>) = grade_state sc"
  "grade_state (sc\<lparr>measure_cur_num_slots := n\<rparr>) = grade_state sc"
  "grade_state (sc\<lparr>speed_limit_control_enabled := b1\<rparr>) = grade_state sc"
  "grade_state (sc\<lparr>speed_limit_perc_offset := b2\<rparr>) = grade_state sc"
  "grade_state (sc\<lparr>show_debug_ui := b3\<rparr>) = grade_state sc"
  by (simp_all add: grade_state_def)

lemma onroad_setup_resets:
  assumes "onroad_setup c p sm now s = Inr s'" and "grade_len (scene s)"
  shows "grade_state (scene s') = (0, replicate 5 0, replicate 5 0, replicate 5 0, False, 0)"
proof -
  let ?sc = "(scene s)\<lparr>started_frame := frame sm, end_to_end := EndToEndToggle p,
               laneless_mode := LanelessMode p, brake_percent := FrictionBrakePercent p,
               sessionInitTime := now, percentGrade := 0\<rparr>"
  let ?sc1 = "?sc\<lparr>percentGradeAltitudes := replicate 5 0, percentGradePositions := replicate 5 0,
                   percentGrades := replicate 5 0, percentGradeIterRolled := False,
                   percentGradeRollingIter := 0\<rparr>"
  have "grade_len ?sc"
    using assms(2) by (simp add: grade_len_def)
  from reset_grade_loop_result[OF this] have r: "reset_grade_loop [0..4] ?sc = Inr ?sc1" .
  from assms(1) obtain sc2 where
    m: "measure_slots_loop p [0..measure_max_num_slots ?sc1 - 1]
          (?sc1\<lparr>measure_cur_num_slots := MeasureNumSlots p\<rparr>) = Inr sc2"
    and res: "grade_state (scene s') = grade_state sc2"
    unfolding onroad_setup_def Let_def r bindE_Inr
    by (auto elim!: bindE_InrE)
  from measure_slots_loop_shape[OF m] have "grade_state sc2 = grade_state ?sc1"
    by auto
  with res show ?thesis
    by (simp add: grade_state_def)
qed

lemma update_status_same:
  assumes "started (scene s) = started_prev s"
  shows "\<exists>s'. update_status c p sm now s = Inr s' \<and> grade_state (scene s') = grade_state (scene s)"
  using assms by (simp add: update_status_def Let_def)

lemma update_status_offroad:
  assumes "started_prev s" and "\<not> started (scene s)"
  shows "\<exists>s'. update_status c p sm now s = Inr s' \<and> grade_state (scene s') = grade_state (scene s)"
  using assms by (simp add: update_status_def Let_def)

lemma update_status_onroad:
  assumes "\<not> started_prev s" and "started (scene s)" and "grade_len (scene s)"
    and "update_status c p sm now s = Inr s'"
  shows "grade_state (scene s') = (0, replicate 5 0, replicate 5 0, replicate 5 0, False, 0)"
proof -
  let ?s = "if updated sm ''controlsState'' then
              s\<lparr>status := (if getAlertStatus (controlsState sm) = USER_PROMPT then STATUS_WARNING
                            else if getAlertStatus (controlsState sm) = CRITICAL then STATUS_ALERT
                            else if getEnabled (controlsState sm) then STATUS_ENGAGED
                            else STATUS_DISENGAGED),
                 scene := (scene s)\<lparr>speed_limit_control_enabled := SpeedLimitControl p\<rparr>\<rparr>
            else s"
  from assms(1,2,4) obtain s1 where
    o: "onroad_setup c p sm now ?s = Inr s1" and res: "grade_state (scene s') = grade_state (scene s1)"
    by (auto simp: update_status_def Let_def elim!: bindE_InrE split: if_splits)
  have "grade_len (scene ?s)"
    using assms(3) by (simp add: grade_len_def)
  from onroad_setup_resets[OF o this] res show ?thesis
    by simp
qed

text \<open>
  C9 (amended): \<open>update_status\<close> resets the state of the rolling grade on the ticks where
  the scene has just started (\<open>started\<close> true, \<open>started_prev\<close> false), and only there: on a
  tick where \<open>started\<close> equals \<open>started_prev\<close>, and on the tick where the scene has just
  stopped, the state of the rolling grade is left as it is.
\<close>

theorem grade_reset_on_start:
  "(started (scene s) = started_prev s \<longrightarrow>
      (\<exists>s'. update_status c p sm now s = Inr s' \<and> grade_state (scene s') = grade_state (scene s)))
   \<and> (started_prev s \<and> \<not> started (scene s) \<longrightarrow>
      (\<exists>s'. update_status c p sm now s = Inr s' \<and> grade_state (scene s') = grade_state (scene s)))
   \<and> (\<not> started_prev s \<and> started (scene s) \<and> grade_len (scene s)
        \<and> update_status c p sm now s = Inr s' \<longrightarrow>
      grade_state (scene s') = (0, replicate 5 0, replicate 5 0, replicate 5 0, False, 0))"
  using update_status_same update_status_offroad update_status_onroad by blast

theorem grade_reset_on_start_witness:
  "started (scene s_mid) = started_prev s_mid
   \<and> grade_state_of (update_status c0 params0 sm0 7 s_mid) = Inr (grade_state (scene s_mid))
   \<and> started_prev s_fall \<and> \<not> started (scene s_fall)
   \<and> grade_state_of (update_status c0 params0 sm0 7 s_fall) = Inr (grade_state (scene s_fall))
   \<and> \<not> started_prev s_rise \<and> started (scene s_rise) \<and> grade_len (scene s_rise)
   \<and> grade_state_of (update_status c0 params0 sm0 7 s_rise)
       = Inr (0, replicate 5 0, replicate 5 0, replicate 5 0, False, 0)"
proof -
  note th = grade_reset_on_start[where c = c0 and p = params0 and sm = sm0 and now = 7]
  have m: "started (scene s_mid) = started_prev s_mid"
    by (simp add: s_mid_def s0_def)
  have f: "started_prev s_fall" "\<not> started (scene s_fall)"
    by (simp_all add: s_fall_def s0_def)
  have r: "\<not> started_prev s_rise" "started (scene s_rise)" "grade_len (scene s_rise)"
    by (simp_all add: s_rise_def s0_def scene_grade_def grade_len_def)
  from th[of s_mid] m
  have c1: "grade_state_of (update_status c0 params0 sm0 7 s_mid) = Inr (grade_state (scene s_mid))"
    by (auto simp: grade_state_of_def)
  from th[of s_fall] f
  have c2: "grade_state_of (update_status c0 params0 sm0 7 s_fall) = Inr (grade_state (scene s_fall))"
    by (auto simp: grade_state_of_def)
  have "\<exists>s'. update_status c0 params0 sm0 7 s_rise = Inr s'"
    by (simp add: update_status_def onroad_setup_def Let_def s_rise_def s0_def scene_grade_def
        scene0_def store_def upto_rec1 cong: bindE_weak_cong)
  then obtain s' where u: "update_status c0 params0 sm0 7 s_rise = Inr s'"
    by blast
  from th[of s_rise s'] r u
  have "grade_state (scene s') = (0, replicate 5 0, replicate 5 0, replicate 5 0, False, 0)"
    by blast
  with u have c3: "grade_state_of (update_status c0 params0 sm0 7 s_rise)
       = Inr (0, replicate 5 0, replicate 5 0, replicate 5 0, False, 0)"
    by (simp add: grade_state_of_def)
  from m c1 f c2 r c3 show ?thesis
    by simp
qed

text \<open>
  On the tick where the scene has just stopped the \<open>started\<close> flag has changed, and the
  state of the rolling grade is not reset.
\<close>

theorem grade_reset_counterexample:
  "started (scene s_fall) \<noteq> started_prev s_fall
   \<and> grade_state_of (update_status c0 params0 sm0 7 s_fall)
       = Inr (10, [1, 2, 3, 4, 5], [8, 16, 24, 32, 40], [10, 10, 10, 10, 10], True, 2)"
  by (simp add: grade_state_of_def update_status_def Let_def s_fall_def s0_def scene_grade_def
      grade_state_def)

section \<open>The gate of the model update\<close>

lemma vertex_buffers_blocks [simp]:
  "vertex_buffers (update_state_params p t sc) = vertex_buffers sc"
  "vertex_buffers (update_state_controls sm sc) = vertex_buffers sc"
  "vertex_buffers (update_state_calibration sm sc) = vertex_buffers sc"
  "vertex_buffers (update_state_panda sm sc) = vertex_buffers sc"
  "vertex_buffers (update_state_camera c sm sc) = vertex_buffers sc"
  "vertex_buffers (update_state_gnss sm sc) = vertex_buffers sc"
  "vertex_buffers (sc\<lparr>started := b\<rparr>) = vertex_buffers sc"
  "vertex_buffers (sc\<lparr>lastTime := t\<rparr>) = vertex_buffers sc"
  "vertex_buffers (sc\<lparr>car_state := cs\<rparr>) = vertex_buffers sc"
  "vertex_buffers (update_brake_indicator t sc) = vertex_buffers sc"
  "vertex_buffers (update_one_pedal_fade t st sc) = vertex_buffers sc"
  "vertex_buffers (update_car_values t sc) = vertex_buffers sc"
  by (simp_all add: vertex_buffers_def update_state_params_def update_state_controls_def
      update_state_calibration_def update_state_panda_def update_state_camera_def
      update_state_gnss_def update_brake_indicator_def update_one_pedal_fade_def
      update_car_values_def Let_def)

lemma vertex_buffers_erase_grade: "vertex_buffers (erase_grade sc) = vertex_buffers sc"
  by (simp add: vertex_buffers_def erase_grade_def)

lemma vertex_buffers_car_state:
  assumes "update_car_state sm t st sc = Inr sc'"
  shows "vertex_buffers sc' = vertex_buffers sc"
proof -
  from assms have "erase_grade sc' = erase_grade (update_car_values t (update_one_pedal_fade t st
      (update_brake_indicator t (sc\<lparr>car_state := carState sm\<rparr>))))"
    by (simp add: update_car_state_def update_percent_grade_frame)
  then have "vertex_buffers (erase_grade sc') = vertex_buffers sc"
    by (simp add: vertex_buffers_erase_grade)
  then show ?thesis
    by (simp add: vertex_buffers_erase_grade)
qed

lemma vertex_buffers_sensors:
  "update_state_sensors sm sc = Inr sc' \<Longrightarrow> vertex_buffers sc' = vertex_buffers sc"
  by (auto simp: update_state_sensors_def vertex_buffers_def split: if_splits
      dest!: sensor_events_loop_shape)

lemma update_state_skips_model:
  assumes "\<not> (updated sm ''modelV2'' \<and> vg s)" and "update_state c p sm t s = Inr s'"
  shows "vertex_buffers (scene s') = vertex_buffers (scene s)"
proof -
  from assms(2) obtain sc1 s1 sc2 where
    car: "(if updated sm ''carState''
      then update_car_state sm t (status s)
             (update_state_controls sm (update_state_params p t (scene s)))
      else Inr (update_state_controls sm (update_state_params p t (scene s)))) = Inr sc1"
    and model: "update_state_model c sm (s\<lparr>scene := sc1\<rparr>) = Inr s1"
    and sens: "update_state_sensors sm
           (update_state_panda sm (update_state_calibration sm (scene s1))) = Inr sc2"
    and res: "s' = s1\<lparr>scene := (update_state_gnss sm
                 ((update_state_camera c sm sc2)
                    \<lparr>started := (deviceState_getStarted sm
                                 \<and> ignition (update_state_camera c sm sc2))\<rparr>))
               \<lparr>lastTime := t\<rparr>\<rparr>"
    by (rule update_state_InrE)
  from car have b1: "vertex_buffers sc1 = vertex_buffers (scene s)"
    by (auto split: if_splits dest: vertex_buffers_car_state)
  from model assms(1) have "s1 = s\<lparr>scene := sc1\<rparr>"
    by (simp add: update_state_model_def)
  then have b2: "vertex_buffers (scene s1) = vertex_buffers sc1"
    by simp
  from vertex_buffers_sensors[OF sens] have b3: "vertex_buffers sc2 = vertex_buffers (scene s1)"
    by simp
  from res b1 b2 b3 show ?thesis
    by simp
qed

text \<open>
  The rebuild on two states of the same geometry: where it returns on the one, it returns
  on the other, with the same geometry.
\<close>

lemma scene_geometry_blocks [simp]:
  "scene_geometry (update_state_params p t sc) = scene_geometry sc"
  "scene_geometry (update_state_controls sm sc) = scene_geometry sc"
  "scene_geometry (sc\<lparr>car_state := cs\<rparr>) = scene_geometry sc"
  "scene_geometry (update_brake_indicator t sc) = scene_geometry sc"
  "scene_geometry (update_one_pedal_fade t st sc) = scene_geometry sc"
  "scene_geometry (update_car_values t sc) = scene_geometry sc"
  by (simp_all add: scene_geometry_def update_state_params_def update_state_controls_def
      update_brake_indicator_def update_one_pedal_fade_def
      update_car_values_def Let_def)

lemma scene_geometry_erase_grade: "scene_geometry (erase_grade sc) = scene_geometry sc"
  by (simp add: scene_geometry_def erase_grade_def)

lemma scene_geometry_car_state:
  assumes "update_car_state sm t st sc = Inr sc'"
  shows "scene_geometry sc' = scene_geometry sc"
proof -
  from assms have "erase_grade sc' = erase_grade (update_car_values t (update_one_pedal_fade t st
      (update_brake_indicator t (sc\<lparr>car_state := carState sm\<rparr>))))"
    by (simp add: update_car_state_def update_percent_grade_frame)
  then have "scene_geometry (erase_grade sc') = scene_geometry sc"
    by (simp add: scene_geometry_erase_grade)
  then show ?thesis
    by (simp add: scene_geometry_erase_grade)
qed

lemma geometry_buffers:
  "geometry a = geometry b \<Longrightarrow> vertex_buffers (scene a) = vertex_buffers (scene b)"
  by (simp add: geometry_def scene_geometry_def vertex_buffers_def)

lemma geometry_calib:
  assumes "geometry a = geometry b"
  shows "calib_frame_to_full_frame c a = calib_frame_to_full_frame c b"
  using assms
  by (intro ext) (simp add: calib_frame_to_full_frame_def geometry_def scene_geometry_def)

lemma geometry_line_pass:
  assumes "geometry a = geometry b"
  shows "line_pass c a line dy z_off js acc = line_pass c b line dy z_off js acc"
proof (induction js arbitrary: acc)
  case Nil
  show ?case by (cases acc) simp
next
  case (Cons j js)
  show ?case
    by (cases acc) (simp add: geometry_calib[OF assms] Cons.IH)
qed

lemma geometry_update_line_data:
  assumes "geometry a = geometry b"
  shows "update_line_data c a line y_off z_off pvd k = update_line_data c b line y_off z_off pvd k"
  by (simp add: update_line_data_def geometry_line_pass[OF assms])

lemma geometry_sel:
  assumes "geometry a = geometry b"
  shows "lane_line_probs (scene a) = lane_line_probs (scene b)"
    and "lane_line_vertices (scene a) = lane_line_vertices (scene b)"
    and "road_edge_stds (scene a) = road_edge_stds (scene b)"
    and "road_edge_vertices (scene a) = road_edge_vertices (scene b)"
    and "track_vertices (scene a) = track_vertices (scene b)"
    and "lead_vertices (scene a) = lead_vertices (scene b)"
  using assms by (simp_all add: geometry_def scene_geometry_def)

lemma geometry_upd:
  assumes "geometry a = geometry b"
  shows "geometry (a\<lparr>scene := (scene a)\<lparr>lane_line_probs := x1\<rparr>\<rparr>)
           = geometry (b\<lparr>scene := (scene b)\<lparr>lane_line_probs := x1\<rparr>\<rparr>)"
    and "geometry (a\<lparr>scene := (scene a)\<lparr>lane_line_vertices := x2\<rparr>\<rparr>)
           = geometry (b\<lparr>scene := (scene b)\<lparr>lane_line_vertices := x2\<rparr>\<rparr>)"
    and "geometry (a\<lparr>scene := (scene a)\<lparr>road_edge_stds := x3\<rparr>\<rparr>)
           = geometry (b\<lparr>scene := (scene b)\<lparr>road_edge_stds := x3\<rparr>\<rparr>)"
    and "geometry (a\<lparr>scene := (scene a)\<lparr>road_edge_vertices := x4\<rparr>\<rparr>)
           = geometry (b\<lparr>scene := (scene b)\<lparr>road_edge_vertices := x4\<rparr>\<rparr>)"
    and "geometry (a\<lparr>scene := (scene a)\<lparr>track_vertices := x5\<rparr>\<rparr>)
           = geometry (b\<lparr>scene := (scene b)\<lparr>track_vertices := x5\<rparr>\<rparr>)"
    and "geometry (a\<lparr>scene := (scene a)\<lparr>lead_vertices := x6\<rparr>\<rparr>)
           = geometry (b\<lparr>scene := (scene b)\<lparr>lead_vertices := x6\<rparr>\<rparr>)"
    and "geometry (a\<lparr>scene := (scene a)\<lparr>lateral_plan := x7\<rparr>\<rparr>)
           = geometry (b\<lparr>scene := (scene b)\<lparr>lateral_plan := x7\<rparr>\<rparr>)"
  using assms by (simp_all add: geometry_def scene_geometry_def)

lemma geometry_lane_lines_loop:
  assumes "geometry a = geometry b" and "lane_lines_loop c model k js a = Inr a'"
  shows "\<exists>b'. lane_lines_loop c model k js b = Inr b' \<and> geometry a' = geometry b'"
  using assms
proof (induction js arbitrary: a b)
  case Nil
  then show ?case by simp
next
  case (Cons j js)
  let ?a1 = "\<lambda>probs. a\<lparr>scene := (scene a)\<lparr>lane_line_probs := probs\<rparr>\<rparr>"
  let ?b1 = "\<lambda>probs. b\<lparr>scene := (scene b)\<lparr>lane_line_probs := probs\<rparr>\<rparr>"
  from Cons.prems(2) obtain p probs line pvd pvd' lv where
    e1: "idx (getLaneLineProbs model) j = Inr p"
    and e2: "store (lane_line_probs (scene a)) j p = Inr probs"
    and e3: "idx (getLaneLines model) j = Inr line"
    and e4: "idx (lane_line_vertices (scene (?a1 probs))) j = Inr pvd"
    and e5: "update_line_data c (?a1 probs) line (0.025 * p) 0 pvd k = Inr pvd'"
    and e6: "store (lane_line_vertices (scene (?a1 probs))) j pvd' = Inr lv"
    and rest: "lane_lines_loop c model k js
        ((?a1 probs)\<lparr>scene := (scene (?a1 probs))\<lparr>lane_line_vertices := lv\<rparr>\<rparr>) = Inr a'"
    by (auto simp: Let_def elim!: bindE_InrE)
  note g = Cons.prems(1)
  have g1: "geometry (?a1 probs) = geometry (?b1 probs)"
    by (rule geometry_upd(1)[OF g])
  have g2: "geometry ((?a1 probs)\<lparr>scene := (scene (?a1 probs))\<lparr>lane_line_vertices := lv\<rparr>\<rparr>)
      = geometry ((?b1 probs)\<lparr>scene := (scene (?b1 probs))\<lparr>lane_line_vertices := lv\<rparr>\<rparr>)"
    by (rule geometry_upd(2)[OF g1])
  from Cons.IH[OF g2 rest] obtain b' where
    r: "lane_lines_loop c model k js
        ((?b1 probs)\<lparr>scene := (scene (?b1 probs))\<lparr>lane_line_vertices := lv\<rparr>\<rparr>) = Inr b'"
    and gb: "geometry a' = geometry b'"
    by blast
  have f2: "store (lane_line_probs (scene b)) j p = Inr probs"
    using e2 geometry_sel(1)[OF g] by simp
  have f4: "idx (lane_line_vertices (scene (?b1 probs))) j = Inr pvd"
    using e4 geometry_sel(2)[OF g1] by simp
  have f5: "update_line_data c (?b1 probs) line (0.025 * p) 0 pvd k = Inr pvd'"
    using e5 geometry_update_line_data[OF g1] by simp
  have f6: "store (lane_line_vertices (scene (?b1 probs))) j pvd' = Inr lv"
    using e6 geometry_sel(2)[OF g1] by simp
  have "lane_lines_loop c model k (j # js) b = Inr b'"
    using e1 f2 e3 f4 f5 f6 r by (simp add: Let_def)
  with gb show ?case by blast
qed

lemma geometry_road_edges_loop:
  assumes "geometry a = geometry b" and "road_edges_loop c model k js a = Inr a'"
  shows "\<exists>b'. road_edges_loop c model k js b = Inr b' \<and> geometry a' = geometry b'"
  using assms
proof (induction js arbitrary: a b)
  case Nil
  then show ?case by simp
next
  case (Cons j js)
  let ?a1 = "\<lambda>stds. a\<lparr>scene := (scene a)\<lparr>road_edge_stds := stds\<rparr>\<rparr>"
  let ?b1 = "\<lambda>stds. b\<lparr>scene := (scene b)\<lparr>road_edge_stds := stds\<rparr>\<rparr>"
  from Cons.prems(2) obtain sd stds line pvd pvd' rv where
    e1: "idx (getRoadEdgeStds model) j = Inr sd"
    and e2: "store (road_edge_stds (scene a)) j sd = Inr stds"
    and e3: "idx (getRoadEdges model) j = Inr line"
    and e4: "idx (road_edge_vertices (scene (?a1 stds))) j = Inr pvd"
    and e5: "update_line_data c (?a1 stds) line 0.025 0 pvd k = Inr pvd'"
    and e6: "store (road_edge_vertices (scene (?a1 stds))) j pvd' = Inr rv"
    and rest: "road_edges_loop c model k js
        ((?a1 stds)\<lparr>scene := (scene (?a1 stds))\<lparr>road_edge_vertices := rv\<rparr>\<rparr>) = Inr a'"
    by (auto simp: Let_def elim!: bindE_InrE)
  note g = Cons.prems(1)
  have g1: "geometry (?a1 stds) = geometry (?b1 stds)"
    by (rule geometry_upd(3)[OF g])
  have g2: "geometry ((?a1 stds)\<lparr>scene := (scene (?a1 stds))\<lparr>road_edge_vertices := rv\<rparr>\<rparr>)
      = geometry ((?b1 stds)\<lparr>scene := (scene (?b1 stds))\<lparr>road_edge_vertices := rv\<rparr>\<rparr>)"
    by (rule geometry_upd(4)[OF g1])
  from Cons.IH[OF g2 rest] obtain b' where
    r: "road_edges_loop c model k js
        ((?b1 stds)\<lparr>scene := (scene (?b1 stds))\<lparr>road_edge_vertices := rv\<rparr>\<rparr>) = Inr b'"
    and gb: "geometry a' = geometry b'"
    by blast
  have f2: "store (road_edge_stds (scene b)) j sd = Inr stds"
    using e2 geometry_sel(3)[OF g] by simp
  have f4: "idx (road_edge_vertices (scene (?b1 stds))) j = Inr pvd"
    using e4 geometry_sel(4)[OF g1] by simp
  have f5: "update_line_data c (?b1 stds) line 0.025 0 pvd k = Inr pvd'"
    using e5 geometry_update_line_data[OF g1] by simp
  have f6: "store (road_edge_vertices (scene (?b1 stds))) j pvd' = Inr rv"
    using e6 geometry_sel(4)[OF g1] by simp
  have "road_edges_loop c model k (j # js) b = Inr b'"
    using e1 f2 e3 f4 f5 f6 r by (simp add: Let_def)
  with gb show ?case by blast
qed

lemma geometry_update_leads_loop:
  assumes "geometry a = geometry b" and "update_leads_loop c model js a = Inr a'"
  shows "\<exists>b'. update_leads_loop c model js b = Inr b' \<and> geometry a' = geometry b'"
  using assms
proof (induction js arbitrary: a b)
  case Nil
  then show ?case by simp
next
  case (Cons j js)
  note g = Cons.prems(1)
  from Cons.prems(2) obtain lead where e1: "idx (getLeadsV3 model) j = Inr lead"
    by (auto elim!: bindE_InrE)
  show ?case
  proof (cases "getProb lead > 0.5")
    case False
    with Cons.prems(2) e1 have rest: "update_leads_loop c model js a = Inr a'"
      by simp
    from Cons.IH[OF g rest] obtain b' where
      "update_leads_loop c model js b = Inr b'" and "geometry a' = geometry b'"
      by blast
    with False e1 show ?thesis by simp
  next
    case True
    with Cons.prems(2) e1 obtain lx k z ly lv where
      e2: "idx (getLeadX lead) 0 = Inr lx"
      and e3: "get_path_length_idx c (getPosition model) lx = Inr k"
      and e4: "idx (getZ (getPosition model)) k = Inr z"
      and e5: "idx (getLeadY lead) 0 = Inr ly"
      and e6: "store (lead_vertices (scene a)) j
                 (fst (calib_frame_to_full_frame c a lx ly (z + 1.22))) = Inr lv"
      and rest: "update_leads_loop c model js (a\<lparr>scene := (scene a)\<lparr>lead_vertices := lv\<rparr>\<rparr>) = Inr a'"
      by (auto elim!: bindE_InrE)
    have g1: "geometry (a\<lparr>scene := (scene a)\<lparr>lead_vertices := lv\<rparr>\<rparr>)
        = geometry (b\<lparr>scene := (scene b)\<lparr>lead_vertices := lv\<rparr>\<rparr>)"
      by (rule geometry_upd(6)[OF g])
    from Cons.IH[OF g1 rest] obtain b' where
      r: "update_leads_loop c model js (b\<lparr>scene := (scene b)\<lparr>lead_vertices := lv\<rparr>\<rparr>) = Inr b'"
      and gb: "geometry a' = geometry b'"
      by blast
    have f6: "store (lead_vertices (scene b)) j
                 (fst (calib_frame_to_full_frame c b lx ly (z + 1.22))) = Inr lv"
      using e6 geometry_sel(6)[OF g] geometry_calib[OF g] by simp
    have "update_leads_loop c model (j # js) b = Inr b'"
      using True e1 e2 e3 e4 e5 f6 r by simp
    with gb show ?thesis by blast
  qed
qed

lemma geometry_update_model:
  assumes "geometry a = geometry b" and "update_model c sm a model = Inr a'"
  shows "\<exists>b'. update_model c sm b model = Inr b' \<and> geometry a' = geometry b'"
proof -
  from assms(2) obtain md line0 mi a1 a2 h k tv where
    e1: "draw_distance c model = Inr md"
    and e2: "idx (getLaneLines model) 0 = Inr line0"
    and e3: "get_path_length_idx c line0 md = Inr mi"
    and l1: "lane_lines_loop c model mi [0..int (length (lane_line_vertices (scene a))) - 1] a = Inr a1"
    and l2: "road_edges_loop c model mi [0..int (length (road_edge_vertices (scene a1))) - 1] a1 = Inr a2"
    and e4: "path_distance model md = Inr h"
    and e5: "get_path_length_idx c (getPosition model) h = Inr k"
    and e6: "update_line_data c (a2\<lparr>scene := (scene a2)\<lparr>lateral_plan := lateralPlan sm\<rparr>\<rparr>)
               (getPosition model) 0.5 1.22
               (track_vertices (scene (a2\<lparr>scene := (scene a2)\<lparr>lateral_plan := lateralPlan sm\<rparr>\<rparr>))) k = Inr tv"
    and a': "a' = (a2\<lparr>scene := (scene a2)\<lparr>lateral_plan := lateralPlan sm\<rparr>\<rparr>)\<lparr>scene :=
               (scene (a2\<lparr>scene := (scene a2)\<lparr>lateral_plan := lateralPlan sm\<rparr>\<rparr>))\<lparr>track_vertices := tv\<rparr>\<rparr>"
    unfolding update_model_def Let_def by (elim bindE_InrE) auto
  note g = assms(1)
  from geometry_lane_lines_loop[OF g l1] obtain b1 where
    m1: "lane_lines_loop c model mi [0..int (length (lane_line_vertices (scene a))) - 1] b = Inr b1"
    and g1: "geometry a1 = geometry b1"
    by blast
  from geometry_road_edges_loop[OF g1 l2] obtain b2 where
    m2: "road_edges_loop c model mi [0..int (length (road_edge_vertices (scene a1))) - 1] b1 = Inr b2"
    and g2: "geometry a2 = geometry b2"
    by blast
  let ?a3 = "a2\<lparr>scene := (scene a2)\<lparr>lateral_plan := lateralPlan sm\<rparr>\<rparr>"
  let ?b3 = "b2\<lparr>scene := (scene b2)\<lparr>lateral_plan := lateralPlan sm\<rparr>\<rparr>"
  have g3: "geometry ?a3 = geometry ?b3"
    by (rule geometry_upd(7)[OF g2])
  have f6: "update_line_data c ?b3 (getPosition model) 0.5 1.22 (track_vertices (scene ?b3)) k = Inr tv"
    using e6 geometry_update_line_data[OF g3] geometry_sel(5)[OF g3] by simp
  have g4: "geometry a' = geometry (?b3\<lparr>scene := (scene ?b3)\<lparr>track_vertices := tv\<rparr>\<rparr>)"
    unfolding a' by (rule geometry_upd(5)[OF g3])
  have "update_model c sm b model = Inr (?b3\<lparr>scene := (scene ?b3)\<lparr>track_vertices := tv\<rparr>\<rparr>)"
    using e1 e2 e3 m1 m2 e4 e5 f6 geometry_sel(2)[OF g] geometry_sel(4)[OF g1]
    by (simp add: update_model_def Let_def)
  with g4 show ?thesis by blast
qed

lemma geometry_rebuild:
  assumes "geometry a = geometry b"
    and "bindE (update_model c sm a model) (\<lambda>s1. update_leads c s1 model) = Inr a'"
  shows "\<exists>b'. bindE (update_model c sm b model) (\<lambda>s1. update_leads c s1 model) = Inr b'
           \<and> geometry a' = geometry b'"
proof -
  from assms(2) obtain a1 where u: "update_model c sm a model = Inr a1"
    and l: "update_leads c a1 model = Inr a'"
    by (auto elim!: bindE_InrE)
  from geometry_update_model[OF assms(1) u] obtain b1 where
    u': "update_model c sm b model = Inr b1" and g1: "geometry a1 = geometry b1"
    by blast
  from l have "update_leads_loop c model [0, 1] a1 = Inr a'"
    by (simp add: update_leads_def)
  from geometry_update_leads_loop[OF g1 this] obtain b' where
    "update_leads_loop c model [0, 1] b1 = Inr b'" and "geometry a' = geometry b'"
    by blast
  with u' show ?thesis
    by (auto simp: update_leads_def)
qed

lemma update_state_rebuilds:
  assumes "updated sm ''modelV2''" and "vg s" and "update_state c p sm t s = Inr s'"
  shows "buffers_of (bindE (update_model c sm s (modelV2 sm))
                       (\<lambda>s1. update_leads c s1 (modelV2 sm)))
           = Inr (vertex_buffers (scene s'))"
proof -
  from assms(3) obtain sc1 s1 sc2 where
    car: "(if updated sm ''carState''
      then update_car_state sm t (status s)
             (update_state_controls sm (update_state_params p t (scene s)))
      else Inr (update_state_controls sm (update_state_params p t (scene s)))) = Inr sc1"
    and model: "update_state_model c sm (s\<lparr>scene := sc1\<rparr>) = Inr s1"
    and sens: "update_state_sensors sm
           (update_state_panda sm (update_state_calibration sm (scene s1))) = Inr sc2"
    and res: "s' = s1\<lparr>scene := (update_state_gnss sm
                 ((update_state_camera c sm sc2)
                    \<lparr>started := (deviceState_getStarted sm
                                 \<and> ignition (update_state_camera c sm sc2))\<rparr>))
               \<lparr>lastTime := t\<rparr>\<rparr>"
    by (rule update_state_InrE)
  from car have "scene_geometry sc1 = scene_geometry (scene s)"
    by (auto split: if_splits dest: scene_geometry_car_state)
  then have g: "geometry (s\<lparr>scene := sc1\<rparr>) = geometry s"
    by (simp add: geometry_def)
  from model assms(1,2) have
    "bindE (update_model c sm (s\<lparr>scene := sc1\<rparr>) (modelV2 sm))
       (\<lambda>x. update_leads c x (modelV2 sm)) = Inr s1"
    by (simp add: update_state_model_def)
  from geometry_rebuild[OF g this] obtain r where
    rb: "bindE (update_model c sm s (modelV2 sm)) (\<lambda>x. update_leads c x (modelV2 sm)) = Inr r"
    and gr: "geometry s1 = geometry r"
    by blast
  from vertex_buffers_sensors[OF sens] have b3: "vertex_buffers sc2 = vertex_buffers (scene s1)"
    by simp
  from res b3 geometry_buffers[OF gr] have "vertex_buffers (scene s') = vertex_buffers (scene r)"
    by simp
  with rb show ?thesis
    by (simp add: buffers_of_def)
qed


text \<open>
  C4 (amended): on an update of \<open>modelV2\<close> the vertex buffers and lead markers are rebuilt
  when the drawing context \<open>s->vg\<close> is set, whether or not a calibration message has been
  received: the vertex buffers after a tick of \<open>update_state\<close> are the ones that
  \<open>update_model\<close> followed by \<open>update_leads\<close> builds from the state before the tick. In every
  tick of \<open>update_state\<close> without that (no model update, or no drawing context) the vertex
  buffers are left unchanged.
\<close>

theorem model_rebuild_gate:
  "(updated sm ''modelV2'' \<and> vg s \<and> update_state c p sm t s = Inr s' \<longrightarrow>
      buffers_of (bindE (update_model c sm s (modelV2 sm))
                    (\<lambda>s1. update_leads c s1 (modelV2 sm)))
        = Inr (vertex_buffers (scene s')))
   \<and> (updated sm ''modelV2'' \<and> vg s \<longrightarrow>
        update_state_model c sm s =
          bindE (update_model c sm s (modelV2 sm)) (\<lambda>s1. update_leads c s1 (modelV2 sm)))
   \<and> (\<not> (updated sm ''modelV2'' \<and> vg s) \<and> update_state c p sm t s = Inr s' \<longrightarrow>
        vertex_buffers (scene s') = vertex_buffers (scene s))"
proof (intro conjI impI)
  assume "updated sm ''modelV2'' \<and> vg s \<and> update_state c p sm t s = Inr s'"
  then show "buffers_of (bindE (update_model c sm s (modelV2 sm))
                    (\<lambda>s1. update_leads c s1 (modelV2 sm)))
        = Inr (vertex_buffers (scene s'))"
    using update_state_rebuilds by blast
next
  assume "updated sm ''modelV2'' \<and> vg s"
  then show "update_state_model c sm s =
      bindE (update_model c sm s (modelV2 sm)) (\<lambda>s1. update_leads c s1 (modelV2 sm))"
    by (simp add: update_state_model_def)
next
  assume "\<not> (updated sm ''modelV2'' \<and> vg s) \<and> update_state c p sm t s = Inr s'"
  then show "vertex_buffers (scene s') = vertex_buffers (scene s)"
    using update_state_skips_model by blast
qed

text \<open>
  A tick with a model update and the drawing context: on the calibrated scene, and before
  any calibration.
\<close>

lemma ev_state_cal: "line_cnt (track_of (update_state c0 params0 sm_far 1 s_cal)) = Inr 18"
  by (simp add: line_cnt_def track_of_def update_state_def update_state_model_def update_model_def
      update_leads_def sm_far_def sm_model_def s_cal_def s0_def sm0_def model_far_def model0_def
      traj0_def traj_far_def view_from_device_def
      update_state_params_def update_state_controls_def update_state_sensors_def
      update_state_panda_def update_state_calibration_def update_state_camera_def
      update_state_gnss_def draw_distance_def path_distance_def get_path_length_idx_def
      path_length_loop.simps update_line_data_def c0_def clamp_def
      scene0_sel empty_line_def idx_def store_def calib_identity[unfolded c0_def] upto_rec1 Let_def
      cong: bindE_weak_cong prod.case_cong_weak)

lemma ev_state_vg: "line_cnt (track_of (update_state c0 params0 sm_far 1 s_vg)) = Inr 0"
  by (simp add: line_cnt_def track_of_def update_state_def update_state_model_def update_model_def
      update_leads_def sm_far_def sm_model_def s_vg_def s0_def sm0_def model_far_def model0_def
      traj0_def traj_far_def
      update_state_params_def update_state_controls_def update_state_sensors_def
      update_state_panda_def update_state_calibration_def update_state_camera_def
      update_state_gnss_def draw_distance_def path_distance_def get_path_length_idx_def
      path_length_loop.simps update_line_data_def c0_def clamp_def
      scene0_sel empty_line_def idx_def store_def calib_uncalibrated upto_rec1 Let_def
      cong: bindE_weak_cong prod.case_cong_weak)

theorem model_rebuild_gate_witness:
  "updated sm_far ''modelV2'' \<and> vg s_cal \<and> vg s_vg
   \<and> world_objects_visible (scene s_cal) \<and> \<not> world_objects_visible (scene s_vg)
   \<and> buffers_of (bindE (update_model c0 sm_far s_cal (modelV2 sm_far))
                   (\<lambda>s1. update_leads c0 s1 (modelV2 sm_far)))
       = buffers_of (update_state c0 params0 sm_far 1 s_cal)
   \<and> line_cnt (track_of (update_state c0 params0 sm_far 1 s_cal)) = Inr 18
   \<and> cnt (track_vertices (scene s_cal)) = 0
   \<and> buffers_of (bindE (update_model c0 sm_far s_vg (modelV2 sm_far))
                   (\<lambda>s1. update_leads c0 s1 (modelV2 sm_far)))
       = buffers_of (update_state c0 params0 sm_far 1 s_vg)
   \<and> line_cnt (track_of (update_state c0 params0 sm_far 1 s_vg)) = Inr 0
   \<and> update_state_model c0 sm_far s_vg =
       bindE (update_model c0 sm_far s_vg (modelV2 sm_far))
         (\<lambda>s1. update_leads c0 s1 (modelV2 sm_far))
   \<and> world_objects_visible (scene s_novg)
   \<and> \<not> (updated sm_far ''modelV2'' \<and> vg s_novg)
   \<and> buffers_of (update_state c0 params0 sm_far 1 s_novg) = Inr (vertex_buffers (scene s_novg))"
proof -
  have h1: "updated sm_far ''modelV2'' \<and> vg s_cal \<and> vg s_vg"
    by (simp add: sm_far_def sm_model_def s_vg_def s_cal_def s0_def)
  have w: "world_objects_visible (scene s_cal) \<and> \<not> world_objects_visible (scene s_vg)"
    by (simp add: s_cal_def s_vg_def s0_def scene0_sel)
  have h2: "\<not> (updated sm_far ''modelV2'' \<and> vg s_novg)"
    by (simp add: s_novg_def)
  have h3: "world_objects_visible (scene s_novg)"
    by (simp add: s_novg_def s_cal_def)
  obtain s1 where u1: "update_state c0 params0 sm_far 1 s_cal = Inr s1"
    using ev_state_cal
    by (cases "update_state c0 params0 sm_far 1 s_cal") (simp_all add: line_cnt_def track_of_def)
  obtain s2 where u2: "update_state c0 params0 sm_far 1 s_vg = Inr s2"
    using ev_state_vg
    by (cases "update_state c0 params0 sm_far 1 s_vg") (simp_all add: line_cnt_def track_of_def)
  have "\<exists>s'. update_state c0 params0 sm_far 1 s_novg = Inr s'"
    by (simp add: update_state_def update_state_model_def sm_far_def sm_model_def s_novg_def
        sm0_def update_state_sensors_def Let_def)
  then obtain s3 where u3: "update_state c0 params0 sm_far 1 s_novg = Inr s3"
    by blast
  from model_rebuild_gate[of sm_far s_cal c0 params0 1 s1] h1 u1
  have c1: "buffers_of (bindE (update_model c0 sm_far s_cal (modelV2 sm_far))
                   (\<lambda>s1. update_leads c0 s1 (modelV2 sm_far)))
       = buffers_of (update_state c0 params0 sm_far 1 s_cal)"
    by (simp add: buffers_of_def)
  from model_rebuild_gate[of sm_far s_vg c0 params0 1 s2] h1 u2
  have c2: "buffers_of (bindE (update_model c0 sm_far s_vg (modelV2 sm_far))
                   (\<lambda>s1. update_leads c0 s1 (modelV2 sm_far)))
       = buffers_of (update_state c0 params0 sm_far 1 s_vg)"
    by (simp add: buffers_of_def)
  from model_rebuild_gate[of sm_far s_vg c0 params0 1 s2] h1
  have c3: "update_state_model c0 sm_far s_vg =
       bindE (update_model c0 sm_far s_vg (modelV2 sm_far))
         (\<lambda>s1. update_leads c0 s1 (modelV2 sm_far))"
    by blast
  from model_rebuild_gate[of sm_far s_novg c0 params0 1 s3] h2 u3
  have "vertex_buffers (scene s3) = vertex_buffers (scene s_novg)"
    by blast
  with u3 have c4: "buffers_of (update_state c0 params0 sm_far 1 s_novg)
      = Inr (vertex_buffers (scene s_novg))"
    by (simp add: buffers_of_def)
  have t0: "cnt (track_vertices (scene s_cal)) = 0"
    by (simp add: s_cal_def scene0_sel empty_line_def)
  from h1 w c1 ev_state_cal t0 c2 ev_state_vg c3 h3 h2 c4 show ?thesis
    by blast
qed

text \<open>
  Before any calibration message (\<open>world_objects_visible\<close> false, the calibration matrix
  still zero), a model update with the drawing context set does rebuild: the path buffer is
  written (every point projects to a pair of NaN, so the count stays 0).
\<close>

theorem model_rebuild_counterexample:
  "\<not> world_objects_visible (scene s_vg) \<and> updated sm_model ''modelV2''
   \<and> track_vertices (scene s_vg) = \<lparr>vs = replicate 66 zero_vertex, cnt = 0\<rparr>
   \<and> track_of (update_state c0 params0 sm_model 1 s_vg) =
       Inr \<lparr>vs = (replicate 66 zero_vertex)[0 := \<lparr>vx = NaN, vy = NaN\<rparr>], cnt = 0\<rparr>"
  by (simp add: track_of_def update_state_def update_state_model_def update_model_def
      update_leads_def sm_model_def s_vg_def s0_def sm0_def model0_def traj0_def
      update_state_params_def update_state_controls_def update_state_sensors_def
      update_state_panda_def update_state_calibration_def update_state_camera_def
      update_state_gnss_def draw_distance_def path_distance_def get_path_length_idx_def
      path_length_loop.simps update_line_data_def c0_def clamp_def
      scene0_sel empty_line_def idx_def store_def calib_uncalibrated upto_rec1 Let_def
      cong: bindE_weak_cong prod.case_cong_weak)

section \<open>The brightness\<close>

lemma curve_mono:
  assumes "b \<le> b'"
  shows "lightness_curve b \<le> lightness_curve b'"
proof -
  have knee: "(8::real) / 903.3 \<le> ((8 + 16.0) / 116.0) ^ 3"
    by (simp add: power3_eq_cube)
  consider "b' \<le> 8" | "b \<le> 8" "8 < b'" | "8 < b"
    using assms by linarith
  then show ?thesis
  proof cases
    case 1
    with assms show ?thesis by (simp add: lightness_curve_def divide_right_mono)
  next
    case 2
    have "b / 903.3 \<le> 8 / 903.3"
      using 2(1) by (simp add: divide_right_mono)
    also note knee
    also have "((8 + 16.0) / 116.0) ^ 3 \<le> ((b' + 16.0) / 116.0) ^ 3"
      using 2(2) by (intro power_mono) simp_all
    finally show ?thesis
      using 2 by (simp add: lightness_curve_def)
  next
    case 3
    with assms have "((b + 16.0) / 116.0) ^ 3 \<le> ((b' + 16.0) / 116.0) ^ 3"
      by (intro power_mono) simp_all
    with 3 assms show ?thesis by (simp add: lightness_curve_def)
  qed
qed

lemma clamp_mono: "a \<le> b \<Longrightarrow> lo \<le> hi \<Longrightarrow> clamp a lo hi \<le> clamp b lo hi"
  by (simp add: clamp_def)

lemma trunc_mono:
  assumes "a \<le> b"
  shows "trunc a \<le> trunc b"
proof -
  consider "0 \<le> a" | "a < 0" "0 \<le> b" | "b < 0"
    by linarith
  then show ?thesis
  proof cases
    case 1
    with assms show ?thesis by (simp add: trunc_def floor_mono)
  next
    case 2
    have "\<lceil>a\<rceil> \<le> 0"
      using 2(1) by (simp add: ceiling_le_iff)
    moreover have "0 \<le> \<lfloor>b\<rfloor>"
      using 2(2) by simp
    ultimately have "\<lceil>a\<rceil> \<le> \<lfloor>b\<rfloor>"
      by linarith
    with 2 show ?thesis by (simp add: trunc_def)
  next
    case 3
    with assms show ?thesis by (simp add: trunc_def ceiling_mono)
  qed
qed

lemma clipped_brightness_mono:
  assumes "light_sensor (scene s1) \<le> light_sensor (scene s2)"
    and "started (scene s1) = started (scene s2)"
  shows "clipped_brightness s1 \<le> clipped_brightness s2"
proof -
  have "100.0 * light_sensor (scene s1) \<le> 100.0 * light_sensor (scene s2)"
    using assms(1) by simp
  then have "lightness_curve (100.0 * light_sensor (scene s1))
      \<le> lightness_curve (100.0 * light_sensor (scene s2))"
    by (rule curve_mono)
  then have "clamp (100.0 * lightness_curve (100.0 * light_sensor (scene s1))) 10.0 100.0
      \<le> clamp (100.0 * lightness_curve (100.0 * light_sensor (scene s2))) 10.0 100.0"
    by (intro clamp_mono) simp_all
  with assms(2) show ?thesis
    by (simp add: clipped_brightness_def Let_def)
qed

lemma filter_update_mono:
  assumes "filter_x f1 \<le> filter_x f2" and "filter_k f2 = filter_k f1"
    and "0 \<le> filter_k f1" and "filter_k f1 \<le> 1" and "x1 \<le> x2"
  shows "filter_x (filter_update f1 x1) \<le> filter_x (filter_update f2 x2)"
proof -
  have "filter_x f1 + (x1 - filter_x f1) * filter_k f1
      = (1 - filter_k f1) * filter_x f1 + filter_k f1 * x1"
    by (simp add: algebra_simps)
  also have "\<dots> \<le> (1 - filter_k f1) * filter_x f2 + filter_k f1 * x2"
    using assms by (intro add_mono mult_left_mono) simp_all
  also have "\<dots> = filter_x f2 + (x2 - filter_x f2) * filter_k f1"
    by (simp add: algebra_simps)
  finally show ?thesis
    using assms(2) by (simp add: filter_update_def)
qed

lemma light_le_scene:
  assumes "light_le s1 s2"
  shows "started (scene s2) = started (scene s1)" "ignition (scene s2) = ignition (scene s1)"
    "accel_sensor (scene s2) = accel_sensor (scene s1)"
    "gyro_sensor (scene s2) = gyro_sensor (scene s1)"
    "light_sensor (scene s1) \<le> light_sensor (scene s2)"
proof -
  from assms have eq: "s2 = s1\<lparr>scene := (scene s1)\<lparr>light_sensor := light_sensor (scene s2)\<rparr>\<rparr>"
    and le: "light_sensor (scene s1) \<le> light_sensor (scene s2)"
    by (simp_all add: light_le_def)
  show "light_sensor (scene s1) \<le> light_sensor (scene s2)" by (rule le)
  show "started (scene s2) = started (scene s1)" by (subst eq) simp
  show "ignition (scene s2) = ignition (scene s1)" by (subst eq) simp
  show "accel_sensor (scene s2) = accel_sensor (scene s1)" by (subst eq) simp
  show "gyro_sensor (scene s2) = gyro_sensor (scene s1)" by (subst eq) simp
qed

lemma device_le_fields:
  assumes "device_le d1 d2"
  shows "awake d2 = awake d1" "awake_timeout d2 = awake_timeout d1"
    "accel_prev d2 = accel_prev d1" "gyro_prev d2 = gyro_prev d1"
    "accel_samples d2 = accel_samples d1"
    "filter_k (brightness_filter d2) = filter_k (brightness_filter d1)"
    "filter_x (brightness_filter d1) \<le> filter_x (brightness_filter d2)"
    "last_brightness d1 \<le> last_brightness d2"
proof -
  from assms have eq: "d2 = d1\<lparr>brightness_filter :=
        (brightness_filter d1)\<lparr>filter_x := filter_x (brightness_filter d2)\<rparr>,
      last_brightness := last_brightness d2\<rparr>"
    and le: "filter_x (brightness_filter d1) \<le> filter_x (brightness_filter d2)"
      "last_brightness d1 \<le> last_brightness d2"
    by (simp_all add: device_le_def)
  show "filter_x (brightness_filter d1) \<le> filter_x (brightness_filter d2)"
    "last_brightness d1 \<le> last_brightness d2"
    by (rule le)+
  show "awake d2 = awake d1" by (subst eq) simp
  show "awake_timeout d2 = awake_timeout d1" by (subst eq) simp
  show "accel_prev d2 = accel_prev d1" by (subst eq) simp
  show "gyro_prev d2 = gyro_prev d1" by (subst eq) simp
  show "accel_samples d2 = accel_samples d1" by (subst eq) simp
  show "filter_k (brightness_filter d2) = filter_k (brightness_filter d1)" by (subst eq) simp
qed

lemma device_leI:
  assumes "awake d2 = awake d1" "awake_timeout d2 = awake_timeout d1"
    "accel_prev d2 = accel_prev d1" "gyro_prev d2 = gyro_prev d1"
    "accel_samples d2 = accel_samples d1"
    "filter_k (brightness_filter d2) = filter_k (brightness_filter d1)"
    "filter_x (brightness_filter d1) \<le> filter_x (brightness_filter d2)"
    "last_brightness d1 \<le> last_brightness d2"
  shows "device_le d1 d2"
  using assms by (simp add: device_le_def Device.equality FirstOrderFilter.equality)

lemma updateBrightness_mono:
  assumes "device_le d1 d2" and "light_le s1 s2"
    and "0 \<le> filter_k (brightness_filter d1)" and "filter_k (brightness_filter d1) \<le> 1"
  shows "device_le (fst (updateBrightness d1 s1)) (fst (updateBrightness d2 s2))"
proof -
  note d = device_le_fields[OF assms(1)] and s = light_le_scene[OF assms(2)]
  have tgt: "clipped_brightness s1 \<le> clipped_brightness s2"
    using s by (intro clipped_brightness_mono) simp_all
  have fx: "filter_x (filter_update (brightness_filter d1) (clipped_brightness s1))
      \<le> filter_x (filter_update (brightness_filter d2) (clipped_brightness s2))"
    using d(6,7) assms(3,4) tgt by (intro filter_update_mono)
  show ?thesis
    using d fx trunc_mono[OF fx]
    by (intro device_leI) (simp_all add: updateBrightness_def Let_def filter_update_def)
qed

lemma should_wake_timeout [simp]:
  "should_wake (d\<lparr>awake_timeout := n\<rparr>) s = should_wake d s"
  by (simp add: should_wake_def)

lemma updateWakefulness_InrE:
  assumes "updateWakefulness c d s = Inr d'"
  obtains "started (scene s) \<or> ignition (scene s)"
      "d' = setAwake c (d\<lparr>awake_timeout := max (awake_timeout d - 1) 0\<rparr>)
              (max (awake_timeout d - 1) 0 \<noteq> 0) (should_wake d s)"
  | "\<not> (started (scene s) \<or> ignition (scene s))" "accel_samples d \<noteq> 0"
      "d' = setAwake c
              (d\<lparr>awake_timeout := max (awake_timeout d - 1) 0,
                 gyro_prev := gyro_sensor (scene s),
                 accel_prev := (accel_prev d * real_of_int (accel_samples d - 1)
                                + accel_sensor (scene s)) / real_of_int (accel_samples d)\<rparr>)
              (max (awake_timeout d - 1) 0 \<noteq> 0) (should_wake d s)"
  using assms
  by (auto simp: updateWakefulness_def Let_def checked_div_def should_wake_def
      elim!: bindE_InrE split: if_splits)

lemma updateWakefulness_mono:
  assumes "device_le d1 d2" and "light_le s1 s2" and "updateWakefulness c d1 s1 = Inr d1'"
  shows "\<exists>d2'. updateWakefulness c d2 s2 = Inr d2' \<and> device_le d1' d2'"
proof -
  note d = device_le_fields[OF assms(1)] and s = light_le_scene[OF assms(2)]
  have sw: "should_wake d2 s2 = should_wake d1 s1"
    using d s by (simp add: should_wake_def)
  from assms(3) show ?thesis
  proof (cases rule: updateWakefulness_InrE)
    case 1
    let ?d2 = "setAwake c (d2\<lparr>awake_timeout := max (awake_timeout d2 - 1) 0\<rparr>)
              (max (awake_timeout d2 - 1) 0 \<noteq> 0) (should_wake d2 s2)"
    have "updateWakefulness c d2 s2 = Inr ?d2"
      using 1(1) s by (simp add: updateWakefulness_def Let_def)
    moreover have "device_le d1' ?d2"
      unfolding 1(2) sw using d
      by (intro device_leI) (simp_all add: setAwake_def Let_def)
    ultimately show ?thesis by blast
  next
    case 2
    let ?d2 = "setAwake c
              (d2\<lparr>awake_timeout := max (awake_timeout d2 - 1) 0,
                 gyro_prev := gyro_sensor (scene s2),
                 accel_prev := (accel_prev d2 * real_of_int (accel_samples d2 - 1)
                                + accel_sensor (scene s2)) / real_of_int (accel_samples d2)\<rparr>)
              (max (awake_timeout d2 - 1) 0 \<noteq> 0) (should_wake d2 s2)"
    have "updateWakefulness c d2 s2 = Inr ?d2"
      using 2(1,2) s d by (simp add: updateWakefulness_def Let_def checked_div_def)
    moreover have "device_le d1' ?d2"
      unfolding 2(3) sw using d s
      by (intro device_leI) (simp_all add: setAwake_def Let_def)
    ultimately show ?thesis by blast
  qed
qed

lemma updateBrightness_filter_k [simp]:
  "filter_k (brightness_filter (fst (updateBrightness d s))) = filter_k (brightness_filter d)"
  by (simp add: updateBrightness_def Let_def filter_update_def)

lemma updateWakefulness_filter [simp]:
  "updateWakefulness c d s = Inr d' \<Longrightarrow> brightness_filter d' = brightness_filter d"
  by (erule updateWakefulness_InrE) (simp_all add: setAwake_def Let_def)

lemma Device_update_mono:
  assumes "device_le d1 d2" and "light_le s1 s2"
    and "0 \<le> filter_k (brightness_filter d1)" and "filter_k (brightness_filter d1) \<le> 1"
    and "Device_update c d1 s1 = Inr d1'"
  shows "\<exists>d2'. Device_update c d2 s2 = Inr d2' \<and> device_le d1' d2'
           \<and> filter_k (brightness_filter d1') = filter_k (brightness_filter d1)"
proof -
  from assms(5) have w: "updateWakefulness c (fst (updateBrightness d1 s1)) s1 = Inr d1'"
    by (simp add: Device_update_def)
  from updateWakefulness_mono[OF updateBrightness_mono[OF assms(1-4)] assms(2) w]
    updateWakefulness_filter[OF w]
  show ?thesis
    by (simp add: Device_update_def)
qed

lemma device_ticks_mono:
  assumes "list_all2 light_le ss1 ss2" and "device_le d1 d2"
    and "0 \<le> filter_k (brightness_filter d1)" and "filter_k (brightness_filter d1) \<le> 1"
    and "device_ticks c d1 ss1 = Inr d1'"
  shows "\<exists>d2'. device_ticks c d2 ss2 = Inr d2' \<and> device_le d1' d2'"
  using assms
proof (induction ss1 ss2 arbitrary: d1 d2 rule: list_all2_induct)
  case Nil
  then show ?case by simp
next
  case (Cons s1 ss1 s2 ss2)
  from Cons.prems(4) obtain e1 where
    u: "Device_update c d1 s1 = Inr e1" and r: "device_ticks c e1 ss1 = Inr d1'"
    by (auto elim!: bindE_InrE)
  from Device_update_mono[OF Cons.prems(1) Cons.hyps(1) Cons.prems(2,3) u] obtain e2 where
    u2: "Device_update c d2 s2 = Inr e2" and le: "device_le e1 e2"
    and k: "filter_k (brightness_filter e1) = filter_k (brightness_filter d1)"
    by blast
  from Cons.IH[OF le _ _ r] k Cons.prems(2,3) obtain d2' where
    "device_ticks c e2 ss2 = Inr d2'" "device_le d1' d2'"
    by auto
  with u2 show ?case
    by simp
qed

lemma device_le_refl: "device_le d d"
  by (simp add: device_le_def)

text \<open>
  While the scene is not started, every tick multiplies the distance of the filtered value
  to \<open>BACKLIGHT_OFFROAD\<close> by \<open>1 - k\<close>, \<open>k\<close> being the gain of the filter.
\<close>

lemma setAwake_filter [simp]:
  "brightness_filter (setAwake c d on reset) = brightness_filter d"
  by (simp add: setAwake_def Let_def)

lemma Device_update_filter:
  assumes "Device_update c d s = Inr d'"
  shows "brightness_filter d' = filter_update (brightness_filter d) (clipped_brightness s)"
  using updateWakefulness_filter[OF assms[unfolded Device_update_def]]
  by (simp add: updateBrightness_def Let_def)

lemma offroad_step:
  "filter_x (filter_update f BACKLIGHT_OFFROAD) - BACKLIGHT_OFFROAD
     = (1 - filter_k f) * (filter_x f - BACKLIGHT_OFFROAD)"
  "filter_k (filter_update f x) = filter_k f"
  by (simp_all add: filter_update_def algebra_simps)

lemma offroad_run:
  assumes "list_all (\<lambda>s. \<not> started (scene s)) ss" and "device_ticks c d ss = Inr d'"
  shows "filter_k (brightness_filter d') = filter_k (brightness_filter d)
       \<and> filter_x (brightness_filter d') - BACKLIGHT_OFFROAD
           = (1 - filter_k (brightness_filter d)) ^ length ss
               * (filter_x (brightness_filter d) - BACKLIGHT_OFFROAD)"
  using assms
proof (induction ss arbitrary: d)
  case Nil
  then show ?case by simp
next
  case (Cons s ss)
  from Cons.prems(2) obtain d1 where u: "Device_update c d s = Inr d1"
    and r: "device_ticks c d1 ss = Inr d'"
    by (auto elim!: bindE_InrE)
  from Cons.prems(1) have off: "\<not> started (scene s)" and rest: "list_all (\<lambda>s. \<not> started (scene s)) ss"
    by simp_all
  from Device_update_filter[OF u] off
  have f1: "brightness_filter d1 = filter_update (brightness_filter d) BACKLIGHT_OFFROAD"
    by (simp add: clipped_brightness_def Let_def)
  from Cons.IH[OF rest r] f1 show ?case
    by (simp add: offroad_step)
qed

lemma trunc_eq_75: "trunc r = 75 \<longleftrightarrow> 75 \<le> r \<and> r < 76"
proof (cases "0 \<le> r")
  case True
  then show ?thesis
    by (auto simp: trunc_def floor_eq_iff)
next
  case False
  then have "\<lceil>r\<rceil> \<le> 0" by (simp add: ceiling_le_iff)
  then have "\<lceil>r\<rceil> \<noteq> 75" by linarith
  with False show ?thesis by (simp add: trunc_def)
qed

lemma trunc_below_75: "r < 75 \<Longrightarrow> trunc r \<le> 74"
proof (cases "0 \<le> r")
  case True
  assume "r < 75"
  then have "\<lfloor>r\<rfloor> < 75" by (simp add: floor_less_iff)
  with True show ?thesis by (simp add: trunc_def)
next
  case False
  then have "\<lceil>r\<rceil> \<le> 0" by (simp add: ceiling_le_iff)
  with False show ?thesis by (simp add: trunc_def)
qed

lemma offroad_below:
  assumes "filter_k f < 1" and "filter_x f < BACKLIGHT_OFFROAD"
  shows "filter_x (filter_update f BACKLIGHT_OFFROAD) < BACKLIGHT_OFFROAD"
proof -
  have "filter_x (filter_update f BACKLIGHT_OFFROAD) - BACKLIGHT_OFFROAD
      = (1 - filter_k f) * (filter_x f - BACKLIGHT_OFFROAD)"
    by (rule offroad_step)
  moreover have "(1 - filter_k f) * (filter_x f - BACKLIGHT_OFFROAD) < 0"
    using assms by (simp add: mult_pos_neg)
  ultimately show ?thesis by linarith
qed

text \<open>
  C7 (amended): the brightness of a tick is 0 while the device is not awake, and otherwise
  the output of the filter cut to an integer, the output being
  \<open>x + (target - x) * k\<close> for the filtered value \<open>x\<close> and the gain \<open>k\<close>; the target is the
  clamped response curve of the light estimate while the scene is started and
  \<open>BACKLIGHT_OFFROAD\<close> otherwise.

  \<^item> Over any sequence of ticks the brightness is monotonically non-decreasing in the light
    estimates: a sequence of scenes that is nowhere darker gives a brightness that is not
    lower, for a gain within [0, 1].
  \<^item> While the scene is not started the brightness is not pinned to \<open>BACKLIGHT_OFFROAD\<close>:
    over \<open>n\<close> such ticks the distance of the filtered value to \<open>BACKLIGHT_OFFROAD\<close> is
    multiplied by \<open>(1 - k) ^ n\<close>. With the device awake, the brightness of such a tick is 75
    exactly when the output of the filter lies in [75, 76), as it does when the filtered
    value is 75 already; when the filtered value is below 75 and \<open>k < 1\<close>, it stays below 75
    and the brightness is at most 74.
\<close>

theorem brightness_properties:
  "(list_all2 light_le ss1 ss2 \<and> 0 \<le> filter_k (brightness_filter d)
      \<and> filter_k (brightness_filter d) \<le> 1 \<and> device_ticks c d ss1 = Inr d1 \<longrightarrow>
      (\<exists>d2. device_ticks c d ss2 = Inr d2 \<and> last_brightness d1 \<le> last_brightness d2))
   \<and> last_brightness (fst (updateBrightness d s))
       = (if \<not> awake d then 0
          else trunc (filter_x (brightness_filter d)
                 + (clipped_brightness s - filter_x (brightness_filter d))
                     * filter_k (brightness_filter d)))
   \<and> (\<not> started (scene s) \<longrightarrow>
        clipped_brightness s = BACKLIGHT_OFFROAD
        \<and> brightness_filter (fst (updateBrightness d s))
            = filter_update (brightness_filter d) BACKLIGHT_OFFROAD)
   \<and> (list_all (\<lambda>s. \<not> started (scene s)) ss \<and> device_ticks c d ss = Inr d' \<longrightarrow>
        filter_k (brightness_filter d') = filter_k (brightness_filter d)
        \<and> filter_x (brightness_filter d') - BACKLIGHT_OFFROAD
            = (1 - filter_k (brightness_filter d)) ^ length ss
                * (filter_x (brightness_filter d) - BACKLIGHT_OFFROAD))
   \<and> (\<not> started (scene s) \<and> awake d \<longrightarrow>
        (last_brightness (fst (updateBrightness d s)) = 75 \<longleftrightarrow>
           75 \<le> filter_x (filter_update (brightness_filter d) BACKLIGHT_OFFROAD)
           \<and> filter_x (filter_update (brightness_filter d) BACKLIGHT_OFFROAD) < 76))
   \<and> (\<not> started (scene s) \<and> filter_k (brightness_filter d) < 1
        \<and> filter_x (brightness_filter d) < BACKLIGHT_OFFROAD \<longrightarrow>
        filter_x (brightness_filter (fst (updateBrightness d s))) < BACKLIGHT_OFFROAD
        \<and> last_brightness (fst (updateBrightness d s)) \<le> 74)
   \<and> (\<not> started (scene s) \<and> awake d \<and> filter_x (brightness_filter d) = BACKLIGHT_OFFROAD \<longrightarrow>
        last_brightness (fst (updateBrightness d s)) = 75)
   \<and> (\<not> awake d \<longrightarrow> last_brightness (fst (updateBrightness d s)) = 0)"
proof (intro conjI impI)
  assume h: "list_all2 light_le ss1 ss2 \<and> 0 \<le> filter_k (brightness_filter d)
      \<and> filter_k (brightness_filter d) \<le> 1 \<and> device_ticks c d ss1 = Inr d1"
  then obtain d2 where "device_ticks c d ss2 = Inr d2" "device_le d1 d2"
    using device_ticks_mono[OF _ device_le_refl, of ss1 ss2 d c d1] by blast
  then show "\<exists>d2. device_ticks c d ss2 = Inr d2 \<and> last_brightness d1 \<le> last_brightness d2"
    using device_le_fields(8) by blast
next
  show "last_brightness (fst (updateBrightness d s))
       = (if \<not> awake d then 0
          else trunc (filter_x (brightness_filter d)
                 + (clipped_brightness s - filter_x (brightness_filter d))
                     * filter_k (brightness_filter d)))"
    by (simp add: updateBrightness_def filter_update_def Let_def)
next
  assume "\<not> started (scene s)"
  then show "clipped_brightness s = BACKLIGHT_OFFROAD"
    by (simp add: clipped_brightness_def Let_def)
next
  assume "\<not> started (scene s)"
  then show "brightness_filter (fst (updateBrightness d s))
      = filter_update (brightness_filter d) BACKLIGHT_OFFROAD"
    by (simp add: updateBrightness_def clipped_brightness_def Let_def)
next
  assume h: "list_all (\<lambda>s. \<not> started (scene s)) ss \<and> device_ticks c d ss = Inr d'"
  then have a: "list_all (\<lambda>s. \<not> started (scene s)) ss" and b: "device_ticks c d ss = Inr d'"
    by simp_all
  from offroad_run[OF a b]
  show "filter_k (brightness_filter d') = filter_k (brightness_filter d)"
    and "filter_x (brightness_filter d') - BACKLIGHT_OFFROAD
            = (1 - filter_k (brightness_filter d)) ^ length ss
                * (filter_x (brightness_filter d) - BACKLIGHT_OFFROAD)"
    by simp_all
next
  assume "\<not> started (scene s) \<and> awake d"
  then show "last_brightness (fst (updateBrightness d s)) = 75 \<longleftrightarrow>
           75 \<le> filter_x (filter_update (brightness_filter d) BACKLIGHT_OFFROAD)
           \<and> filter_x (filter_update (brightness_filter d) BACKLIGHT_OFFROAD) < 76"
    by (simp add: updateBrightness_def clipped_brightness_def Let_def trunc_eq_75)
next
  assume h: "\<not> started (scene s) \<and> filter_k (brightness_filter d) < 1
        \<and> filter_x (brightness_filter d) < BACKLIGHT_OFFROAD"
  then have lt: "filter_x (filter_update (brightness_filter d) BACKLIGHT_OFFROAD) < BACKLIGHT_OFFROAD"
    using offroad_below by blast
  with h show "filter_x (brightness_filter (fst (updateBrightness d s))) < BACKLIGHT_OFFROAD"
    by (simp add: updateBrightness_def clipped_brightness_def Let_def)
  from lt have "trunc (filter_x (filter_update (brightness_filter d) BACKLIGHT_OFFROAD)) \<le> 74"
    by (intro trunc_below_75) (simp add: BACKLIGHT_OFFROAD_def)
  with h show "last_brightness (fst (updateBrightness d s)) \<le> 74"
    by (simp add: updateBrightness_def clipped_brightness_def Let_def)
next
  assume "\<not> started (scene s) \<and> awake d \<and> filter_x (brightness_filter d) = BACKLIGHT_OFFROAD"
  then show "last_brightness (fst (updateBrightness d s)) = 75"
    by (simp add: updateBrightness_def clipped_brightness_def Let_def filter_update_def
        BACKLIGHT_OFFROAD_def trunc_def)
next
  assume "\<not> awake d"
  then show "last_brightness (fst (updateBrightness d s)) = 0"
    by (simp add: updateBrightness_def Let_def)
qed


lemmas device_eval = brightness_of_def Device_update_def updateBrightness_def
  updateWakefulness_def setAwake_def should_wake_def clipped_brightness_def lightness_curve_def
  filter_update_def FirstOrderFilter_init_def device0_def device_awake_def s_onroad_def
  s_offroad_def s_bright_def s_tap_def s0_def scene0_def c0_def BACKLIGHT_OFFROAD_def
  BACKLIGHT_TS_def BACKLIGHT_DT_def clamp_def trunc_def checked_div_def Let_def

theorem brightness_properties_witness:
  "list_all2 light_le [s_onroad] [s_bright]
   \<and> 0 \<le> filter_k (brightness_filter device_awake) \<and> filter_k (brightness_filter device_awake) \<le> 1
   \<and> brightness_of (device_ticks c0 device_awake [s_onroad]) = Inr (True, 74)
   \<and> brightness_of (device_ticks c0 device_awake [s_bright]) = Inr (True, 75)
   \<and> last_brightness (fst (updateBrightness device_awake s_onroad)) = trunc (75 + (10 - 75) / 201)
   \<and> \<not> started (scene s_offroad)
   \<and> clipped_brightness s_offroad = BACKLIGHT_OFFROAD
   \<and> brightness_filter (fst (updateBrightness device_awake s_offroad))
       = filter_update (brightness_filter device_awake) BACKLIGHT_OFFROAD
   \<and> list_all (\<lambda>s. \<not> started (scene s)) [s_offroad, s_offroad]
   \<and> brightness_of (device_ticks c0 device_dim [s_offroad, s_offroad]) = Inr (True, 10)
   \<and> filter_of (device_ticks c0 device_dim [s_offroad, s_offroad])
       = Inr (75 + (1 - 1 / 201) ^ 2 * (10 - 75))
   \<and> awake device_dim \<and> filter_k (brightness_filter device_dim) < 1
   \<and> filter_x (brightness_filter device_dim) < BACKLIGHT_OFFROAD
   \<and> last_brightness (fst (updateBrightness device_dim s_offroad)) \<noteq> 75
   \<and> last_brightness (fst (updateBrightness device_dim s_offroad)) \<le> 74
   \<and> awake device_awake \<and> filter_x (brightness_filter device_awake) = BACKLIGHT_OFFROAD
   \<and> last_brightness (fst (updateBrightness device_awake s_offroad)) = 75
   \<and> \<not> awake device0 \<and> last_brightness (fst (updateBrightness device0 s_onroad)) = 0"
proof -
  have l: "list_all2 light_le [s_onroad] [s_bright]"
    by (simp add: light_le_def s_bright_def s_onroad_def)
  have k: "0 \<le> filter_k (brightness_filter device_awake)"
    "filter_k (brightness_filter device_awake) \<le> 1"
    by (simp_all add: device_awake_def device0_def FirstOrderFilter_init_def BACKLIGHT_TS_def
        BACKLIGHT_DT_def)
  have e1: "brightness_of (device_ticks c0 device_awake [s_onroad]) = Inr (True, 74)"
    by (simp add: device_eval cong: bindE_weak_cong)
  have e2: "brightness_of (device_ticks c0 device_awake [s_bright]) = Inr (True, 75)"
    by (simp add: device_eval cong: bindE_weak_cong)
  from e1 obtain d1 where r1: "device_ticks c0 device_awake [s_onroad] = Inr d1"
    and b1: "last_brightness d1 = 74"
    unfolding brightness_of_def by (elim bindE_InrE) simp
  have e3: "brightness_of (device_ticks c0 device_dim [s_offroad, s_offroad]) = Inr (True, 10)"
    by (simp add: device_dim_def device_eval cong: bindE_weak_cong)
  then obtain d3 where r3: "device_ticks c0 device_dim [s_offroad, s_offroad] = Inr d3"
    unfolding brightness_of_def by (elim bindE_InrE) simp
  have off: "\<not> started (scene s_offroad)"
    by (simp add: s_offroad_def)
  have offs: "list_all (\<lambda>s. \<not> started (scene s)) [s_offroad, s_offroad]"
    by (simp add: s_offroad_def)
  have aw: "awake device_awake" "filter_x (brightness_filter device_awake) = BACKLIGHT_OFFROAD"
    by (simp_all add: device_awake_def device0_def FirstOrderFilter_init_def)
  have kd: "filter_k (brightness_filter device_dim) = 1 / 201"
    "filter_x (brightness_filter device_dim) = 10"
    by (simp_all add: device_dim_def device_awake_def device0_def FirstOrderFilter_init_def
        BACKLIGHT_TS_def BACKLIGHT_DT_def)
  have ka: "filter_k (brightness_filter device_awake) = 1 / 201"
    by (simp add: device_awake_def device0_def FirstOrderFilter_init_def
        BACKLIGHT_TS_def BACKLIGHT_DT_def)
  have dim: "awake device_dim" "filter_k (brightness_filter device_dim) < 1"
    "filter_x (brightness_filter device_dim) < BACKLIGHT_OFFROAD"
    by (simp_all add: kd BACKLIGHT_OFFROAD_def) (simp add: device_dim_def device_awake_def)
  have asleep: "\<not> awake device0"
    by (simp add: device0_def)
  have cb: "clipped_brightness s_onroad = 10"
    by (simp add: clipped_brightness_def s_onroad_def lightness_curve_def clamp_def Let_def)
  note th = brightness_properties[of "[s_onroad]" "[s_bright]" device_awake c0 d1 s_offroad
      "[s_offroad, s_offroad]" d3]
  note th_on = brightness_properties[of "[s_onroad]" "[s_bright]" device_awake c0 d1 s_onroad
      "[s_offroad, s_offroad]" d3]
  note th_dim = brightness_properties[of "[s_offroad, s_offroad]" "[s_offroad, s_offroad]"
      device_dim c0 d3 s_offroad "[s_offroad, s_offroad]" d3]
  from th l k r1 obtain d2 where
    r2: "device_ticks c0 device_awake [s_bright] = Inr d2"
    and le: "last_brightness d1 \<le> last_brightness d2"
    by blast
  from th_on have "last_brightness (fst (updateBrightness device_awake s_onroad))
       = (if \<not> awake device_awake then 0
          else trunc (filter_x (brightness_filter device_awake)
                 + (clipped_brightness s_onroad - filter_x (brightness_filter device_awake))
                     * filter_k (brightness_filter device_awake)))"
    by blast
  then have c1: "last_brightness (fst (updateBrightness device_awake s_onroad))
      = trunc (75 + (10 - 75) / 201)"
    by (simp add: aw ka cb BACKLIGHT_OFFROAD_def)
  from th off have c2: "clipped_brightness s_offroad = BACKLIGHT_OFFROAD
      \<and> brightness_filter (fst (updateBrightness device_awake s_offroad))
       = filter_update (brightness_filter device_awake) BACKLIGHT_OFFROAD"
    by blast
  from th_dim offs r3 have "filter_x (brightness_filter d3) - BACKLIGHT_OFFROAD
      = (1 - filter_k (brightness_filter device_dim)) ^ length [s_offroad, s_offroad]
          * (filter_x (brightness_filter device_dim) - BACKLIGHT_OFFROAD)"
    by blast
  then have "filter_x (brightness_filter d3) = 75 + (1 - 1 / 201) ^ 2 * (10 - 75)"
    by (simp add: kd BACKLIGHT_OFFROAD_def power2_eq_square)
  with r3 have c3: "filter_of (device_ticks c0 device_dim [s_offroad, s_offroad])
       = Inr (75 + (1 - 1 / 201) ^ 2 * (10 - 75))"
    by (simp add: filter_of_def)
  from th_dim off dim have c4: "last_brightness (fst (updateBrightness device_dim s_offroad)) \<le> 74"
    by blast
  have "\<not> (75 \<le> filter_x (filter_update (brightness_filter device_dim) BACKLIGHT_OFFROAD))"
    by (simp add: filter_update_def kd BACKLIGHT_OFFROAD_def)
  with th_dim off dim have c5: "last_brightness (fst (updateBrightness device_dim s_offroad)) \<noteq> 75"
    by blast
  from th off aw have c6: "last_brightness (fst (updateBrightness device_awake s_offroad)) = 75"
    by blast
  from brightness_properties[of "[s_onroad]" "[s_bright]" device0 c0 d1 s_onroad
      "[s_offroad, s_offroad]" d3] asleep
  have c7: "last_brightness (fst (updateBrightness device0 s_onroad)) = 0"
    by blast
  from l k e1 e2 c1 off c2 offs e3 c3 dim c5 c4 aw c6 asleep c7 show ?thesis
    by blast
qed

text \<open>
  After two ticks onroad in the dark the display is on and the filtered value is below 75;
  on the next tick the scene is not started, and the brightness is 74, not the offroad value.
\<close>

theorem brightness_offroad_counterexample:
  "\<not> started (scene s_offroad) \<and> trunc BACKLIGHT_OFFROAD = 75
   \<and> brightness_of (device_ticks c0 device0 [s_onroad, s_onroad, s_offroad]) = Inr (True, 74)"
  by (simp add: device_eval cong: bindE_weak_cong)

section \<open>The wakefulness\<close>

lemma setAwake_awake [simp]: "awake (setAwake c d on r) = on"
  by (cases "on = awake d") (simp_all add: setAwake_def Let_def)

lemma setAwake_timeout [simp]:
  "awake_timeout (setAwake c d on r) = (if r then 30 * int (UI_FREQ c) else awake_timeout d)"
  by (simp add: setAwake_def Let_def)

lemma setAwake_prev [simp]:
  "gyro_prev (setAwake c d on r) = gyro_prev d"
  "accel_prev (setAwake c d on r) = accel_prev d"
  by (simp_all add: setAwake_def Let_def)

lemma running_average:
  "n \<noteq> 0 \<Longrightarrow> (a * real_of_int (n - 1) + x) / real_of_int n
     = (1 - 1 / real_of_int n) * a + (1 / real_of_int n) * x"
  by (simp add: field_simps)

lemma should_wake_tap:
  "should_wake d s = (started (scene s) \<or> ignition (scene s) \<or> tap d s)"
  by (simp add: should_wake_def tap_def)

lemma updateWakefulness_total:
  assumes "accel_samples d \<noteq> 0"
  shows "\<exists>d'. updateWakefulness c d s = Inr d'"
proof (cases "started (scene s) \<or> ignition (scene s)")
  case True
  then have "updateWakefulness c d s =
      Inr (setAwake c (d\<lparr>awake_timeout := max (awake_timeout d - 1) 0\<rparr>)
             (max (awake_timeout d - 1) 0 \<noteq> 0) (should_wake d s))"
    by (simp add: updateWakefulness_def Let_def)
  then show ?thesis by (rule exI)
next
  case False
  with assms have "updateWakefulness c d s =
      Inr (setAwake c
             (d\<lparr>awake_timeout := max (awake_timeout d - 1) 0,
                gyro_prev := gyro_sensor (scene s),
                accel_prev := (accel_prev d * real_of_int (accel_samples d - 1)
                               + accel_sensor (scene s)) / real_of_int (accel_samples d)\<rparr>)
             (max (awake_timeout d - 1) 0 \<noteq> 0) (should_wake d s))"
    by (simp add: updateWakefulness_def Let_def checked_div_def)
  then show ?thesis by (rule exI)
qed

lemma updateWakefulness_step:
  assumes "updateWakefulness c d s = Inr d'"
  shows "awake_timeout d' = (if should_wake d s then 30 * int (UI_FREQ c)
                             else max (awake_timeout d - 1) 0)"
    and "awake d' = (max (awake_timeout d - 1) 0 \<noteq> 0)"
    and "started (scene s) \<or> ignition (scene s) \<Longrightarrow>
           gyro_prev d' = gyro_prev d \<and> accel_prev d' = accel_prev d"
    and "\<not> (started (scene s) \<or> ignition (scene s)) \<Longrightarrow>
           gyro_prev d' = gyro_sensor (scene s)
           \<and> accel_prev d' = (1 - 1 / real_of_int (accel_samples d)) * accel_prev d
                + (1 / real_of_int (accel_samples d)) * accel_sensor (scene s)"
proof -
  from assms show "awake_timeout d' = (if should_wake d s then 30 * int (UI_FREQ c)
                             else max (awake_timeout d - 1) 0)"
    by (cases rule: updateWakefulness_InrE) simp_all
  from assms show "awake d' = (max (awake_timeout d - 1) 0 \<noteq> 0)"
    by (cases rule: updateWakefulness_InrE) simp_all
  show "gyro_prev d' = gyro_prev d \<and> accel_prev d' = accel_prev d"
    if "started (scene s) \<or> ignition (scene s)"
    using assms that by (cases rule: updateWakefulness_InrE) simp_all
  show "gyro_prev d' = gyro_sensor (scene s)
      \<and> accel_prev d' = (1 - 1 / real_of_int (accel_samples d)) * accel_prev d
           + (1 / real_of_int (accel_samples d)) * accel_sensor (scene s)"
    if off: "\<not> (started (scene s) \<or> ignition (scene s))"
    using assms
  proof (cases rule: updateWakefulness_InrE)
    case 1
    with off show ?thesis by simp
  next
    case 2
    have "accel_prev d' = (accel_prev d * real_of_int (accel_samples d - 1)
        + accel_sensor (scene s)) / real_of_int (accel_samples d)"
      and g: "gyro_prev d' = gyro_sensor (scene s)"
      unfolding 2(3) by simp_all
    with running_average[OF 2(2)] show ?thesis
      by simp
  qed
qed

text \<open>
  C8, at an input where the code departs from it: the car is off, the display is on with 100
  ticks left, and both sensors jump. The tap is evaluated although the device is awake:
  \<open>should_wake\<close> is true, the countdown is set to \<open>30 * UI_FREQ\<close> instead of going to 99,
  and both baselines are updated.
\<close>

theorem wakefulness_tap_while_awake:
  "awake device_awake \<and> \<not> started (scene s_tap) \<and> \<not> ignition (scene s_tap)
   \<and> tap device_awake s_tap \<and> should_wake device_awake s_tap
   \<and> wake_state_of (updateWakefulness c0 device_awake s_tap) = Inr (True, 600, 1, 1 / 5)"
  by (simp add: wake_state_of_def tap_def device_eval cong: bindE_weak_cong)

section \<open>The rolling grade: the maintained mean\<close>

text \<open>
  Five samples, 10 apart, with the altitudes 1, 2, 3, 4 and 6. The iterator is incremented
  before the first write, so the fifth sample is the one that wraps: the initial mean is
  taken over the four samples and the zero of slot 0, then the fifth sample replaces slot 0
  and only the ratio of slot 0 is recomputed. The ratio stored for slot 4 still pairs the
  fourth sample with the zero that slot 0 held.
\<close>

lemma rolling_grade_buffer:
  "grade_buffer_of
     (grade_feed [(1, 10, 1), (2, 10, 2), (3, 10, 3), (4, 10, 4), (5, 10, 6)] scene0)
     = Inr ([6, 1, 2, 3, 4], [50, 10, 20, 30, 40], [25 / 2, 10, 10, 10, 10])"
  by code_simp

text \<open>
  C1, at an input where the code departs from it: after the fifth sample the maintained
  grade is 10.5 while the mean of the five wrap-around ratios of the buffer is 12.5, and
  after a sixth sample (altitude 7) the incremental update gives 11 while the recomputation
  gives 12.5.
\<close>

theorem rolling_grade_stale_ratio:
  "grade_and_true_mean
     (grade_feed [(1, 10, 1), (2, 10, 2), (3, 10, 3), (4, 10, 4), (5, 10, 6)] scene0)
     = Inr (21 / 2, 25 / 2)
   \<and> grade_and_true_mean
     (grade_feed [(1, 10, 1), (2, 10, 2), (3, 10, 3), (4, 10, 4), (5, 10, 6), (6, 10, 7)] scene0)
     = Inr (11, 25 / 2)"
  by code_simp

end
